theory Spec2Isabelle
  imports Complex_Main "HOL-Library.Word" "HOL-Library.Sublist"
begin

section \<open>The label-only membership inference notebook\<close>

text \<open>
  The repository is one notebook, \<^verbatim>\<open>notebooks/label_only_membership_inference.ipynb\<close>:
  fourteen code cells that run top to bottom. The cells call a dataset loader, a
  deep-learning framework, the toolkit's classifier wrapper and attack class, a random
  index sampler and a metric function, and glue the calls together with a few array
  operations. This theory embeds the cells as state transformers over the notebook's
  namespace, with the external calls taken from a library parameter, and the array
  operations as functions on a shape and a row-major buffer.
\<close>

subsection \<open>Exceptions and values\<close>

text \<open>
  Every exception of the run is a value. \<open>NameError x\<close> is the read of a variable that
  no cell has bound yet; \<open>OtherError\<close> stands for whatever else a library call raises
  (a missing checkpoint file, a failed download, a runtime error of the framework).
\<close>

datatype exn =
    NameError string
  | TypeError
  | ValueError
  | IndexError
  | AxisError
  | OtherError string

text \<open>
  An array element is an unsigned byte (the raw pixels) or a single-precision float.
  A finite float is denoted by the rational number it represents.
\<close>

datatype scalar = UInt8 "8 word" | Float32 rat

text \<open>An array is its shape and its elements in row-major order.\<close>

datatype 'a ndarray = NDArray (shape: "nat list") (data: "'a list")

text \<open>
  The values a notebook variable can hold: an integer, a float, a reference to an object
  of one of the libraries (a model, an optimizer, the wrapped classifier, an attack), a
  one-dimensional integer array (labels, indices, membership indicators), an array of
  pixels or scores, and a tuple.
\<close>

datatype pyval =
    VNone
  | VInt int
  | VFloat rat
  | VObj nat
  | VInts "int list"
  | VArray "scalar ndarray"
  | VTuple "pyval list"

subsection \<open>Array operations\<close>

definition well_shaped :: "'a ndarray \<Rightarrow> bool" where
  "well_shaped a \<longleftrightarrow> length (data a) = prod_list (shape a)"

text \<open>\<^verbatim>\<open>len(a)\<close>: the first dimension; a zero-dimensional array has no length.\<close>

definition np_len :: "'a ndarray \<Rightarrow> exn + nat" where
  "np_len a = (case shape a of [] \<Rightarrow> Inl TypeError | n # rest \<Rightarrow> Inr n)"

text \<open>
  \<^verbatim>\<open>np.expand_dims(a, axis)\<close>: a dimension of size one is inserted at position
  \<open>axis\<close> of the shape (counted from the end when negative); the buffer is unchanged.
\<close>

definition expand_dims :: "'a ndarray \<Rightarrow> int \<Rightarrow> exn + 'a ndarray" where
  "expand_dims a axis =
     (let nd = int (length (shape a)) + 1;
          ax = (if axis < 0 then axis + nd else axis)
      in if 0 \<le> ax \<and> ax < nd
         then Inr (NDArray (take (nat ax) (shape a) @ 1 # drop (nat ax) (shape a)) (data a))
         else Inl AxisError)"

text \<open>
  \<^verbatim>\<open>.astype(np.float32)\<close>: every byte 0..255 is a float32 value, so the conversion
  of a pixel is exact.
\<close>

fun float32_of :: "scalar \<Rightarrow> scalar" where
  "float32_of (UInt8 w) = Float32 (of_nat (unat w))"
| "float32_of (Float32 r) = Float32 r"

fun scalar_value :: "scalar \<Rightarrow> rat" where
  "scalar_value (UInt8 w) = of_nat (unat w)"
| "scalar_value (Float32 r) = r"

definition astype_float32 :: "scalar ndarray \<Rightarrow> scalar ndarray" where
  "astype_float32 a = NDArray (shape a) (map float32_of (data a))"

text \<open>
  \<^verbatim>\<open>np.concatenate(arrays)\<close> along the first axis: the arrays must have at least
  one dimension and agree on all dimensions but the first.
\<close>

definition concatenate :: "'a ndarray list \<Rightarrow> exn + 'a ndarray" where
  "concatenate arrays =
     (case arrays of
        [] \<Rightarrow> Inl ValueError
      | a # rest \<Rightarrow>
          if list_ex (\<lambda>b. shape b = []) arrays then Inl ValueError
          else if list_ex (\<lambda>b. tl (shape b) \<noteq> tl (shape a)) rest then Inl ValueError
          else Inr (NDArray (sum_list (map (\<lambda>b. hd (shape b)) arrays) # tl (shape a))
                            (concat (map data arrays))))"

text \<open>The number of elements of one entry along the first axis, and the \<open>j\<close>-th entry.\<close>

definition stride :: "'a ndarray \<Rightarrow> nat" where
  "stride a = prod_list (tl (shape a))"

definition row :: "'a ndarray \<Rightarrow> nat \<Rightarrow> 'a list" where
  "row a j = take (stride a) (drop (j * stride a) (data a))"

text \<open>The stop of the slice \<^verbatim>\<open>[:k]\<close> on a sequence of length \<open>n\<close>.\<close>

definition slice_stop :: "nat \<Rightarrow> int \<Rightarrow> nat" where
  "slice_stop n k = (if k < 0 then nat (max 0 (int n + k)) else min n (nat k))"

definition slice_to :: "'a ndarray \<Rightarrow> int \<Rightarrow> exn + 'a ndarray" where
  "slice_to a k =
     (case shape a of
        [] \<Rightarrow> Inl IndexError
      | n # rest \<Rightarrow>
          Inr (NDArray (slice_stop n k # rest) (take (slice_stop n k * prod_list rest) (data a))))"

definition slice_ints :: "int list \<Rightarrow> int \<Rightarrow> int list" where
  "slice_ints v k = take (slice_stop (length v) k) v"

text \<open>
  Indexing with an integer array, \<^verbatim>\<open>a[idx]\<close>: an index \<open>i\<close> with \<open>-n \<le> i < n\<close>
  selects entry \<open>i\<close>, counted from the end when negative; any other index raises.
\<close>

definition index_ok :: "nat \<Rightarrow> int \<Rightarrow> bool" where
  "index_ok n i \<longleftrightarrow> - int n \<le> i \<and> i < int n"

definition wrap_index :: "nat \<Rightarrow> int \<Rightarrow> nat" where
  "wrap_index n i = nat (if i < 0 then i + int n else i)"

definition take_rows :: "'a ndarray \<Rightarrow> int list \<Rightarrow> exn + 'a ndarray" where
  "take_rows a idx =
     (case shape a of
        [] \<Rightarrow> Inl IndexError
      | n # rest \<Rightarrow>
          if list_all (index_ok n) idx
          then Inr (NDArray (length idx # rest) (concat (map (\<lambda>i. row a (wrap_index n i)) idx)))
          else Inl IndexError)"

definition take_ints :: "int list \<Rightarrow> int list \<Rightarrow> exn + int list" where
  "take_ints v idx =
     (if list_all (index_ok (length v)) idx
      then Inr (map (\<lambda>i. v ! wrap_index (length v) i) idx)
      else Inl IndexError)"



text \<open>
  Iterating over an array yields its entries along the first axis;
  \<^verbatim>\<open>np.argmax\<close> of an entry is the position of the first maximum of its elements.
\<close>

definition rows :: "'a ndarray \<Rightarrow> exn + 'a list list" where
  "rows a = (case shape a of [] \<Rightarrow> Inl TypeError | n # rest \<Rightarrow> Inr (map (row a) [0..<n]))"

definition argmax :: "scalar list \<Rightarrow> exn + int" where
  "argmax vs =
     (if vs = [] then Inl ValueError
      else Inr (int (length (takeWhile (\<lambda>v. scalar_value v < Max (set (map scalar_value vs))) vs))))"

fun argmax_all :: "scalar list list \<Rightarrow> exn + int list" where
  "argmax_all [] = Inr []"
| "argmax_all (vs # rest) =
     (case argmax vs of
        Inl e \<Rightarrow> Inl e
      | Inr i \<Rightarrow> (case argmax_all rest of Inl e \<Rightarrow> Inl e | Inr is \<Rightarrow> Inr (i # is)))"

text \<open>
  \<^verbatim>\<open>np.sum(a == b)\<close> on one-dimensional integer arrays: the number of positions that
  agree; an array of length one is compared with every element of the other; arrays of
  other, different lengths do not compare and the sum is zero.
\<close>

definition np_sum_eq :: "int list \<Rightarrow> int list \<Rightarrow> nat" where
  "np_sum_eq a b =
     (if length a = length b then length (filter (\<lambda>(u, v). u = v) (zip a b))
      else if length a = 1 then length (filter (\<lambda>v. v = hd a) b)
      else if length b = 1 then length (filter (\<lambda>u. u = hd b) a)
      else 0)"

subsection \<open>The external libraries\<close>

text \<open>
  None of the code the cells call is part of the notebook. The calls are the fields of a
  library, each a function of its arguments and of the state of the world outside the
  notebook (the files, the random generator, the objects the libraries keep): it returns
  a result or raises, and leaves a new world. Objects are references.
\<close>

record 'w library =
  load_mnist :: "bool \<Rightarrow> 'w \<Rightarrow>
     (exn + ((scalar ndarray \<times> int list) \<times> (scalar ndarray \<times> int list) \<times> rat \<times> rat)) \<times> 'w"
  torch_load :: "string \<Rightarrow> 'w \<Rightarrow> (exn + nat) \<times> 'w"
  Net :: "'w \<Rightarrow> (exn + nat) \<times> 'w"
  load_state_dict :: "nat \<Rightarrow> nat \<Rightarrow> 'w \<Rightarrow> (exn + unit) \<times> 'w"
  CrossEntropyLoss :: "'w \<Rightarrow> (exn + nat) \<times> 'w"
  parameters :: "nat \<Rightarrow> 'w \<Rightarrow> (exn + nat) \<times> 'w"
  Adam :: "nat \<Rightarrow> 'w \<Rightarrow> (exn + nat) \<times> 'w"
  PyTorchClassifier :: "nat \<Rightarrow> nat \<Rightarrow> nat \<Rightarrow> bool \<Rightarrow> nat list \<Rightarrow> nat \<Rightarrow> rat \<times> rat \<Rightarrow> 'w \<Rightarrow>
     (exn + nat) \<times> 'w"
  predict :: "nat \<Rightarrow> scalar ndarray \<Rightarrow> 'w \<Rightarrow> (exn + scalar ndarray) \<times> 'w"
  LabelOnlyDecisionBoundary :: "nat \<Rightarrow> 'w \<Rightarrow> (exn + nat) \<times> 'w"
  calibrate_distance_threshold ::
    "nat \<Rightarrow> scalar ndarray \<Rightarrow> int list \<Rightarrow> scalar ndarray \<Rightarrow> int list \<Rightarrow> 'w \<Rightarrow> (exn + unit) \<times> 'w"
  calibrate_distance_threshold_unsupervised ::
    "nat \<Rightarrow> int \<Rightarrow> int \<Rightarrow> int \<Rightarrow> bool \<Rightarrow> int \<Rightarrow> 'w \<Rightarrow> (exn + unit) \<times> 'w"
  infer :: "nat \<Rightarrow> scalar ndarray \<Rightarrow> int list \<Rightarrow> 'w \<Rightarrow> (exn + int list) \<times> 'w"
  choice :: "int \<Rightarrow> int \<Rightarrow> 'w \<Rightarrow> (exn + int list) \<times> 'w"
  accuracy_score :: "int list \<Rightarrow> int list \<Rightarrow> 'w \<Rightarrow> (exn + rat) \<times> 'w"

text \<open>
  A call as the notebook makes it: the entry point and its arguments. The arguments of
  \<open>Call_PyTorchClassifier\<close> are \<open>model\<close>, \<open>loss\<close>, \<open>optimizer\<close>, \<open>channels_first\<close>,
  \<open>input_shape\<close>, \<open>nb_classes\<close> and \<open>clip_values\<close>; those of the unsupervised
  calibration are the attack, \<open>top_t\<close>, \<open>num_samples\<close>, \<open>max_queries\<close>, \<open>verbose\<close>
  and \<open>batch_size\<close>.
\<close>

datatype call =
    Call_load_mnist bool
  | Call_torch_load string
  | Call_Net
  | Call_load_state_dict nat nat
  | Call_CrossEntropyLoss
  | Call_parameters nat
  | Call_Adam nat
  | Call_PyTorchClassifier nat nat nat bool "nat list" nat "rat \<times> rat"
  | Call_predict nat "scalar ndarray"
  | Call_LabelOnlyDecisionBoundary nat
  | Call_calibrate_distance_threshold nat "scalar ndarray" "int list" "scalar ndarray" "int list"
  | Call_calibrate_distance_threshold_unsupervised nat int int int bool int
  | Call_infer nat "scalar ndarray" "int list"
  | Call_choice int int
  | Call_accuracy_score "int list" "int list"

text \<open>The entry point of a call, without its arguments.\<close>

datatype entry_point =
    E_load_mnist
  | E_torch_load
  | E_Net
  | E_load_state_dict
  | E_CrossEntropyLoss
  | E_parameters
  | E_Adam
  | E_PyTorchClassifier
  | E_predict
  | E_LabelOnlyDecisionBoundary
  | E_calibrate_distance_threshold
  | E_calibrate_distance_threshold_unsupervised
  | E_infer
  | E_choice
  | E_accuracy_score

fun entry_point_of :: "call \<Rightarrow> entry_point" where
  "entry_point_of (Call_load_mnist raw) = E_load_mnist"
| "entry_point_of (Call_torch_load path) = E_torch_load"
| "entry_point_of Call_Net = E_Net"
| "entry_point_of (Call_load_state_dict m sd) = E_load_state_dict"
| "entry_point_of Call_CrossEntropyLoss = E_CrossEntropyLoss"
| "entry_point_of (Call_parameters m) = E_parameters"
| "entry_point_of (Call_Adam ps) = E_Adam"
| "entry_point_of (Call_PyTorchClassifier m l opt cf ish nc cv) = E_PyTorchClassifier"
| "entry_point_of (Call_predict clf xs) = E_predict"
| "entry_point_of (Call_LabelOnlyDecisionBoundary clf) = E_LabelOnlyDecisionBoundary"
| "entry_point_of (Call_calibrate_distance_threshold atk xm ym xn yn) =
     E_calibrate_distance_threshold"
| "entry_point_of (Call_calibrate_distance_threshold_unsupervised atk t ns q v b) =
     E_calibrate_distance_threshold_unsupervised"
| "entry_point_of (Call_infer atk xs ys) = E_infer"
| "entry_point_of (Call_choice a k) = E_choice"
| "entry_point_of (Call_accuracy_score yt yp) = E_accuracy_score"

subsection \<open>The kernel state\<close>

text \<open>
  What a line prints: the base accuracy line prints the quotient of the number of
  correct predictions by the number of test labels (kept as the two integers), an
  accuracy line prints the float the metric function returned.
\<close>

datatype printed = Print_base_model_accuracy nat nat | Print_accuracy rat

text \<open>
  The state of a run: the world outside, the notebook's variables, the calls made so
  far, each with what it returned or raised, and the lines printed.
\<close>

record 'w kernel =
  world :: 'w
  namespace :: "string \<rightharpoonup> pyval"
  calls :: "(call \<times> (exn + pyval)) list"
  stdout :: "printed list"

definition initial :: "'w \<Rightarrow> 'w kernel" where
  "initial w = \<lparr>world = w, namespace = Map.empty, calls = [], stdout = []\<rparr>"

text \<open>
  A piece of notebook code takes the state to a result or an exception and a new state.
  When it raises, what it did before stays done.
\<close>

type_synonym ('w, 'a) py = "'w kernel \<Rightarrow> (exn + 'a) \<times> 'w kernel"

definition lift :: "exn + 'a \<Rightarrow> ('w, 'a) py" where
  "lift r = (\<lambda>s. (r, s))"

definition py_bind :: "('w, 'a) py \<Rightarrow> ('a \<Rightarrow> ('w, 'b) py) \<Rightarrow> ('w, 'b) py" where
  "py_bind m f = (\<lambda>s. case m s of (Inl e, s') \<Rightarrow> (Inl e, s') | (Inr a, s') \<Rightarrow> f a s')"

definition py_then :: "('w, unit) py \<Rightarrow> ('w, 'b) py \<Rightarrow> ('w, 'b) py" where
  "py_then m k = py_bind m (\<lambda>u. k)"

definition load_name :: "string \<Rightarrow> ('w, pyval) py" where
  "load_name x = (\<lambda>s. case namespace s x of None \<Rightarrow> (Inl (NameError x), s) | Some v \<Rightarrow> (Inr v, s))"

definition store_name :: "string \<Rightarrow> pyval \<Rightarrow> ('w, unit) py" where
  "store_name x v = (\<lambda>s. (Inr (), s\<lparr>namespace := (namespace s)(x \<mapsto> v)\<rparr>))"

definition print_line :: "printed \<Rightarrow> ('w, unit) py" where
  "print_line out = (\<lambda>s. (Inr (), s\<lparr>stdout := stdout s @ [out]\<rparr>))"

text \<open>
  A call of the library: the call is recorded with its outcome, the world is the one
  the library leaves, and an exception of the library is the exception of the call.
\<close>

definition lib_call :: "call \<Rightarrow> ('a \<Rightarrow> pyval) \<Rightarrow> ('w \<Rightarrow> (exn + 'a) \<times> 'w) \<Rightarrow> ('w, 'a) py" where
  "lib_call c enc f =
     (\<lambda>s. case f (world s) of
             (r, w') \<Rightarrow> (r, s\<lparr>world := w', calls := calls s @ [(c, map_sum id enc r)]\<rparr>))"

text \<open>Reading a variable as a value of the kind an operation needs.\<close>

definition as_int :: "pyval \<Rightarrow> exn + int" where
  "as_int v = (case v of VInt i \<Rightarrow> Inr i | _ \<Rightarrow> Inl TypeError)"

definition as_float :: "pyval \<Rightarrow> exn + rat" where
  "as_float v = (case v of VFloat r \<Rightarrow> Inr r | _ \<Rightarrow> Inl TypeError)"

definition as_obj :: "pyval \<Rightarrow> exn + nat" where
  "as_obj v = (case v of VObj r \<Rightarrow> Inr r | _ \<Rightarrow> Inl TypeError)"

definition as_ints :: "pyval \<Rightarrow> exn + int list" where
  "as_ints v = (case v of VInts xs \<Rightarrow> Inr xs | _ \<Rightarrow> Inl TypeError)"

definition as_array :: "pyval \<Rightarrow> exn + scalar ndarray" where
  "as_array v = (case v of VArray a \<Rightarrow> Inr a | _ \<Rightarrow> Inl TypeError)"

definition get_int :: "string \<Rightarrow> ('w, int) py" where
  "get_int x = py_bind (load_name x) (\<lambda>v. lift (as_int v))"

definition get_float :: "string \<Rightarrow> ('w, rat) py" where
  "get_float x = py_bind (load_name x) (\<lambda>v. lift (as_float v))"

definition get_obj :: "string \<Rightarrow> ('w, nat) py" where
  "get_obj x = py_bind (load_name x) (\<lambda>v. lift (as_obj v))"

definition get_ints :: "string \<Rightarrow> ('w, int list) py" where
  "get_ints x = py_bind (load_name x) (\<lambda>v. lift (as_ints v))"

definition get_array :: "string \<Rightarrow> ('w, scalar ndarray) py" where
  "get_array x = py_bind (load_name x) (\<lambda>v. lift (as_array v))"

definition unit_val :: "unit \<Rightarrow> pyval" where
  "unit_val u = VNone"

definition dataset_val ::
  "(scalar ndarray \<times> int list) \<times> (scalar ndarray \<times> int list) \<times> rat \<times> rat \<Rightarrow> pyval" where
  "dataset_val d =
     (case d of ((xtr, ytr), (xte, yte), lo, hi) \<Rightarrow>
        VTuple [VTuple [VArray xtr, VInts ytr], VTuple [VArray xte, VInts yte], VFloat lo, VFloat hi])"

subsection \<open>The cells\<close>

text \<open>
  A cell is the list of its statements. An assignment evaluates its right-hand side,
  calls included, and only then binds its targets. The first cell only imports names
  (\<^verbatim>\<open>torch\<close>, \<^verbatim>\<open>nn\<close>, \<^verbatim>\<open>np\<close>, \<^verbatim>\<open>Net\<close>): the library parameter
  stands for what the imports bind.
\<close>

definition cell_imports :: "'w library \<Rightarrow> ('w, unit) py list" where
  "cell_imports L = []"

text \<open>
  \<^verbatim>\<open>(x_train, y_train), (x_test, y_test), _min, _max = load_mnist(raw=True)\<close>
  \<^verbatim>\<open>x_train = np.expand_dims(x_train, axis=1).astype(np.float32)\<close>
  \<^verbatim>\<open>x_test = np.expand_dims(x_test, axis=1).astype(np.float32)\<close>
\<close>

definition to_channels_first :: "string \<Rightarrow> ('w, unit) py" where
  "to_channels_first x =
     py_bind (get_array x) (\<lambda>a.
     py_bind (lift (expand_dims a 1)) (\<lambda>b.
     store_name x (VArray (astype_float32 b))))"

definition cell_load_data :: "'w library \<Rightarrow> ('w, unit) py list" where
  "cell_load_data L =
     [py_bind (lib_call (Call_load_mnist True) dataset_val (load_mnist L True))
        (\<lambda>d. case d of ((xtr, ytr), (xte, yte), lo, hi) \<Rightarrow>
           py_then (store_name ''x_train'' (VArray xtr))
          (py_then (store_name ''y_train'' (VInts ytr))
          (py_then (store_name ''x_test'' (VArray xte))
          (py_then (store_name ''y_test'' (VInts yte))
          (py_then (store_name ''_min'' (VFloat lo))
                   (store_name ''_max'' (VFloat hi))))))),
      to_channels_first ''x_train'',
      to_channels_first ''x_test'']"

text \<open>
  \<^verbatim>\<open>state_dict = torch.load("models/mnist_cnn.pt")\<close>
  \<^verbatim>\<open>model = Net()\<close>
  \<^verbatim>\<open>model.load_state_dict(state_dict)\<close>
\<close>

definition cell_load_model :: "'w library \<Rightarrow> ('w, unit) py list" where
  "cell_load_model L =
     [py_bind (lib_call (Call_torch_load ''models/mnist_cnn.pt'') VObj
                 (torch_load L ''models/mnist_cnn.pt''))
        (\<lambda>sd. store_name ''state_dict'' (VObj sd)),
      py_bind (lib_call Call_Net VObj (Net L))
        (\<lambda>m. store_name ''model'' (VObj m)),
      py_bind (get_obj ''model'') (\<lambda>m.
      py_bind (get_obj ''state_dict'') (\<lambda>sd.
      lib_call (Call_load_state_dict m sd) unit_val (load_state_dict L m sd)))]"

text \<open>
  \<^verbatim>\<open>criterion = nn.CrossEntropyLoss()\<close>
  \<^verbatim>\<open>optimizer = optim.Adam(model.parameters())\<close>
  \<^verbatim>\<open>art_model = PyTorchClassifier(model=model, loss=criterion, optimizer=optimizer,\<close>
  \<^verbatim>\<open>    channels_first=True, input_shape=(1,28,28,), nb_classes=10, clip_values=(_min,_max))\<close>
  \<^verbatim>\<open>pred = np.array([np.argmax(arr) for arr in art_model.predict(x_test)])\<close>
  \<^verbatim>\<open>print('Base model accuracy: ', np.sum(pred == y_test) / len(y_test))\<close>
\<close>

definition input_shape :: "nat list" where
  "input_shape = [1, 28, 28]"

definition cell_wrap :: "'w library \<Rightarrow> ('w, unit) py list" where
  "cell_wrap L =
     [py_bind (lib_call Call_CrossEntropyLoss VObj (CrossEntropyLoss L))
        (\<lambda>c. store_name ''criterion'' (VObj c)),
      py_bind (get_obj ''model'') (\<lambda>m.
      py_bind (lib_call (Call_parameters m) VObj (parameters L m)) (\<lambda>ps.
      py_bind (lib_call (Call_Adam ps) VObj (Adam L ps)) (\<lambda>opt.
      store_name ''optimizer'' (VObj opt)))),
      py_bind (get_obj ''model'') (\<lambda>m.
      py_bind (get_obj ''criterion'') (\<lambda>c.
      py_bind (get_obj ''optimizer'') (\<lambda>opt.
      py_bind (get_float ''_min'') (\<lambda>lo.
      py_bind (get_float ''_max'') (\<lambda>hi.
      py_bind (lib_call (Call_PyTorchClassifier m c opt True input_shape 10 (lo, hi)) VObj
                 (PyTorchClassifier L m c opt True input_shape 10 (lo, hi))) (\<lambda>clf.
      store_name ''art_model'' (VObj clf))))))),
      py_bind (get_obj ''art_model'') (\<lambda>clf.
      py_bind (get_array ''x_test'') (\<lambda>xt.
      py_bind (lib_call (Call_predict clf xt) VArray (predict L clf xt)) (\<lambda>scores.
      py_bind (lift (rows scores)) (\<lambda>rs.
      py_bind (lift (argmax_all rs)) (\<lambda>p.
      store_name ''pred'' (VInts p)))))),
      py_bind (get_ints ''pred'') (\<lambda>p.
      py_bind (get_ints ''y_test'') (\<lambda>yt.
      print_line (Print_base_model_accuracy (np_sum_eq p yt) (length yt))))]"

text \<open>\<^verbatim>\<open>mia_label_only = LabelOnlyDecisionBoundary(art_model)\<close>\<close>

definition instantiate_attack :: "'w library \<Rightarrow> string \<Rightarrow> ('w, unit) py" where
  "instantiate_attack L x =
     py_bind (get_obj ''art_model'') (\<lambda>clf.
     py_bind (lib_call (Call_LabelOnlyDecisionBoundary clf) VObj
                (LabelOnlyDecisionBoundary L clf)) (\<lambda>atk.
     store_name x (VObj atk)))"

definition cell_instantiate :: "'w library \<Rightarrow> ('w, unit) py list" where
  "cell_instantiate L = [instantiate_attack L ''mia_label_only'']"

text \<open>
  \<^verbatim>\<open>attack_train_size = 1500\<close>
  \<^verbatim>\<open>attack_test_size = 1500\<close>
  \<^verbatim>\<open>x = np.concatenate([x_train, x_test])\<close>
  \<^verbatim>\<open>y = np.concatenate([y_train, y_test])\<close>
  \<^verbatim>\<open>training_sample = np.array([1] * len(x_train) + [0] * len(x_test))\<close>
\<close>

definition cell_prepare :: "'w library \<Rightarrow> ('w, unit) py list" where
  "cell_prepare L =
     [store_name ''attack_train_size'' (VInt 1500),
      store_name ''attack_test_size'' (VInt 1500),
      py_bind (get_array ''x_train'') (\<lambda>a.
      py_bind (get_array ''x_test'') (\<lambda>b.
      py_bind (lift (concatenate [a, b])) (\<lambda>c.
      store_name ''x'' (VArray c)))),
      py_bind (get_ints ''y_train'') (\<lambda>a.
      py_bind (get_ints ''y_test'') (\<lambda>b.
      store_name ''y'' (VInts (a @ b)))),
      py_bind (get_array ''x_train'') (\<lambda>a.
      py_bind (lift (np_len a)) (\<lambda>n.
      py_bind (get_array ''x_test'') (\<lambda>b.
      py_bind (lift (np_len b)) (\<lambda>m.
      store_name ''training_sample'' (VInts (replicate n 1 @ replicate m 0))))))]"

text \<open>
  \<^verbatim>\<open>mia_label_only.calibrate_distance_threshold(\<close>
  \<^verbatim>\<open>    x_train[:attack_train_size], y_train[:attack_train_size],\<close>
  \<^verbatim>\<open>    x_test[:attack_test_size], y_test[:attack_test_size])\<close>
\<close>

definition cell_calibrate :: "'w library \<Rightarrow> ('w, unit) py list" where
  "cell_calibrate L =
     [py_bind (get_obj ''mia_label_only'') (\<lambda>atk.
      py_bind (get_array ''x_train'') (\<lambda>xtr.
      py_bind (get_int ''attack_train_size'') (\<lambda>k1.
      py_bind (lift (slice_to xtr k1)) (\<lambda>xm.
      py_bind (get_ints ''y_train'') (\<lambda>ytr.
      py_bind (get_int ''attack_train_size'') (\<lambda>k2.
      py_bind (get_array ''x_test'') (\<lambda>xte.
      py_bind (get_int ''attack_test_size'') (\<lambda>k3.
      py_bind (lift (slice_to xte k3)) (\<lambda>xn.
      py_bind (get_ints ''y_test'') (\<lambda>yte.
      py_bind (get_int ''attack_test_size'') (\<lambda>k4.
      lib_call (Call_calibrate_distance_threshold atk xm (slice_ints ytr k2) xn (slice_ints yte k4))
        unit_val
        (calibrate_distance_threshold L atk xm (slice_ints ytr k2) xn (slice_ints yte k4)))))))))))))]"

text \<open>
  \<^verbatim>\<open>n = 500\<close>
  \<^verbatim>\<open>eval_data_idx = choice(len(x), n)\<close>
  \<^verbatim>\<open>x_eval, y_eval = x[eval_data_idx], y[eval_data_idx]\<close>
  \<^verbatim>\<open>eval_label = training_sample[eval_data_idx]\<close>
\<close>

definition cell_eval_data :: "'w library \<Rightarrow> ('w, unit) py list" where
  "cell_eval_data L =
     [store_name ''n'' (VInt 500),
      py_bind (get_array ''x'') (\<lambda>a.
      py_bind (lift (np_len a)) (\<lambda>m.
      py_bind (get_int ''n'') (\<lambda>k.
      py_bind (lib_call (Call_choice (int m) k) VInts (choice L (int m) k)) (\<lambda>idx.
      store_name ''eval_data_idx'' (VInts idx))))),
      py_bind (get_array ''x'') (\<lambda>a.
      py_bind (get_ints ''eval_data_idx'') (\<lambda>idx.
      py_bind (lift (take_rows a idx)) (\<lambda>xe.
      py_bind (get_ints ''y'') (\<lambda>b.
      py_bind (get_ints ''eval_data_idx'') (\<lambda>idx'.
      py_bind (lift (take_ints b idx')) (\<lambda>ye.
      py_then (store_name ''x_eval'' (VArray xe))
              (store_name ''y_eval'' (VInts ye)))))))),
      py_bind (get_ints ''training_sample'') (\<lambda>ts.
      py_bind (get_ints ''eval_data_idx'') (\<lambda>idx.
      py_bind (lift (take_ints ts idx)) (\<lambda>el.
      store_name ''eval_label'' (VInts el))))]"

text \<open>\<^verbatim>\<open>pred_label = mia_label_only.infer(x_eval, y_eval)\<close>\<close>

definition infer_membership :: "'w library \<Rightarrow> string \<Rightarrow> string \<Rightarrow> ('w, unit) py" where
  "infer_membership L attack target =
     py_bind (get_obj attack) (\<lambda>atk.
     py_bind (get_array ''x_eval'') (\<lambda>xe.
     py_bind (get_ints ''y_eval'') (\<lambda>ye.
     py_bind (lib_call (Call_infer atk xe ye) VInts (infer L atk xe ye)) (\<lambda>p.
     store_name target (VInts p)))))"

definition cell_infer :: "'w library \<Rightarrow> ('w, unit) py list" where
  "cell_infer L = [infer_membership L ''mia_label_only'' ''pred_label'']"

text \<open>\<^verbatim>\<open>print("Accuracy: %f" % accuracy_score(eval_label, pred_label))\<close>\<close>

definition print_accuracy :: "'w library \<Rightarrow> string \<Rightarrow> ('w, unit) py" where
  "print_accuracy L predicted =
     py_bind (get_ints ''eval_label'') (\<lambda>el.
     py_bind (get_ints predicted) (\<lambda>p.
     py_bind (lib_call (Call_accuracy_score el p) VFloat (accuracy_score L el p)) (\<lambda>r.
     print_line (Print_accuracy r))))"

definition cell_accuracy :: "'w library \<Rightarrow> ('w, unit) py list" where
  "cell_accuracy L = [print_accuracy L ''pred_label'']"

text \<open>\<^verbatim>\<open>mia_label_only_unsupervised = LabelOnlyDecisionBoundary(art_model)\<close>\<close>

definition cell_instantiate_nodata :: "'w library \<Rightarrow> ('w, unit) py list" where
  "cell_instantiate_nodata L = [instantiate_attack L ''mia_label_only_unsupervised'']"

text \<open>
  \<^verbatim>\<open>mia_label_only_unsupervised.calibrate_distance_threshold_unsupervised(\<close>
  \<^verbatim>\<open>    top_t=50, num_samples=500, max_queries=2, verbose=True, batch_size=256)\<close>
\<close>

definition cell_calibrate_nodata :: "'w library \<Rightarrow> ('w, unit) py list" where
  "cell_calibrate_nodata L =
     [py_bind (get_obj ''mia_label_only_unsupervised'') (\<lambda>atk.
      lib_call (Call_calibrate_distance_threshold_unsupervised atk 50 500 2 True 256) unit_val
        (calibrate_distance_threshold_unsupervised L atk 50 500 2 True 256))]"

text \<open>\<^verbatim>\<open>pred_label_unsupervised = mia_label_only_unsupervised.infer(x_eval, y_eval)\<close>\<close>

definition cell_infer_nodata :: "'w library \<Rightarrow> ('w, unit) py list" where
  "cell_infer_nodata L =
     [infer_membership L ''mia_label_only_unsupervised'' ''pred_label_unsupervised'']"

text \<open>\<^verbatim>\<open>print("Accuracy: %f" % accuracy_score(eval_label, pred_label_unsupervised))\<close>\<close>

definition cell_accuracy_nodata :: "'w library \<Rightarrow> ('w, unit) py list" where
  "cell_accuracy_nodata L = [print_accuracy L ''pred_label_unsupervised'']"

subsection \<open>Running the notebook\<close>

text \<open>
  The cells in the order of the file. A run executes the statements one after the
  other and stops at the first exception: the result is the exception, if any, and the
  state the run stopped in.
\<close>

definition notebook :: "'w library \<Rightarrow> ('w, unit) py list list" where
  "notebook L =
     [cell_imports L, cell_load_data L, cell_load_model L, cell_wrap L, cell_instantiate L,
      cell_prepare L, cell_calibrate L, cell_eval_data L, cell_infer L, cell_accuracy L,
      cell_instantiate_nodata L, cell_calibrate_nodata L, cell_infer_nodata L,
      cell_accuracy_nodata L]"

fun run_stmts :: "('w, unit) py list \<Rightarrow> 'w kernel \<Rightarrow> exn option \<times> 'w kernel" where
  "run_stmts [] s = (None, s)"
| "run_stmts (m # ms) s =
     (case m s of (Inl e, s') \<Rightarrow> (Some e, s') | (Inr u, s') \<Rightarrow> run_stmts ms s')"

definition run_all :: "'w library \<Rightarrow> 'w \<Rightarrow> exn option \<times> 'w kernel" where
  "run_all L w = run_stmts (concat (notebook L)) (initial w)"

subsection \<open>What the libraries document\<close>

text \<open>
  The fraction of positions at which two label vectors agree: what the metric function
  \<^verbatim>\<open>accuracy_score\<close> documents for two vectors of the same, positive length.
\<close>

definition fraction_equal :: "int list \<Rightarrow> int list \<Rightarrow> rat" where
  "fraction_equal yt yp =
     of_nat (length (filter (\<lambda>(u, v). u = v) (zip yt yp))) / of_nat (length yt)"

text \<open>
  A small library to run the notebook on: two training images and one test image,
  references numbered by a counter (the world), an attack that declares every sample a
  member, and a sampler that draws the first index for one half of the sample and the
  last index for the other half.
\<close>

definition demo_library :: "nat library" where
  "demo_library =
     \<lparr>load_mnist = (\<lambda>raw w.
        (Inr ((NDArray [2, 28, 28] (replicate 1568 (UInt8 7)), [5, 0]),
              (NDArray [1, 28, 28] (replicate 784 (UInt8 9)), [4]), 0, 255), w)),
      torch_load = (\<lambda>path w. (Inr w, w + 1)),
      Net = (\<lambda>w. (Inr w, w + 1)),
      load_state_dict = (\<lambda>m sd w. (Inr (), w)),
      CrossEntropyLoss = (\<lambda>w. (Inr w, w + 1)),
      parameters = (\<lambda>m w. (Inr w, w + 1)),
      Adam = (\<lambda>ps w. (Inr w, w + 1)),
      PyTorchClassifier = (\<lambda>m c opt cf ish nc cv w. (Inr w, w + 1)),
      predict = (\<lambda>clf xs w.
        case np_len xs of
          Inl e \<Rightarrow> (Inl e, w)
        | Inr n \<Rightarrow> (Inr (NDArray [n, 2] (concat (replicate n [Float32 0, Float32 1]))), w)),
      LabelOnlyDecisionBoundary = (\<lambda>clf w. (Inr w, w + 1)),
      calibrate_distance_threshold = (\<lambda>atk xm ym xn yn w. (Inr (), w)),
      calibrate_distance_threshold_unsupervised = (\<lambda>atk t ns q v b w. (Inr (), w)),
      infer = (\<lambda>atk xs ys w.
        case np_len xs of Inl e \<Rightarrow> (Inl e, w) | Inr n \<Rightarrow> (Inr (replicate n 1), w)),
      choice = (\<lambda>a k w.
        if a \<le> 0 then (Inl ValueError, w)
        else (Inr (replicate (nat k div 2) 0 @ replicate (nat k - nat k div 2) (a - 1)), w)),
      accuracy_score = (\<lambda>yt yp w.
        if length yt \<noteq> length yp \<or> yt = [] then (Inl ValueError, w)
        else (Inr (fraction_equal yt yp), w))\<rparr>"

subsection \<open>Properties of a run\<close>

text \<open>The calls made so far, and their entry points, in the order of the calls.\<close>

definition calls_made :: "'w kernel \<Rightarrow> call list" where
  "calls_made s = map fst (calls s)"

definition trace :: "'w kernel \<Rightarrow> entry_point list" where
  "trace s = map entry_point_of (calls_made s)"

text \<open>The calls of a run that completes, in the order the cells make them.\<close>

definition call_order :: "entry_point list" where
  "call_order =
     [E_load_mnist, E_torch_load, E_Net, E_load_state_dict, E_CrossEntropyLoss, E_parameters,
      E_Adam, E_PyTorchClassifier, E_predict,
      E_LabelOnlyDecisionBoundary, E_calibrate_distance_threshold, E_choice, E_infer,
      E_accuracy_score,
      E_LabelOnlyDecisionBoundary, E_calibrate_distance_threshold_unsupervised, E_infer,
      E_accuracy_score]"

text \<open>The attack a call calibrates, and the attack a call asks for membership.\<close>

fun calibration_target :: "call \<Rightarrow> nat option" where
  "calibration_target (Call_calibrate_distance_threshold atk xm ym xn yn) = Some atk"
| "calibration_target (Call_calibrate_distance_threshold_unsupervised atk t ns q v b) = Some atk"
| "calibration_target c = None"

fun inference_target :: "call \<Rightarrow> nat option" where
  "inference_target (Call_infer atk xs ys) = Some atk"
| "inference_target c = None"

text \<open>
  A sequence of calls infers only on calibrated attacks: \<open>ready\<close> are the attacks
  calibrated before the sequence starts.
\<close>

fun infer_after_calibration :: "nat list \<Rightarrow> call list \<Rightarrow> bool" where
  "infer_after_calibration ready [] = True"
| "infer_after_calibration ready (c # cs) =
     ((case inference_target c of None \<Rightarrow> True | Some atk \<Rightarrow> atk \<in> set ready) \<and>
      infer_after_calibration
        (case calibration_target c of None \<Rightarrow> ready | Some atk \<Rightarrow> atk # ready) cs)"

text \<open>
  Modelled from the spec: the attack class, which is not part of the notebook. Section 6
  of the specification gives it two calibration entry points, supervised and
  unsupervised, and an inference entry point.
\<close>

definition attack_entry_points :: "entry_point list" where
  "attack_entry_points =
     [E_calibrate_distance_threshold, E_calibrate_distance_threshold_unsupervised, E_infer]"

definition is_calibration :: "entry_point \<Rightarrow> bool" where
  "is_calibration e \<longleftrightarrow>
     e = E_calibrate_distance_threshold \<or> e = E_calibrate_distance_threshold_unsupervised"

text \<open>A vector of zeros and ones, and the state in which the membership vectors are such.\<close>

definition binary :: "int list \<Rightarrow> bool" where
  "binary v \<longleftrightarrow> list_all (\<lambda>b. b = 0 \<or> b = 1) v"

definition binary_var :: "'w kernel \<Rightarrow> string \<Rightarrow> bool" where
  "binary_var s x \<longleftrightarrow>
     (case namespace s x of None \<Rightarrow> True | Some (VInts v) \<Rightarrow> binary v | Some other \<Rightarrow> False)"

definition membership_binary :: "'w kernel \<Rightarrow> bool" where
  "membership_binary s \<longleftrightarrow> binary_var s ''training_sample'' \<and> binary_var s ''eval_label''"

text \<open>The calls that returned.\<close>

definition all_returned :: "(call \<times> (exn + pyval)) list \<Rightarrow> bool" where
  "all_returned cs \<longleftrightarrow> list_all (\<lambda>c. \<not> isl (snd c)) cs"

text \<open>
  What the libraries document of the calls the later cells rely on. The loader returns
  as many labels as images in each split; the sampler returns the requested number of
  indices, each in the range it was given; the attack returns one prediction for each
  sample; the metric function, on two vectors of the same length, returns the fraction
  of positions that agree.
\<close>

definition loader_documented :: "'w library \<Rightarrow> bool" where
  "loader_documented L \<longleftrightarrow>
     (\<forall>raw w xtr ytr xte yte lo hi w'.
        load_mnist L raw w = (Inr ((xtr, ytr), (xte, yte), lo, hi), w') \<longrightarrow>
        np_len xtr = Inr (length ytr) \<and> np_len xte = Inr (length yte))"

definition sampler_documented :: "'w library \<Rightarrow> bool" where
  "sampler_documented L \<longleftrightarrow>
     (\<forall>a k w idx w'.
        choice L a k w = (Inr idx, w') \<longrightarrow>
        length idx = nat k \<and> list_all (\<lambda>i. 0 \<le> i \<and> i < a) idx)"

definition attack_documented :: "'w library \<Rightarrow> bool" where
  "attack_documented L \<longleftrightarrow>
     (\<forall>atk xs ys w p w'. infer L atk xs ys w = (Inr p, w') \<longrightarrow> np_len xs = Inr (length p))"

text \<open>
  The metric function returns a float: the fraction of agreeing positions as its
  floating-point division gives it. \<open>rd\<close> is the rounding of an exact fraction to the
  float returned, whatever the precision (the identity on a fraction that is a float).
\<close>

definition metric_documented :: "(rat \<Rightarrow> rat) \<Rightarrow> 'w library \<Rightarrow> bool" where
  "metric_documented rd L \<longleftrightarrow>
     (\<forall>yt yp w r w'.
        accuracy_score L yt yp w = (Inr r, w') \<longrightarrow>
        length yt = length yp \<and> r = rd (fraction_equal yt yp))"

subsection \<open>Properties of a computation\<close>

text \<open>A computation that keeps an invariant of the state, whether it returns or raises.\<close>

definition preserves :: "('w kernel \<Rightarrow> bool) \<Rightarrow> ('w, 'a) py \<Rightarrow> bool" where
  "preserves I m \<longleftrightarrow> (\<forall>s r s'. I s \<longrightarrow> m s = (r, s') \<longrightarrow> I s')"

text \<open>
  A computation that calls the entry points \<open>es\<close>, in this order, when it returns, and
  the first few of them when it raises.
\<close>

definition emits :: "entry_point list \<Rightarrow> ('w, 'a) py \<Rightarrow> bool" where
  "emits es m \<longleftrightarrow>
     (\<forall>s r s'. m s = (r, s') \<longrightarrow>
        (case r of
           Inr a \<Rightarrow> trace s' = trace s @ es
         | Inl e \<Rightarrow> (\<exists>p. prefix p es \<and> trace s' = trace s @ p)))"

text \<open>
  A computation that handles no exception of a call: the calls it adds all returned,
  but for the last one when the computation raises, which then raised the same exception
  (unless the exception is one of the notebook's own operations).
\<close>

definition raised_last :: "exn \<Rightarrow> (call \<times> (exn + pyval)) list \<Rightarrow> bool" where
  "raised_last e cs \<longleftrightarrow>
     all_returned cs \<or> (\<exists>pre c. cs = pre @ [(c, Inl e)] \<and> all_returned pre)"

definition disciplined :: "('w, 'a) py \<Rightarrow> bool" where
  "disciplined m \<longleftrightarrow>
     (\<forall>s r s'. m s = (r, s') \<longrightarrow>
        (\<exists>new. calls s' = calls s @ new \<and>
           (case r of Inr a \<Rightarrow> all_returned new | Inl e \<Rightarrow> raised_last e new)))"

text \<open>A computation that binds no variable and prints nothing.\<close>

definition reads_only :: "('w, 'a) py \<Rightarrow> bool" where
  "reads_only m \<longleftrightarrow>
     (\<forall>s r s'. m s = (r, s') \<longrightarrow> namespace s' = namespace s \<and> stdout s' = stdout s)"

text \<open>A computation that always returns.\<close>

definition never_raises :: "('w, 'a) py \<Rightarrow> bool" where
  "never_raises m \<longleftrightarrow> (\<forall>s. \<exists>a s'. m s = (Inr a, s'))"

text \<open>A computation that, when it raises, has bound no variable and printed nothing.\<close>

definition unhandled :: "('w, 'a) py \<Rightarrow> bool" where
  "unhandled m \<longleftrightarrow>
     (\<forall>s e s'. m s = (Inl e, s') \<longrightarrow> namespace s' = namespace s \<and> stdout s' = stdout s)"

text \<open>
  In a sequence of entry points, every call of a \<open>later\<close> one comes after a call of an
  \<open>earlier\<close> one; and the same as a check along the sequence, where \<open>seen\<close> says
  that an \<open>earlier\<close> one was called before the sequence starts.
\<close>

definition always_after ::
  "entry_point list \<Rightarrow> (entry_point \<Rightarrow> bool) \<Rightarrow> (entry_point \<Rightarrow> bool) \<Rightarrow> bool" where
  "always_after t later earlier \<longleftrightarrow>
     (\<forall>i<length t. later (t ! i) \<longrightarrow> (\<exists>j<i. earlier (t ! j)))"

fun guarded ::
  "(entry_point \<Rightarrow> bool) \<Rightarrow> (entry_point \<Rightarrow> bool) \<Rightarrow> bool \<Rightarrow> entry_point list \<Rightarrow> bool" where
  "guarded later earlier seen [] = True"
| "guarded later earlier seen (e # es) =
     ((later e \<longrightarrow> seen) \<and> guarded later earlier (seen \<or> earlier e) es)"

definition is_entry :: "entry_point \<Rightarrow> entry_point \<Rightarrow> bool" where
  "is_entry e e' \<longleftrightarrow> e' = e"

text \<open>The entry points each statement of the notebook calls, statement by statement.\<close>

definition statement_calls :: "entry_point list list" where
  "statement_calls =
     [[E_load_mnist], [], [],
      [E_torch_load], [E_Net], [E_load_state_dict],
      [E_CrossEntropyLoss], [E_parameters, E_Adam], [E_PyTorchClassifier], [E_predict], [],
      [E_LabelOnlyDecisionBoundary],
      [], [], [], [], [],
      [E_calibrate_distance_threshold],
      [], [E_choice], [], [],
      [E_infer],
      [E_accuracy_score],
      [E_LabelOnlyDecisionBoundary],
      [E_calibrate_distance_threshold_unsupervised],
      [E_infer],
      [E_accuracy_score]]"

text \<open>The state the run on the small library ends in, started with the counter at 100.\<close>

definition demo_x_train :: "scalar ndarray" where
  "demo_x_train = NDArray [2, 1, 28, 28] (replicate 1568 (Float32 7))"

definition demo_x_test :: "scalar ndarray" where
  "demo_x_test = NDArray [1, 1, 28, 28] (replicate 784 (Float32 9))"

definition demo_x :: "scalar ndarray" where
  "demo_x = NDArray [3, 1, 28, 28] (replicate 1568 (Float32 7) @ replicate 784 (Float32 9))"

definition demo_x_eval :: "scalar ndarray" where
  "demo_x_eval =
     NDArray [500, 1, 28, 28]
       (concat (replicate 250 (replicate 784 (Float32 7))) @
        concat (replicate 250 (replicate 784 (Float32 9))))"

definition demo_idx :: "int list" where
  "demo_idx = replicate 250 0 @ replicate 250 2"

definition demo_y_eval :: "int list" where
  "demo_y_eval = replicate 250 5 @ replicate 250 4"

definition demo_eval_label :: "int list" where
  "demo_eval_label = replicate 250 1 @ replicate 250 0"

definition demo_final :: "nat kernel" where
  "demo_final =
     \<lparr>world = 108,
      namespace =
        [''y_train'' \<mapsto> VInts [5, 0], ''y_test'' \<mapsto> VInts [4],
         ''_min'' \<mapsto> VFloat 0, ''_max'' \<mapsto> VFloat 255,
         ''x_train'' \<mapsto> VArray demo_x_train, ''x_test'' \<mapsto> VArray demo_x_test,
         ''state_dict'' \<mapsto> VObj 100, ''model'' \<mapsto> VObj 101,
         ''criterion'' \<mapsto> VObj 102, ''optimizer'' \<mapsto> VObj 104, ''art_model'' \<mapsto> VObj 105,
         ''pred'' \<mapsto> VInts [1],
         ''mia_label_only'' \<mapsto> VObj 106,
         ''attack_train_size'' \<mapsto> VInt 1500, ''attack_test_size'' \<mapsto> VInt 1500,
         ''x'' \<mapsto> VArray demo_x, ''y'' \<mapsto> VInts [5, 0, 4],
         ''training_sample'' \<mapsto> VInts (replicate 2 1 @ replicate 1 0),
         ''n'' \<mapsto> VInt 500, ''eval_data_idx'' \<mapsto> VInts demo_idx,
         ''x_eval'' \<mapsto> VArray demo_x_eval, ''y_eval'' \<mapsto> VInts demo_y_eval,
         ''eval_label'' \<mapsto> VInts demo_eval_label,
         ''pred_label'' \<mapsto> VInts (replicate 500 1),
         ''mia_label_only_unsupervised'' \<mapsto> VObj 107,
         ''pred_label_unsupervised'' \<mapsto> VInts (replicate 500 1)],
      calls =
        [(Call_load_mnist True,
          Inr (VTuple
                [VTuple [VArray (NDArray [2, 28, 28] (replicate 1568 (UInt8 7))), VInts [5, 0]],
                 VTuple [VArray (NDArray [1, 28, 28] (replicate 784 (UInt8 9))), VInts [4]],
                 VFloat 0, VFloat 255])),
         (Call_torch_load ''models/mnist_cnn.pt'', Inr (VObj 100)),
         (Call_Net, Inr (VObj 101)),
         (Call_load_state_dict 101 100, Inr VNone),
         (Call_CrossEntropyLoss, Inr (VObj 102)),
         (Call_parameters 101, Inr (VObj 103)),
         (Call_Adam 103, Inr (VObj 104)),
         (Call_PyTorchClassifier 101 102 104 True [1, 28, 28] 10 (0, 255), Inr (VObj 105)),
         (Call_predict 105 demo_x_test, Inr (VArray (NDArray [1, 2] [Float32 0, Float32 1]))),
         (Call_LabelOnlyDecisionBoundary 105, Inr (VObj 106)),
         (Call_calibrate_distance_threshold 106 demo_x_train [5, 0] demo_x_test [4], Inr VNone),
         (Call_choice 3 500, Inr (VInts demo_idx)),
         (Call_infer 106 demo_x_eval demo_y_eval, Inr (VInts (replicate 500 1))),
         (Call_accuracy_score demo_eval_label (replicate 500 1), Inr (VFloat (1 / 2))),
         (Call_LabelOnlyDecisionBoundary 105, Inr (VObj 107)),
         (Call_calibrate_distance_threshold_unsupervised 107 50 500 2 True 256, Inr VNone),
         (Call_infer 107 demo_x_eval demo_y_eval, Inr (VInts (replicate 500 1))),
         (Call_accuracy_score demo_eval_label (replicate 500 1), Inr (VFloat (1 / 2)))],
      stdout = [Print_base_model_accuracy 0 1, Print_accuracy (1 / 2), Print_accuracy (1 / 2)]\<rparr>"

text \<open>The state after the loader returned on the small library, before the reshaping.\<close>

definition demo_raw :: "scalar ndarray" where
  "demo_raw = NDArray [2, 28, 28] (replicate 1568 (UInt8 7))"

definition demo_loaded :: "nat kernel" where
  "demo_loaded =
     \<lparr>world = 0,
      namespace =
        [''x_train'' \<mapsto> VArray demo_raw, ''y_train'' \<mapsto> VInts [5, 0],
         ''x_test'' \<mapsto> VArray (NDArray [1, 28, 28] (replicate 784 (UInt8 9))),
         ''y_test'' \<mapsto> VInts [4], ''_min'' \<mapsto> VFloat 0, ''_max'' \<mapsto> VFloat 255],
      calls = [],
      stdout = []\<rparr>"

text \<open>
  A library with more samples than a calibration takes: the small library with a loader
  that returns 1501 training images and 1502 test images. The state its run ends in,
  started with the counter at 100.
\<close>

definition large_library :: "nat library" where
  "large_library =
     demo_library
       \<lparr>load_mnist := (\<lambda>raw w.
          (Inr ((NDArray [1501, 28, 28] (replicate 1176784 (UInt8 7)), replicate 1501 5),
                (NDArray [1502, 28, 28] (replicate 1177568 (UInt8 9)), replicate 1502 4),
                0, 255), w))\<rparr>"

definition large_x_train :: "scalar ndarray" where
  "large_x_train = NDArray [1501, 1, 28, 28] (replicate 1176784 (Float32 7))"

definition large_x_test :: "scalar ndarray" where
  "large_x_test = NDArray [1502, 1, 28, 28] (replicate 1177568 (Float32 9))"

definition large_x :: "scalar ndarray" where
  "large_x =
     NDArray [3003, 1, 28, 28] (replicate 1176784 (Float32 7) @ replicate 1177568 (Float32 9))"

definition large_idx :: "int list" where
  "large_idx = replicate 250 0 @ replicate 250 3002"

definition large_members :: "scalar ndarray" where
  "large_members = NDArray [1500, 1, 28, 28] (replicate 1176000 (Float32 7))"

definition large_nonmembers :: "scalar ndarray" where
  "large_nonmembers = NDArray [1500, 1, 28, 28] (replicate 1176000 (Float32 9))"

definition large_final :: "nat kernel" where
  "large_final =
     \<lparr>world = 108,
      namespace =
        [''y_train'' \<mapsto> VInts (replicate 1501 5), ''y_test'' \<mapsto> VInts (replicate 1502 4),
         ''_min'' \<mapsto> VFloat 0, ''_max'' \<mapsto> VFloat 255,
         ''x_train'' \<mapsto> VArray large_x_train, ''x_test'' \<mapsto> VArray large_x_test,
         ''state_dict'' \<mapsto> VObj 100, ''model'' \<mapsto> VObj 101,
         ''criterion'' \<mapsto> VObj 102, ''optimizer'' \<mapsto> VObj 104, ''art_model'' \<mapsto> VObj 105,
         ''pred'' \<mapsto> VInts (replicate 1502 1),
         ''mia_label_only'' \<mapsto> VObj 106,
         ''attack_train_size'' \<mapsto> VInt 1500, ''attack_test_size'' \<mapsto> VInt 1500,
         ''x'' \<mapsto> VArray large_x, ''y'' \<mapsto> VInts (replicate 1501 5 @ replicate 1502 4),
         ''training_sample'' \<mapsto> VInts (replicate 1501 1 @ replicate 1502 0),
         ''n'' \<mapsto> VInt 500, ''eval_data_idx'' \<mapsto> VInts large_idx,
         ''x_eval'' \<mapsto> VArray demo_x_eval, ''y_eval'' \<mapsto> VInts demo_y_eval,
         ''eval_label'' \<mapsto> VInts demo_eval_label,
         ''pred_label'' \<mapsto> VInts (replicate 500 1),
         ''mia_label_only_unsupervised'' \<mapsto> VObj 107,
         ''pred_label_unsupervised'' \<mapsto> VInts (replicate 500 1)],
      calls =
        [(Call_load_mnist True,
          Inr (VTuple
                [VTuple [VArray (NDArray [1501, 28, 28] (replicate 1176784 (UInt8 7))),
                         VInts (replicate 1501 5)],
                 VTuple [VArray (NDArray [1502, 28, 28] (replicate 1177568 (UInt8 9))),
                         VInts (replicate 1502 4)],
                 VFloat 0, VFloat 255])),
         (Call_torch_load ''models/mnist_cnn.pt'', Inr (VObj 100)),
         (Call_Net, Inr (VObj 101)),
         (Call_load_state_dict 101 100, Inr VNone),
         (Call_CrossEntropyLoss, Inr (VObj 102)),
         (Call_parameters 101, Inr (VObj 103)),
         (Call_Adam 103, Inr (VObj 104)),
         (Call_PyTorchClassifier 101 102 104 True [1, 28, 28] 10 (0, 255), Inr (VObj 105)),
         (Call_predict 105 large_x_test,
          Inr (VArray (NDArray [1502, 2] (concat (replicate 1502 [Float32 0, Float32 1]))))),
         (Call_LabelOnlyDecisionBoundary 105, Inr (VObj 106)),
         (Call_calibrate_distance_threshold 106 large_members (replicate 1500 5)
            large_nonmembers (replicate 1500 4), Inr VNone),
         (Call_choice 3003 500, Inr (VInts large_idx)),
         (Call_infer 106 demo_x_eval demo_y_eval, Inr (VInts (replicate 500 1))),
         (Call_accuracy_score demo_eval_label (replicate 500 1), Inr (VFloat (1 / 2))),
         (Call_LabelOnlyDecisionBoundary 105, Inr (VObj 107)),
         (Call_calibrate_distance_threshold_unsupervised 107 50 500 2 True 256, Inr VNone),
         (Call_infer 107 demo_x_eval demo_y_eval, Inr (VInts (replicate 500 1))),
         (Call_accuracy_score demo_eval_label (replicate 500 1), Inr (VFloat (1 / 2)))],
      stdout = [Print_base_model_accuracy 0 1502, Print_accuracy (1 / 2), Print_accuracy (1 / 2)]\<rparr>"

subsection \<open>What a returning computation did\<close>

lemma py_bind_InrE:
  assumes "py_bind m f s = (Inr b, s'')"
  obtains a s' where "m s = (Inr a, s')" and "f a s' = (Inr b, s'')"
  using assms by (auto simp: py_bind_def split: prod.splits sum.splits)

lemma py_then_InrE:
  assumes "py_then m k s = (Inr b, s'')"
  obtains s' where "m s = (Inr (), s')" and "k s' = (Inr b, s'')"
  using assms by (auto simp: py_then_def elim!: py_bind_InrE)

lemma lift_InrE:
  assumes "lift r s = (Inr a, s')"
  obtains "s' = s" and "r = Inr a"
  using assms by (auto simp: lift_def)

lemma store_name_InrE:
  assumes "store_name x v s = (Inr u, s')"
  obtains "s' = s\<lparr>namespace := (namespace s)(x \<mapsto> v)\<rparr>"
  using assms by (auto simp: store_name_def)

lemma print_line_InrE:
  assumes "print_line out s = (Inr u, s')"
  obtains "s' = s\<lparr>stdout := stdout s @ [out]\<rparr>"
  using assms by (auto simp: print_line_def)

lemma lib_call_InrE:
  assumes "lib_call c enc f s = (Inr a, s')"
  obtains w' where "f (world s) = (Inr a, w')"
    and "s' = s\<lparr>world := w', calls := calls s @ [(c, Inr (enc a))]\<rparr>"
  using assms by (auto simp: lib_call_def split: prod.splits)

lemma get_int_InrE:
  assumes "get_int x s = (Inr a, s')"
  obtains "s' = s" and "namespace s x = Some (VInt a)"
  using assms
  by (auto simp: get_int_def py_bind_def load_name_def lift_def as_int_def
           split: option.splits pyval.splits)

lemma get_float_InrE:
  assumes "get_float x s = (Inr a, s')"
  obtains "s' = s" and "namespace s x = Some (VFloat a)"
  using assms
  by (auto simp: get_float_def py_bind_def load_name_def lift_def as_float_def
           split: option.splits pyval.splits)

lemma get_obj_InrE:
  assumes "get_obj x s = (Inr a, s')"
  obtains "s' = s" and "namespace s x = Some (VObj a)"
  using assms
  by (auto simp: get_obj_def py_bind_def load_name_def lift_def as_obj_def
           split: option.splits pyval.splits)

lemma get_ints_InrE:
  assumes "get_ints x s = (Inr a, s')"
  obtains "s' = s" and "namespace s x = Some (VInts a)"
  using assms
  by (auto simp: get_ints_def py_bind_def load_name_def lift_def as_ints_def
           split: option.splits pyval.splits)

lemma get_array_InrE:
  assumes "get_array x s = (Inr a, s')"
  obtains "s' = s" and "namespace s x = Some (VArray a)"
  using assms
  by (auto simp: get_array_def py_bind_def load_name_def lift_def as_array_def
           split: option.splits pyval.splits)

lemma run_stmts_ConsE:
  assumes "run_stmts (m # ms) s = (None, s'')"
  obtains s' where "m s = (Inr (), s')" and "run_stmts ms s' = (None, s'')"
  using assms by (auto split: prod.splits sum.splits)

lemma run_stmts_NilE:
  assumes "run_stmts [] s = (None, s')"
  obtains "s' = s"
  using assms by auto

lemmas returned_elims =
  run_stmts_ConsE run_stmts_NilE py_bind_InrE py_then_InrE lift_InrE store_name_InrE
  print_line_InrE lib_call_InrE get_int_InrE get_float_InrE get_obj_InrE get_ints_InrE
  get_array_InrE

subsection \<open>What a cell that completes did\<close>

lemma cell_load_dataE:
  assumes "run_stmts (cell_load_data L) s = (None, s')"
  obtains xtr ytr xte yte lo hi w' xtr1 xte1 where
    "load_mnist L True (world s) = (Inr ((xtr, ytr), (xte, yte), lo, hi), w')"
    "expand_dims xtr 1 = Inr xtr1" "expand_dims xte 1 = Inr xte1"
    "s' = s\<lparr>world := w',
            calls := calls s @
       [(Call_load_mnist True, Inr (dataset_val ((xtr, ytr), (xte, yte), lo, hi)))],
            namespace := (namespace s)
       (''y_train'' \<mapsto> VInts ytr, ''y_test'' \<mapsto> VInts yte,
        ''_min'' \<mapsto> VFloat lo, ''_max'' \<mapsto> VFloat hi,
        ''x_train'' \<mapsto> VArray (astype_float32 xtr1),
        ''x_test'' \<mapsto> VArray (astype_float32 xte1))\<rparr>"
  using assms unfolding cell_load_data_def to_channels_first_def
  apply (elim returned_elims)
  apply (auto split: prod.splits elim!: returned_elims)
  done

lemma cell_load_modelE:
  assumes "run_stmts (cell_load_model L) s = (None, s')"
  obtains sd m w1 w2 w3 where
    "torch_load L ''models/mnist_cnn.pt'' (world s) = (Inr sd, w1)"
    "Net L w1 = (Inr m, w2)"
    "load_state_dict L m sd w2 = (Inr (), w3)"
    "s' = s\<lparr>world := w3,
            calls := calls s @
       [(Call_torch_load ''models/mnist_cnn.pt'', Inr (VObj sd)),
        (Call_Net, Inr (VObj m)),
        (Call_load_state_dict m sd, Inr VNone)],
            namespace := (namespace s)(''state_dict'' \<mapsto> VObj sd, ''model'' \<mapsto> VObj m)\<rparr>"
  using assms unfolding cell_load_model_def
  apply (elim returned_elims)
  apply (auto simp: unit_val_def)
  done

lemma cell_wrapE:
  assumes "run_stmts (cell_wrap L) s = (None, s')"
  obtains m lo hi xte yte c ps opt clf scores rs p w1 w2 w3 w4 w5 where
    "namespace s ''model'' = Some (VObj m)"
    "namespace s ''_min'' = Some (VFloat lo)" "namespace s ''_max'' = Some (VFloat hi)"
    "namespace s ''x_test'' = Some (VArray xte)" "namespace s ''y_test'' = Some (VInts yte)"
    "CrossEntropyLoss L (world s) = (Inr c, w1)"
    "parameters L m w1 = (Inr ps, w2)"
    "Adam L ps w2 = (Inr opt, w3)"
    "PyTorchClassifier L m c opt True input_shape 10 (lo, hi) w3 = (Inr clf, w4)"
    "predict L clf xte w4 = (Inr scores, w5)"
    "rows scores = Inr rs" "argmax_all rs = Inr p"
    "s' = s\<lparr>world := w5,
            calls := calls s @
       [(Call_CrossEntropyLoss, Inr (VObj c)),
        (Call_parameters m, Inr (VObj ps)),
        (Call_Adam ps, Inr (VObj opt)),
        (Call_PyTorchClassifier m c opt True input_shape 10 (lo, hi), Inr (VObj clf)),
        (Call_predict clf xte, Inr (VArray scores))],
            namespace := (namespace s)
       (''criterion'' \<mapsto> VObj c, ''optimizer'' \<mapsto> VObj opt,
        ''art_model'' \<mapsto> VObj clf, ''pred'' \<mapsto> VInts p),
            stdout := stdout s @ [Print_base_model_accuracy (np_sum_eq p yte) (length yte)]\<rparr>"
  using assms unfolding cell_wrap_def
  apply (elim returned_elims)
  apply (auto split: if_splits)
  done

lemma instantiate_attackE:
  assumes "instantiate_attack L x s = (Inr u, s')"
  obtains clf atk w' where
    "namespace s ''art_model'' = Some (VObj clf)"
    "LabelOnlyDecisionBoundary L clf (world s) = (Inr atk, w')"
    "s' = s\<lparr>world := w',
            calls := calls s @ [(Call_LabelOnlyDecisionBoundary clf, Inr (VObj atk))],
            namespace := (namespace s)(x \<mapsto> VObj atk)\<rparr>"
  using assms unfolding instantiate_attack_def
  apply (elim returned_elims)
  apply auto
  done

lemma cell_prepareE:
  assumes "run_stmts (cell_prepare L) s = (None, s')"
  obtains xtr xte ytr yte xa n m where
    "namespace s ''x_train'' = Some (VArray xtr)" "namespace s ''x_test'' = Some (VArray xte)"
    "namespace s ''y_train'' = Some (VInts ytr)" "namespace s ''y_test'' = Some (VInts yte)"
    "concatenate [xtr, xte] = Inr xa" "np_len xtr = Inr n" "np_len xte = Inr m"
    "s' = s\<lparr>namespace := (namespace s)
       (''attack_train_size'' \<mapsto> VInt 1500, ''attack_test_size'' \<mapsto> VInt 1500,
        ''x'' \<mapsto> VArray xa, ''y'' \<mapsto> VInts (ytr @ yte),
        ''training_sample'' \<mapsto> VInts (replicate n 1 @ replicate m 0))\<rparr>"
  using assms unfolding cell_prepare_def
  apply (elim returned_elims)
  apply (auto split: if_splits)
  done

lemma cell_calibrateE:
  assumes "run_stmts (cell_calibrate L) s = (None, s')"
  obtains atk xtr ytr xte yte k1 k2 xm xn w' where
    "namespace s ''mia_label_only'' = Some (VObj atk)"
    "namespace s ''x_train'' = Some (VArray xtr)" "namespace s ''x_test'' = Some (VArray xte)"
    "namespace s ''y_train'' = Some (VInts ytr)" "namespace s ''y_test'' = Some (VInts yte)"
    "namespace s ''attack_train_size'' = Some (VInt k1)"
    "namespace s ''attack_test_size'' = Some (VInt k2)"
    "slice_to xtr k1 = Inr xm" "slice_to xte k2 = Inr xn"
    "calibrate_distance_threshold L atk xm (slice_ints ytr k1) xn (slice_ints yte k2) (world s)
       = (Inr (), w')"
    "s' = s\<lparr>world := w',
            calls := calls s @
       [(Call_calibrate_distance_threshold atk xm (slice_ints ytr k1) xn (slice_ints yte k2),
         Inr VNone)]\<rparr>"
  using assms unfolding cell_calibrate_def
  apply (elim returned_elims)
  apply (auto simp: unit_val_def)
  done

lemma cell_eval_dataE:
  assumes "run_stmts (cell_eval_data L) s = (None, s')"
  obtains xa ya ts m idx xe ye el w' where
    "namespace s ''x'' = Some (VArray xa)" "namespace s ''y'' = Some (VInts ya)"
    "namespace s ''training_sample'' = Some (VInts ts)"
    "np_len xa = Inr m"
    "choice L (int m) 500 (world s) = (Inr idx, w')"
    "take_rows xa idx = Inr xe" "take_ints ya idx = Inr ye" "take_ints ts idx = Inr el"
    "s' = s\<lparr>world := w',
            calls := calls s @ [(Call_choice (int m) 500, Inr (VInts idx))],
            namespace := (namespace s)
       (''n'' \<mapsto> VInt 500, ''eval_data_idx'' \<mapsto> VInts idx,
        ''x_eval'' \<mapsto> VArray xe, ''y_eval'' \<mapsto> VInts ye,
        ''eval_label'' \<mapsto> VInts el)\<rparr>"
  using assms unfolding cell_eval_data_def
  apply (elim returned_elims)
  apply (auto split: if_splits)
  done

lemma infer_membershipE:
  assumes "infer_membership L attack target s = (Inr u, s')"
  obtains atk xe ye p w' where
    "namespace s attack = Some (VObj atk)"
    "namespace s ''x_eval'' = Some (VArray xe)" "namespace s ''y_eval'' = Some (VInts ye)"
    "infer L atk xe ye (world s) = (Inr p, w')"
    "s' = s\<lparr>world := w',
            calls := calls s @ [(Call_infer atk xe ye, Inr (VInts p))],
            namespace := (namespace s)(target \<mapsto> VInts p)\<rparr>"
  using assms unfolding infer_membership_def
  apply (elim returned_elims)
  apply auto
  done

lemma print_accuracyE:
  assumes "print_accuracy L predicted s = (Inr u, s')"
  obtains el p r w' where
    "namespace s ''eval_label'' = Some (VInts el)" "namespace s predicted = Some (VInts p)"
    "accuracy_score L el p (world s) = (Inr r, w')"
    "s' = s\<lparr>world := w',
            calls := calls s @ [(Call_accuracy_score el p, Inr (VFloat r))],
            stdout := stdout s @ [Print_accuracy r]\<rparr>"
  using assms unfolding print_accuracy_def
  apply (elim returned_elims)
  apply auto
  done

lemma cell_calibrate_nodataE:
  assumes "run_stmts (cell_calibrate_nodata L) s = (None, s')"
  obtains atk w' where
    "namespace s ''mia_label_only_unsupervised'' = Some (VObj atk)"
    "calibrate_distance_threshold_unsupervised L atk 50 500 2 True 256 (world s) = (Inr (), w')"
    "s' = s\<lparr>world := w',
            calls := calls s @
       [(Call_calibrate_distance_threshold_unsupervised atk 50 500 2 True 256, Inr VNone)]\<rparr>"
  using assms unfolding cell_calibrate_nodata_def
  apply (elim returned_elims)
  apply (auto simp: unit_val_def)
  done

lemma single_statementE:
  assumes "run_stmts [m] s = (None, s')"
  obtains "m s = (Inr (), s')"
  using assms by (auto split: prod.splits sum.splits)


subsection \<open>The run that completes\<close>

lemma run_stmts_append:
  "run_stmts (xs @ ys) s =
     (case run_stmts xs s of (None, s') \<Rightarrow> run_stmts ys s' | (Some e, s') \<Rightarrow> (Some e, s'))"
  by (induction xs arbitrary: s) (auto split: prod.splits sum.splits option.splits)

lemma run_stmts_appendE:
  assumes "run_stmts (xs @ ys) s = (None, s'')"
  obtains s' where "run_stmts xs s = (None, s')" and "run_stmts ys s' = (None, s'')"
  using assms by (auto simp: run_stmts_append split: prod.splits option.splits)

lemma complete_runE:
  assumes "run_all L w = (None, s)"
  obtains xtr0 ytr xte0 yte lo hi xtr1 xte1 sd m c ps opt clf scores rs p a1 xa n1 n2 xm xn
    len idx xe ye el p1 r1 a2 p2 r2 w1 w2 w3 w4 w5 w6 w7 w8 w9 w10 w11 w12 w13 w14 w15 w16 w17 w18
  where
    "load_mnist L True w = (Inr ((xtr0, ytr), (xte0, yte), lo, hi), w1)"
    "expand_dims xtr0 1 = Inr xtr1" "expand_dims xte0 1 = Inr xte1"
    "torch_load L ''models/mnist_cnn.pt'' w1 = (Inr sd, w2)"
    "Net L w2 = (Inr m, w3)"
    "load_state_dict L m sd w3 = (Inr (), w4)"
    "CrossEntropyLoss L w4 = (Inr c, w5)"
    "parameters L m w5 = (Inr ps, w6)"
    "Adam L ps w6 = (Inr opt, w7)"
    "PyTorchClassifier L m c opt True input_shape 10 (lo, hi) w7 = (Inr clf, w8)"
    "predict L clf (astype_float32 xte1) w8 = (Inr scores, w9)"
    "rows scores = Inr rs" "argmax_all rs = Inr p"
    "LabelOnlyDecisionBoundary L clf w9 = (Inr a1, w10)"
    "concatenate [astype_float32 xtr1, astype_float32 xte1] = Inr xa"
    "np_len (astype_float32 xtr1) = Inr n1" "np_len (astype_float32 xte1) = Inr n2"
    "slice_to (astype_float32 xtr1) 1500 = Inr xm" "slice_to (astype_float32 xte1) 1500 = Inr xn"
    "calibrate_distance_threshold L a1 xm (slice_ints ytr 1500) xn (slice_ints yte 1500) w10
       = (Inr (), w11)"
    "np_len xa = Inr len"
    "choice L (int len) 500 w11 = (Inr idx, w12)"
    "take_rows xa idx = Inr xe" "take_ints (ytr @ yte) idx = Inr ye"
    "take_ints (replicate n1 1 @ replicate n2 0) idx = Inr el"
    "infer L a1 xe ye w12 = (Inr p1, w13)"
    "accuracy_score L el p1 w13 = (Inr r1, w14)"
    "LabelOnlyDecisionBoundary L clf w14 = (Inr a2, w15)"
    "calibrate_distance_threshold_unsupervised L a2 50 500 2 True 256 w15 = (Inr (), w16)"
    "infer L a2 xe ye w16 = (Inr p2, w17)"
    "accuracy_score L el p2 w17 = (Inr r2, w18)"
    "world s = w18"
    "calls s =
       [(Call_load_mnist True, Inr (dataset_val ((xtr0, ytr), (xte0, yte), lo, hi))),
        (Call_torch_load ''models/mnist_cnn.pt'', Inr (VObj sd)),
        (Call_Net, Inr (VObj m)),
        (Call_load_state_dict m sd, Inr VNone),
        (Call_CrossEntropyLoss, Inr (VObj c)),
        (Call_parameters m, Inr (VObj ps)),
        (Call_Adam ps, Inr (VObj opt)),
        (Call_PyTorchClassifier m c opt True input_shape 10 (lo, hi), Inr (VObj clf)),
        (Call_predict clf (astype_float32 xte1), Inr (VArray scores)),
        (Call_LabelOnlyDecisionBoundary clf, Inr (VObj a1)),
        (Call_calibrate_distance_threshold a1 xm (slice_ints ytr 1500) xn (slice_ints yte 1500),
         Inr VNone),
        (Call_choice (int len) 500, Inr (VInts idx)),
        (Call_infer a1 xe ye, Inr (VInts p1)),
        (Call_accuracy_score el p1, Inr (VFloat r1)),
        (Call_LabelOnlyDecisionBoundary clf, Inr (VObj a2)),
        (Call_calibrate_distance_threshold_unsupervised a2 50 500 2 True 256, Inr VNone),
        (Call_infer a2 xe ye, Inr (VInts p2)),
        (Call_accuracy_score el p2, Inr (VFloat r2))]"
    "stdout s =
       [Print_base_model_accuracy (np_sum_eq p yte) (length yte), Print_accuracy r1,
        Print_accuracy r2]"
    "namespace s =
       [''x_train'' \<mapsto> VArray (astype_float32 xtr1), ''y_train'' \<mapsto> VInts ytr,
        ''x_test'' \<mapsto> VArray (astype_float32 xte1), ''y_test'' \<mapsto> VInts yte,
        ''_min'' \<mapsto> VFloat lo, ''_max'' \<mapsto> VFloat hi,
        ''state_dict'' \<mapsto> VObj sd, ''model'' \<mapsto> VObj m,
        ''criterion'' \<mapsto> VObj c, ''optimizer'' \<mapsto> VObj opt, ''art_model'' \<mapsto> VObj clf,
        ''pred'' \<mapsto> VInts p,
        ''mia_label_only'' \<mapsto> VObj a1,
        ''attack_train_size'' \<mapsto> VInt 1500, ''attack_test_size'' \<mapsto> VInt 1500,
        ''x'' \<mapsto> VArray xa, ''y'' \<mapsto> VInts (ytr @ yte),
        ''training_sample'' \<mapsto> VInts (replicate n1 1 @ replicate n2 0),
        ''n'' \<mapsto> VInt 500, ''eval_data_idx'' \<mapsto> VInts idx,
        ''x_eval'' \<mapsto> VArray xe, ''y_eval'' \<mapsto> VInts ye, ''eval_label'' \<mapsto> VInts el,
        ''pred_label'' \<mapsto> VInts p1,
        ''mia_label_only_unsupervised'' \<mapsto> VObj a2,
        ''pred_label_unsupervised'' \<mapsto> VInts p2]"
proof -
  have split: "concat (notebook L) =
      cell_load_data L @ cell_load_model L @ cell_wrap L @ cell_instantiate L @ cell_prepare L @
      cell_calibrate L @ cell_eval_data L @ cell_infer L @ cell_accuracy L @
      cell_instantiate_nodata L @ cell_calibrate_nodata L @ cell_infer_nodata L @
      cell_accuracy_nodata L"
    by (simp add: notebook_def cell_imports_def)
  from assms obtain s1 s2 s3 s4 s5 s6 s7 s8 s9 s10 s11 s12 where
    c1: "run_stmts (cell_load_data L) (initial w) = (None, s1)" and
    c2: "run_stmts (cell_load_model L) s1 = (None, s2)" and
    c3: "run_stmts (cell_wrap L) s2 = (None, s3)" and
    c4: "run_stmts (cell_instantiate L) s3 = (None, s4)" and
    c5: "run_stmts (cell_prepare L) s4 = (None, s5)" and
    c6: "run_stmts (cell_calibrate L) s5 = (None, s6)" and
    c7: "run_stmts (cell_eval_data L) s6 = (None, s7)" and
    c8: "run_stmts (cell_infer L) s7 = (None, s8)" and
    c9: "run_stmts (cell_accuracy L) s8 = (None, s9)" and
    c10: "run_stmts (cell_instantiate_nodata L) s9 = (None, s10)" and
    c11: "run_stmts (cell_calibrate_nodata L) s10 = (None, s11)" and
    c12: "run_stmts (cell_infer_nodata L) s11 = (None, s12)" and
    c13: "run_stmts (cell_accuracy_nodata L) s12 = (None, s)"
    unfolding run_all_def split by (elim run_stmts_appendE)
  from c1 obtain xtr0 ytr xte0 yte lo hi w1 xtr1 xte1 where
    l1: "load_mnist L True (world (initial w)) = (Inr ((xtr0, ytr), (xte0, yte), lo, hi), w1)"
      "expand_dims xtr0 1 = Inr xtr1" "expand_dims xte0 1 = Inr xte1" and
    r1: "s1 = (initial w)\<lparr>world := w1,
            calls := calls (initial w) @
         [(Call_load_mnist True, Inr (dataset_val ((xtr0, ytr), (xte0, yte), lo, hi)))],
            namespace := (namespace (initial w))
         (''y_train'' \<mapsto> VInts ytr, ''y_test'' \<mapsto> VInts yte,
          ''_min'' \<mapsto> VFloat lo, ''_max'' \<mapsto> VFloat hi,
          ''x_train'' \<mapsto> VArray (astype_float32 xtr1),
          ''x_test'' \<mapsto> VArray (astype_float32 xte1))\<rparr>"
    by (rule cell_load_dataE)
  have s1: "world s1 = w1"
      "calls s1 = calls (initial w) @
         [(Call_load_mnist True, Inr (dataset_val ((xtr0, ytr), (xte0, yte), lo, hi)))]"
      "namespace s1 = (namespace (initial w))
         (''y_train'' \<mapsto> VInts ytr, ''y_test'' \<mapsto> VInts yte,
          ''_min'' \<mapsto> VFloat lo, ''_max'' \<mapsto> VFloat hi,
          ''x_train'' \<mapsto> VArray (astype_float32 xtr1),
          ''x_test'' \<mapsto> VArray (astype_float32 xte1))"
      "stdout s1 = stdout (initial w)"
    by (simp_all add: r1)
  from c2 obtain sd m w2 w3 w4 where
    l2: "torch_load L ''models/mnist_cnn.pt'' (world s1) = (Inr sd, w2)"
      "Net L w2 = (Inr m, w3)" "load_state_dict L m sd w3 = (Inr (), w4)" and
    r2: "s2 = s1\<lparr>world := w4,
            calls := calls s1 @
         [(Call_torch_load ''models/mnist_cnn.pt'', Inr (VObj sd)),
          (Call_Net, Inr (VObj m)),
          (Call_load_state_dict m sd, Inr VNone)],
            namespace := (namespace s1)(''state_dict'' \<mapsto> VObj sd, ''model'' \<mapsto> VObj m)\<rparr>"
    by (rule cell_load_modelE)
  have s2: "world s2 = w4"
      "calls s2 = calls s1 @
         [(Call_torch_load ''models/mnist_cnn.pt'', Inr (VObj sd)),
          (Call_Net, Inr (VObj m)),
          (Call_load_state_dict m sd, Inr VNone)]"
      "namespace s2 = (namespace s1)(''state_dict'' \<mapsto> VObj sd, ''model'' \<mapsto> VObj m)"
      "stdout s2 = stdout s1"
    by (simp_all add: r2)
  from c3 obtain m' lo' hi' xte' yte' c ps opt clf scores rs p w5 w6 w7 w8 w9 where
    v3: "namespace s2 ''model'' = Some (VObj m')"
      "namespace s2 ''_min'' = Some (VFloat lo')" "namespace s2 ''_max'' = Some (VFloat hi')"
      "namespace s2 ''x_test'' = Some (VArray xte')" "namespace s2 ''y_test'' = Some (VInts yte')" and
    l3: "CrossEntropyLoss L (world s2) = (Inr c, w5)"
      "parameters L m' w5 = (Inr ps, w6)"
      "Adam L ps w6 = (Inr opt, w7)"
      "PyTorchClassifier L m' c opt True input_shape 10 (lo', hi') w7 = (Inr clf, w8)"
      "predict L clf xte' w8 = (Inr scores, w9)"
      "rows scores = Inr rs" "argmax_all rs = Inr p" and
    r3: "s3 = s2\<lparr>world := w9,
            calls := calls s2 @
         [(Call_CrossEntropyLoss, Inr (VObj c)),
          (Call_parameters m', Inr (VObj ps)),
          (Call_Adam ps, Inr (VObj opt)),
          (Call_PyTorchClassifier m' c opt True input_shape 10 (lo', hi'), Inr (VObj clf)),
          (Call_predict clf xte', Inr (VArray scores))],
            namespace := (namespace s2)
         (''criterion'' \<mapsto> VObj c, ''optimizer'' \<mapsto> VObj opt,
          ''art_model'' \<mapsto> VObj clf, ''pred'' \<mapsto> VInts p),
            stdout := stdout s2 @ [Print_base_model_accuracy (np_sum_eq p yte') (length yte')]\<rparr>"
    by (rule cell_wrapE)
  have s3: "world s3 = w9"
      "calls s3 = calls s2 @
         [(Call_CrossEntropyLoss, Inr (VObj c)),
          (Call_parameters m', Inr (VObj ps)),
          (Call_Adam ps, Inr (VObj opt)),
          (Call_PyTorchClassifier m' c opt True input_shape 10 (lo', hi'), Inr (VObj clf)),
          (Call_predict clf xte', Inr (VArray scores))]"
      "namespace s3 = (namespace s2)
         (''criterion'' \<mapsto> VObj c, ''optimizer'' \<mapsto> VObj opt,
          ''art_model'' \<mapsto> VObj clf, ''pred'' \<mapsto> VInts p)"
      "stdout s3 = stdout s2 @ [Print_base_model_accuracy (np_sum_eq p yte') (length yte')]"
    by (simp_all add: r3)
  from v3 have e3: "m' = m" "lo' = lo" "hi' = hi" "xte' = astype_float32 xte1" "yte' = yte"
    by (simp_all add: s1 s2 initial_def)
  from c4 have "instantiate_attack L ''mia_label_only'' s3 = (Inr (), s4)"
    unfolding cell_instantiate_def by (rule single_statementE)
  then obtain clf' a1 w10 where
    v4: "namespace s3 ''art_model'' = Some (VObj clf')" and
    l4: "LabelOnlyDecisionBoundary L clf' (world s3) = (Inr a1, w10)" and
    r4: "s4 = s3\<lparr>world := w10,
            calls := calls s3 @ [(Call_LabelOnlyDecisionBoundary clf', Inr (VObj a1))],
            namespace := (namespace s3)(''mia_label_only'' \<mapsto> VObj a1)\<rparr>"
    by (rule instantiate_attackE)
  have s4: "world s4 = w10"
      "calls s4 = calls s3 @ [(Call_LabelOnlyDecisionBoundary clf', Inr (VObj a1))]"
      "namespace s4 = (namespace s3)(''mia_label_only'' \<mapsto> VObj a1)"
      "stdout s4 = stdout s3"
    by (simp_all add: r4)
  from v4 have e4: "clf' = clf"
    by (simp add: s3)
  from c5 obtain xtr xte ytr' yte'' xa n1 n2 where
    v5: "namespace s4 ''x_train'' = Some (VArray xtr)" "namespace s4 ''x_test'' = Some (VArray xte)"
      "namespace s4 ''y_train'' = Some (VInts ytr')" "namespace s4 ''y_test'' = Some (VInts yte'')" and
    l5: "concatenate [xtr, xte] = Inr xa" "np_len xtr = Inr n1" "np_len xte = Inr n2" and
    r5: "s5 = s4\<lparr>namespace := (namespace s4)
         (''attack_train_size'' \<mapsto> VInt 1500, ''attack_test_size'' \<mapsto> VInt 1500,
          ''x'' \<mapsto> VArray xa, ''y'' \<mapsto> VInts (ytr' @ yte''),
          ''training_sample'' \<mapsto> VInts (replicate n1 1 @ replicate n2 0))\<rparr>"
    by (rule cell_prepareE)
  have s5: "world s5 = world s4"
      "calls s5 = calls s4"
      "namespace s5 = (namespace s4)
         (''attack_train_size'' \<mapsto> VInt 1500, ''attack_test_size'' \<mapsto> VInt 1500,
          ''x'' \<mapsto> VArray xa, ''y'' \<mapsto> VInts (ytr' @ yte''),
          ''training_sample'' \<mapsto> VInts (replicate n1 1 @ replicate n2 0))"
      "stdout s5 = stdout s4"
    by (simp_all add: r5)
  from v5 have e5: "xtr = astype_float32 xtr1" "xte = astype_float32 xte1" "ytr' = ytr" "yte'' = yte"
    by (simp_all add: s1 s2 s3 s4 initial_def)
  from c6 obtain atk6 xtr6 ytr6 xte6 yte6 k1 k2 xm xn w11 where
    v6: "namespace s5 ''mia_label_only'' = Some (VObj atk6)"
      "namespace s5 ''x_train'' = Some (VArray xtr6)" "namespace s5 ''x_test'' = Some (VArray xte6)"
      "namespace s5 ''y_train'' = Some (VInts ytr6)" "namespace s5 ''y_test'' = Some (VInts yte6)"
      "namespace s5 ''attack_train_size'' = Some (VInt k1)"
      "namespace s5 ''attack_test_size'' = Some (VInt k2)" and
    l6: "slice_to xtr6 k1 = Inr xm" "slice_to xte6 k2 = Inr xn"
      "calibrate_distance_threshold L atk6 xm (slice_ints ytr6 k1) xn (slice_ints yte6 k2) (world s5)
         = (Inr (), w11)" and
    r6: "s6 = s5\<lparr>world := w11,
            calls := calls s5 @
         [(Call_calibrate_distance_threshold atk6 xm (slice_ints ytr6 k1) xn (slice_ints yte6 k2),
           Inr VNone)]\<rparr>"
    by (rule cell_calibrateE)
  have s6: "world s6 = w11"
      "calls s6 = calls s5 @
         [(Call_calibrate_distance_threshold atk6 xm (slice_ints ytr6 k1) xn (slice_ints yte6 k2),
           Inr VNone)]"
      "namespace s6 = namespace s5"
      "stdout s6 = stdout s5"
    by (simp_all add: r6)
  from v6 have e6: "atk6 = a1" "xtr6 = astype_float32 xtr1" "xte6 = astype_float32 xte1"
      "ytr6 = ytr" "yte6 = yte" "k1 = 1500" "k2 = 1500"
    by (simp_all add: s1 s2 s3 s4 s5 initial_def)
  from c7 obtain xa7 ya7 ts7 len idx xe ye el w12 where
    v7: "namespace s6 ''x'' = Some (VArray xa7)" "namespace s6 ''y'' = Some (VInts ya7)"
      "namespace s6 ''training_sample'' = Some (VInts ts7)" and
    l7: "np_len xa7 = Inr len" "choice L (int len) 500 (world s6) = (Inr idx, w12)"
      "take_rows xa7 idx = Inr xe" "take_ints ya7 idx = Inr ye" "take_ints ts7 idx = Inr el" and
    r7: "s7 = s6\<lparr>world := w12,
            calls := calls s6 @ [(Call_choice (int len) 500, Inr (VInts idx))],
            namespace := (namespace s6)
         (''n'' \<mapsto> VInt 500, ''eval_data_idx'' \<mapsto> VInts idx,
          ''x_eval'' \<mapsto> VArray xe, ''y_eval'' \<mapsto> VInts ye,
          ''eval_label'' \<mapsto> VInts el)\<rparr>"
    by (rule cell_eval_dataE)
  have s7: "world s7 = w12"
      "calls s7 = calls s6 @ [(Call_choice (int len) 500, Inr (VInts idx))]"
      "namespace s7 = (namespace s6)
         (''n'' \<mapsto> VInt 500, ''eval_data_idx'' \<mapsto> VInts idx,
          ''x_eval'' \<mapsto> VArray xe, ''y_eval'' \<mapsto> VInts ye,
          ''eval_label'' \<mapsto> VInts el)"
      "stdout s7 = stdout s6"
    by (simp_all add: r7)
  from v7 have e7: "xa7 = xa" "ya7 = ytr @ yte" "ts7 = replicate n1 1 @ replicate n2 0"
    by (simp_all add: s5 s6 e5)
  from c8 have "infer_membership L ''mia_label_only'' ''pred_label'' s7 = (Inr (), s8)"
    unfolding cell_infer_def by (rule single_statementE)
  then obtain atk8 xe8 ye8 p1 w13 where
    v8: "namespace s7 ''mia_label_only'' = Some (VObj atk8)"
      "namespace s7 ''x_eval'' = Some (VArray xe8)" "namespace s7 ''y_eval'' = Some (VInts ye8)" and
    l8: "infer L atk8 xe8 ye8 (world s7) = (Inr p1, w13)" and
    r8: "s8 = s7\<lparr>world := w13,
            calls := calls s7 @ [(Call_infer atk8 xe8 ye8, Inr (VInts p1))],
            namespace := (namespace s7)(''pred_label'' \<mapsto> VInts p1)\<rparr>"
    by (rule infer_membershipE)
  have s8: "world s8 = w13"
      "calls s8 = calls s7 @ [(Call_infer atk8 xe8 ye8, Inr (VInts p1))]"
      "namespace s8 = (namespace s7)(''pred_label'' \<mapsto> VInts p1)"
      "stdout s8 = stdout s7"
    by (simp_all add: r8)
  from v8 have e8: "atk8 = a1" "xe8 = xe" "ye8 = ye"
    by (simp_all add: s4 s5 s6 s7)
  from c9 have "print_accuracy L ''pred_label'' s8 = (Inr (), s9)"
    unfolding cell_accuracy_def by (rule single_statementE)
  then obtain el9 p9 r1 w14 where
    v9: "namespace s8 ''eval_label'' = Some (VInts el9)"
      "namespace s8 ''pred_label'' = Some (VInts p9)" and
    l9: "accuracy_score L el9 p9 (world s8) = (Inr r1, w14)" and
    r9: "s9 = s8\<lparr>world := w14,
            calls := calls s8 @ [(Call_accuracy_score el9 p9, Inr (VFloat r1))],
            stdout := stdout s8 @ [Print_accuracy r1]\<rparr>"
    by (rule print_accuracyE)
  have s9: "world s9 = w14"
      "calls s9 = calls s8 @ [(Call_accuracy_score el9 p9, Inr (VFloat r1))]"
      "namespace s9 = namespace s8"
      "stdout s9 = stdout s8 @ [Print_accuracy r1]"
    by (simp_all add: r9)
  from v9 have e9: "el9 = el" "p9 = p1"
    by (simp_all add: s7 s8)
  from c10 have "instantiate_attack L ''mia_label_only_unsupervised'' s9 = (Inr (), s10)"
    unfolding cell_instantiate_nodata_def by (rule single_statementE)
  then obtain clf10 a2 w15 where
    v10: "namespace s9 ''art_model'' = Some (VObj clf10)" and
    l10: "LabelOnlyDecisionBoundary L clf10 (world s9) = (Inr a2, w15)" and
    r10: "s10 = s9\<lparr>world := w15,
            calls := calls s9 @ [(Call_LabelOnlyDecisionBoundary clf10, Inr (VObj a2))],
            namespace := (namespace s9)(''mia_label_only_unsupervised'' \<mapsto> VObj a2)\<rparr>"
    by (rule instantiate_attackE)
  have s10: "world s10 = w15"
      "calls s10 = calls s9 @ [(Call_LabelOnlyDecisionBoundary clf10, Inr (VObj a2))]"
      "namespace s10 = (namespace s9)(''mia_label_only_unsupervised'' \<mapsto> VObj a2)"
      "stdout s10 = stdout s9"
    by (simp_all add: r10)
  from v10 have e10: "clf10 = clf"
    by (simp add: s3 s4 s5 s6 s7 s8 s9)
  from c11 obtain atk11 w16 where
    v11: "namespace s10 ''mia_label_only_unsupervised'' = Some (VObj atk11)" and
    l11: "calibrate_distance_threshold_unsupervised L atk11 50 500 2 True 256 (world s10)
            = (Inr (), w16)" and
    r11: "s11 = s10\<lparr>world := w16,
            calls := calls s10 @
         [(Call_calibrate_distance_threshold_unsupervised atk11 50 500 2 True 256, Inr VNone)]\<rparr>"
    by (rule cell_calibrate_nodataE)
  have s11: "world s11 = w16"
      "calls s11 = calls s10 @
         [(Call_calibrate_distance_threshold_unsupervised atk11 50 500 2 True 256, Inr VNone)]"
      "namespace s11 = namespace s10"
      "stdout s11 = stdout s10"
    by (simp_all add: r11)
  from v11 have e11: "atk11 = a2"
    by (simp add: s10)
  from c12 have "infer_membership L ''mia_label_only_unsupervised'' ''pred_label_unsupervised'' s11
      = (Inr (), s12)"
    unfolding cell_infer_nodata_def by (rule single_statementE)
  then obtain atk12 xe12 ye12 p2 w17 where
    v12: "namespace s11 ''mia_label_only_unsupervised'' = Some (VObj atk12)"
      "namespace s11 ''x_eval'' = Some (VArray xe12)" "namespace s11 ''y_eval'' = Some (VInts ye12)" and
    l12: "infer L atk12 xe12 ye12 (world s11) = (Inr p2, w17)" and
    r12: "s12 = s11\<lparr>world := w17,
            calls := calls s11 @ [(Call_infer atk12 xe12 ye12, Inr (VInts p2))],
            namespace := (namespace s11)(''pred_label_unsupervised'' \<mapsto> VInts p2)\<rparr>"
    by (rule infer_membershipE)
  have s12: "world s12 = w17"
      "calls s12 = calls s11 @ [(Call_infer atk12 xe12 ye12, Inr (VInts p2))]"
      "namespace s12 = (namespace s11)(''pred_label_unsupervised'' \<mapsto> VInts p2)"
      "stdout s12 = stdout s11"
    by (simp_all add: r12)
  from v12 have e12: "atk12 = a2" "xe12 = xe" "ye12 = ye"
    by (simp_all add: s7 s8 s9 s10 s11)
  from c13 have "print_accuracy L ''pred_label_unsupervised'' s12 = (Inr (), s)"
    unfolding cell_accuracy_nodata_def by (rule single_statementE)
  then obtain el13 p13 r2 w18 where
    v13: "namespace s12 ''eval_label'' = Some (VInts el13)"
      "namespace s12 ''pred_label_unsupervised'' = Some (VInts p13)" and
    l13: "accuracy_score L el13 p13 (world s12) = (Inr r2, w18)" and
    r13: "s = s12\<lparr>world := w18,
            calls := calls s12 @ [(Call_accuracy_score el13 p13, Inr (VFloat r2))],
            stdout := stdout s12 @ [Print_accuracy r2]\<rparr>"
    by (rule print_accuracyE)
  have s13: "world s = w18"
      "calls s = calls s12 @ [(Call_accuracy_score el13 p13, Inr (VFloat r2))]"
      "namespace s = namespace s12"
      "stdout s = stdout s12 @ [Print_accuracy r2]"
    by (simp_all add: r13)
  from v13 have e13: "el13 = el" "p13 = p2"
    by (simp_all add: s7 s8 s9 s10 s11 s12)
  note eqs = e3 e4 e5 e6 e7 e8 e9 e10 e11 e12 e13
  note sts = s1 s2 s3 s4 s5 s6 s7 s8 s9 s10 s11 s12 s13 initial_def
  have ws: "world (initial w) = w"
    by (simp add: initial_def)
  have w: "world s = w18"
    by (rule s13)
  have cs: "calls s =
       [(Call_load_mnist True, Inr (dataset_val ((xtr0, ytr), (xte0, yte), lo, hi))),
        (Call_torch_load ''models/mnist_cnn.pt'', Inr (VObj sd)),
        (Call_Net, Inr (VObj m)),
        (Call_load_state_dict m sd, Inr VNone),
        (Call_CrossEntropyLoss, Inr (VObj c)),
        (Call_parameters m, Inr (VObj ps)),
        (Call_Adam ps, Inr (VObj opt)),
        (Call_PyTorchClassifier m c opt True input_shape 10 (lo, hi), Inr (VObj clf)),
        (Call_predict clf (astype_float32 xte1), Inr (VArray scores)),
        (Call_LabelOnlyDecisionBoundary clf, Inr (VObj a1)),
        (Call_calibrate_distance_threshold a1 xm (slice_ints ytr 1500) xn (slice_ints yte 1500),
         Inr VNone),
        (Call_choice (int len) 500, Inr (VInts idx)),
        (Call_infer a1 xe ye, Inr (VInts p1)),
        (Call_accuracy_score el p1, Inr (VFloat r1)),
        (Call_LabelOnlyDecisionBoundary clf, Inr (VObj a2)),
        (Call_calibrate_distance_threshold_unsupervised a2 50 500 2 True 256, Inr VNone),
        (Call_infer a2 xe ye, Inr (VInts p2)),
        (Call_accuracy_score el p2, Inr (VFloat r2))]"
    by (simp add: sts eqs)
  have out: "stdout s =
       [Print_base_model_accuracy (np_sum_eq p yte) (length yte), Print_accuracy r1,
        Print_accuracy r2]"
    by (simp add: sts eqs)
  have ns: "namespace s =
       [''x_train'' \<mapsto> VArray (astype_float32 xtr1), ''y_train'' \<mapsto> VInts ytr,
        ''x_test'' \<mapsto> VArray (astype_float32 xte1), ''y_test'' \<mapsto> VInts yte,
        ''_min'' \<mapsto> VFloat lo, ''_max'' \<mapsto> VFloat hi,
        ''state_dict'' \<mapsto> VObj sd, ''model'' \<mapsto> VObj m,
        ''criterion'' \<mapsto> VObj c, ''optimizer'' \<mapsto> VObj opt, ''art_model'' \<mapsto> VObj clf,
        ''pred'' \<mapsto> VInts p,
        ''mia_label_only'' \<mapsto> VObj a1,
        ''attack_train_size'' \<mapsto> VInt 1500, ''attack_test_size'' \<mapsto> VInt 1500,
        ''x'' \<mapsto> VArray xa, ''y'' \<mapsto> VInts (ytr @ yte),
        ''training_sample'' \<mapsto> VInts (replicate n1 1 @ replicate n2 0),
        ''n'' \<mapsto> VInt 500, ''eval_data_idx'' \<mapsto> VInts idx,
        ''x_eval'' \<mapsto> VArray xe, ''y_eval'' \<mapsto> VInts ye, ''eval_label'' \<mapsto> VInts el,
        ''pred_label'' \<mapsto> VInts p1,
        ''mia_label_only_unsupervised'' \<mapsto> VObj a2,
        ''pred_label_unsupervised'' \<mapsto> VInts p2]"
    by (rule ext) (simp add: sts eqs)
  show thesis
    using l1 l2 l3 l4 l5 l6 l7 l8 l9 l10 l11 l12 l13 w cs out ns
    unfolding eqs ws s1 s2 s3 s4 s5 s6 s7 s8 s9 s10 s11 s12 by (rule that)
qed


section \<open>The run on the small library\<close>

lemmas cell_defs =
  cell_imports_def cell_load_data_def cell_load_model_def cell_wrap_def cell_instantiate_def
  cell_prepare_def cell_calibrate_def cell_eval_data_def cell_infer_def cell_accuracy_def
  cell_instantiate_nodata_def cell_calibrate_nodata_def cell_infer_nodata_def
  cell_accuracy_nodata_def to_channels_first_def instantiate_attack_def infer_membership_def
  print_accuracy_def

lemmas py_defs =
  py_bind_def py_then_def lift_def load_name_def store_name_def print_line_def lib_call_def
  get_int_def get_float_def get_obj_def get_ints_def get_array_def as_int_def as_float_def
  as_obj_def as_ints_def as_array_def unit_val_def dataset_val_def

lemmas np_defs =
  np_len_def expand_dims_def astype_float32_def concatenate_def slice_to_def slice_ints_def
  slice_stop_def take_rows_def take_ints_def rows_def argmax_def np_sum_eq_def index_ok_def
  wrap_index_def row_def stride_def input_shape_def fraction_equal_def

lemmas demo_defs =
  demo_library_def demo_final_def demo_x_train_def demo_x_test_def demo_x_def demo_x_eval_def
  demo_idx_def demo_y_eval_def demo_eval_label_def

lemma demo_fraction:
  "fraction_equal (replicate 250 1 @ replicate 250 0) (replicate 500 1) = 1 / 2"
proof -
  have "replicate 500 (1::int) = replicate 250 1 @ replicate 250 1"
    by (simp add: replicate_add [symmetric])
  then show ?thesis
    by (simp add: fraction_equal_def)
qed

lemma demo_run:
  "run_all demo_library 100 = (None, demo_final)"
  by (simp add: run_all_def notebook_def initial_def cell_defs py_defs np_len_def
      expand_dims_def astype_float32_def concatenate_def slice_to_def slice_ints_def
      slice_stop_def take_rows_def take_ints_def rows_def argmax_def np_sum_eq_def index_ok_def
      wrap_index_def row_def stride_def input_shape_def demo_defs demo_fraction list_all_iff
      nth_append)


section \<open>The run on the library with more samples than a calibration takes\<close>

lemma row_of_uniform:
  "j < n \<Longrightarrow> take 2 (drop (j * 2) (concat (replicate n [a, b]))) = [a, b]"
proof (induction n arbitrary: j)
  case 0
  then show ?case
    by simp
next
  case (Suc n)
  then show ?case
    by (cases j) simp_all
qed

lemma rows_uniform:
  "rows (NDArray [n, 2] (concat (replicate n [a, b]))) = Inr (replicate n [a, b])"
proof -
  have "map (row (NDArray [n, 2] (concat (replicate n [a, b])))) [0..<n] = replicate n [a, b]"
    by (rule nth_equalityI) (simp_all add: row_def stride_def row_of_uniform)
  then show ?thesis
    by (simp add: rows_def)
qed

lemma argmax_all_uniform:
  "argmax vs = Inr i \<Longrightarrow> argmax_all (replicate n vs) = Inr (replicate n i)"
  by (induction n) simp_all

lemma argmax_second:
  "argmax [Float32 0, Float32 1] = Inr 1"
  by (simp add: argmax_def)

lemma large_run:
  "run_all large_library 100 = (None, large_final)"
  by (simp add: run_all_def notebook_def initial_def cell_defs py_defs np_len_def
      expand_dims_def astype_float32_def concatenate_def slice_to_def slice_ints_def
      slice_stop_def take_rows_def take_ints_def rows_uniform
      argmax_all_uniform [OF argmax_second] np_sum_eq_def index_ok_def
      wrap_index_def row_def stride_def input_shape_def demo_defs large_library_def
      large_final_def large_x_train_def large_x_test_def large_x_def large_idx_def
      large_members_def large_nonmembers_def demo_fraction list_all_iff nth_append)


section \<open>The array operations\<close>


lemma row_of_appended:
  assumes "length xs = n * k"
  shows "take k (drop (i * k) (xs @ ys)) =
     (if i < n then take k (drop (i * k) xs) else take k (drop ((i - n) * k) ys))"
proof (cases "i < n")
  case True
  then have "Suc i * k \<le> n * k"
    by (intro mult_le_mono1) simp
  then have "i * k + k \<le> length xs"
    using assms by simp
  then show ?thesis
    using True by simp
next
  case False
  then have "n * k \<le> i * k"
    by (intro mult_le_mono1) simp
  moreover have "i * k - n * k = (i - n) * k"
    by (simp add: diff_mult_distrib)
  ultimately show ?thesis
    using False assms by simp
qed

lemma wrap_index_less:
  "index_ok n i \<Longrightarrow> wrap_index n i < n"
  by (auto simp: index_ok_def wrap_index_def)

lemma in_range_index_ok:
  "0 \<le> i \<Longrightarrow> i < int n \<Longrightarrow> index_ok n i"
  by (simp add: index_ok_def)

lemma take_ints_length:
  "take_ints v idx = Inr el \<Longrightarrow> length el = length idx"
  by (auto simp: take_ints_def split: if_splits)

lemma take_rows_len:
  "take_rows a idx = Inr b \<Longrightarrow> np_len b = Inr (length idx)"
  by (auto simp: take_rows_def np_len_def split: list.splits if_splits)

lemma binary_membership:
  "binary (replicate n 1 @ replicate m 0)"
  by (auto simp: binary_def list_all_iff)

lemma take_ints_binary:
  assumes "take_ints v idx = Inr el" and "binary v"
  shows "binary el"
proof -
  from assms(1) have ok: "list_all (index_ok (length v)) idx"
    and el: "el = map (\<lambda>i. v ! wrap_index (length v) i) idx"
    by (auto simp: take_ints_def split: if_splits)
  have "v ! wrap_index (length v) i = 0 \<or> v ! wrap_index (length v) i = 1" if "i \<in> set idx" for i
  proof -
    from ok that have "wrap_index (length v) i < length v"
      by (simp add: list_all_iff wrap_index_less)
    then have "v ! wrap_index (length v) i \<in> set v"
      by simp
    with assms(2) show ?thesis
      by (simp add: binary_def list_all_iff)
  qed
  then show ?thesis
    by (simp add: el binary_def list_all_iff)
qed





text \<open>
  C8. In a state where the two splits are bound, with \<open>n\<close> and \<open>m\<close> samples of the same
  shape and as many labels, the cell that builds \<open>x\<close>, \<open>y\<close> and \<open>training_sample\<close>
  completes; the three have length \<open>n + m\<close>; entry \<open>i\<close> of \<open>training_sample\<close> is 1
  exactly when \<open>i < n\<close>, and entry \<open>i\<close> of \<open>x\<close> is then entry \<open>i\<close> of the training
  split, and entry \<open>i - n\<close> of the test split otherwise.
\<close>

theorem membership_indicator_matches_concatenation:
  assumes bound: "namespace s ''x_train'' = Some (VArray xtr)"
      "namespace s ''x_test'' = Some (VArray xte)"
      "namespace s ''y_train'' = Some (VInts ytr)"
      "namespace s ''y_test'' = Some (VInts yte)"
    and shapes: "shape xtr = n # sample" "shape xte = m # sample"
    and wf: "well_shaped xtr"
    and labels: "length ytr = n" "length yte = m"
  shows "\<exists>s' xa ya ts.
           run_stmts (cell_prepare L) s = (None, s') \<and>
           namespace s' ''x'' = Some (VArray xa) \<and>
           namespace s' ''y'' = Some (VInts ya) \<and>
           namespace s' ''training_sample'' = Some (VInts ts) \<and>
           np_len xtr = Inr n \<and> np_len xa = Inr (n + m) \<and>
           length ya = n + m \<and> length ts = n + m \<and>
           (\<forall>i<n + m. (ts ! i = 1 \<longleftrightarrow> i < n) \<and>
                      row xa i = (if i < n then row xtr i else row xte (i - n)))"
proof -
  define xa where "xa = NDArray ((n + m) # sample) (data xtr @ data xte)"
  define ts :: "int list" where "ts = replicate n 1 @ replicate m 0"
  define s' where "s' = s\<lparr>namespace := (namespace s)
      (''attack_train_size'' \<mapsto> VInt 1500, ''attack_test_size'' \<mapsto> VInt 1500,
       ''x'' \<mapsto> VArray xa, ''y'' \<mapsto> VInts (ytr @ yte), ''training_sample'' \<mapsto> VInts ts)\<rparr>"
  have cat: "concatenate [xtr, xte] = Inr xa"
    by (simp add: concatenate_def shapes xa_def)
  have lens: "np_len xtr = Inr n" "np_len xte = Inr m" "np_len xa = Inr (n + m)"
    by (simp_all add: np_len_def shapes xa_def)
  have run: "run_stmts (cell_prepare L) s = (None, s')"
    by (simp add: cell_prepare_def get_array_def get_ints_def py_bind_def load_name_def lift_def
        as_array_def as_ints_def store_name_def bound cat lens s'_def ts_def)
  have size: "length (data xtr) = n * prod_list sample"
    using wf by (simp add: well_shaped_def shapes)
  have entry: "(ts ! i = 1 \<longleftrightarrow> i < n) \<and> row xa i = (if i < n then row xtr i else row xte (i - n))"
    if "i < n + m" for i
  proof
    show "ts ! i = 1 \<longleftrightarrow> i < n"
      using that by (simp add: ts_def nth_append)
    show "row xa i = (if i < n then row xtr i else row xte (i - n))"
      using row_of_appended [OF size, of i "data xte"]
      by (simp add: row_def stride_def shapes xa_def)
  qed
  show ?thesis
    apply (rule exI [of _ s'], rule exI [of _ xa], rule exI [of _ "ytr @ yte"], rule exI [of _ ts])
    apply (intro conjI)
            apply (rule run)
           apply (simp add: s'_def)
          apply (simp add: s'_def)
         apply (simp add: s'_def)
        apply (rule lens)
       apply (rule lens)
      apply (simp add: labels)
     apply (simp add: ts_def)
    using entry apply blast
    done
qed


theorem membership_indicator_matches_concatenation_witness:
  "namespace demo_final ''x_train'' = Some (VArray demo_x_train) \<and>
   namespace demo_final ''x_test'' = Some (VArray demo_x_test) \<and>
   namespace demo_final ''y_train'' = Some (VInts [5, 0]) \<and>
   namespace demo_final ''y_test'' = Some (VInts [4]) \<and>
   shape demo_x_train = 2 # [1, 28, 28] \<and> shape demo_x_test = 1 # [1, 28, 28] \<and>
   well_shaped demo_x_train \<and>
   (\<exists>s' ts. run_stmts (cell_prepare demo_library) demo_final = (None, s') \<and>
      namespace s' ''training_sample'' = Some (VInts ts) \<and>
      length ts = 3 \<and> ts ! 0 = 1 \<and> ts ! 1 = 1 \<and> ts ! 2 \<noteq> 1)"
proof -
  have h: "namespace demo_final ''x_train'' = Some (VArray demo_x_train)"
    "namespace demo_final ''x_test'' = Some (VArray demo_x_test)"
    "namespace demo_final ''y_train'' = Some (VInts [5, 0])"
    "namespace demo_final ''y_test'' = Some (VInts [4])"
    "shape demo_x_train = 2 # [1, 28, 28]" "shape demo_x_test = 1 # [1, 28, 28]"
    "well_shaped demo_x_train" "length [5, 0 :: int] = 2" "length [4 :: int] = 1"
    by (simp_all add: demo_final_def demo_x_train_def demo_x_test_def well_shaped_def)
  from membership_indicator_matches_concatenation [OF h, of demo_library] obtain s' xa ya ts where
    run: "run_stmts (cell_prepare demo_library) demo_final = (None, s')"
    and ts: "namespace s' ''training_sample'' = Some (VInts ts)" "length ts = 2 + 1"
    and ind: "\<forall>i<2 + 1. (ts ! i = 1 \<longleftrightarrow> i < 2) \<and>
      row xa i = (if i < 2 then row demo_x_train i else row demo_x_test (i - 2))"
    by (elim exE conjE)
  have "ts ! 0 = 1 \<longleftrightarrow> (0::nat) < 2" "ts ! 1 = 1 \<longleftrightarrow> (1::nat) < 2"
    "ts ! 2 = 1 \<longleftrightarrow> (2::nat) < 2"
    using ind [rule_format, of 0] ind [rule_format, of 1] ind [rule_format, of 2] by simp_all
  then have vals: "ts ! 0 = 1" "ts ! 1 = 1" "ts ! 2 \<noteq> 1"
    by simp_all
  have "\<exists>s' ts. run_stmts (cell_prepare demo_library) demo_final = (None, s') \<and>
      namespace s' ''training_sample'' = Some (VInts ts) \<and>
      length ts = 3 \<and> ts ! 0 = 1 \<and> ts ! 1 = 1 \<and> ts ! 2 \<noteq> 1"
    using run ts vals by (intro exI [of _ s'] exI [of _ ts]) simp
  with h show ?thesis
    by simp
qed

section \<open>Every run\<close>

subsection \<open>The outcomes of a computation\<close>

lemma py_bindE:
  assumes "py_bind m f s = (r, s'')"
  obtains (raised) e where "m s = (Inl e, s'')" and "r = Inl e"
  | (returned) a s' where "m s = (Inr a, s')" and "f a s' = (r, s'')"
  using assms by (auto simp: py_bind_def split: prod.splits sum.splits)

lemma py_thenE:
  assumes "py_then m k s = (r, s'')"
  obtains (raised) e where "m s = (Inl e, s'')" and "r = Inl e"
  | (returned) s' where "m s = (Inr (), s')" and "k s' = (r, s'')"
  using assms unfolding py_then_def by (elim py_bindE) auto

lemma liftE:
  assumes "lift x s = (r, s')"
  obtains "s' = s" and "r = x"
  using assms by (auto simp: lift_def)

lemma store_nameE:
  assumes "store_name x v s = (r, s')"
  obtains "r = Inr ()" and "s' = s\<lparr>namespace := (namespace s)(x \<mapsto> v)\<rparr>"
  using assms by (auto simp: store_name_def)

lemma print_lineE:
  assumes "print_line out s = (r, s')"
  obtains "r = Inr ()" and "s' = s\<lparr>stdout := stdout s @ [out]\<rparr>"
  using assms by (auto simp: print_line_def)

lemma lib_callE:
  assumes "lib_call c enc f s = (r, s')"
  obtains w' where "f (world s) = (r, w')"
    and "s' = s\<lparr>world := w', calls := calls s @ [(c, map_sum id enc r)]\<rparr>"
  using assms by (auto simp: lib_call_def split: prod.splits)

lemma get_intE:
  assumes "get_int x s = (r, s')"
  obtains (raised) e where "r = Inl e" and "s' = s"
  | (returned) a where "r = Inr a" and "s' = s" and "namespace s x = Some (VInt a)"
  using assms
  by (auto simp: get_int_def py_bind_def load_name_def lift_def as_int_def
           split: option.splits pyval.splits)

lemma get_floatE:
  assumes "get_float x s = (r, s')"
  obtains (raised) e where "r = Inl e" and "s' = s"
  | (returned) a where "r = Inr a" and "s' = s" and "namespace s x = Some (VFloat a)"
  using assms
  by (auto simp: get_float_def py_bind_def load_name_def lift_def as_float_def
           split: option.splits pyval.splits)

lemma get_objE:
  assumes "get_obj x s = (r, s')"
  obtains (raised) e where "r = Inl e" and "s' = s"
  | (returned) a where "r = Inr a" and "s' = s" and "namespace s x = Some (VObj a)"
  using assms
  by (auto simp: get_obj_def py_bind_def load_name_def lift_def as_obj_def
           split: option.splits pyval.splits)

lemma get_intsE:
  assumes "get_ints x s = (r, s')"
  obtains (raised) e where "r = Inl e" and "s' = s"
  | (returned) a where "r = Inr a" and "s' = s" and "namespace s x = Some (VInts a)"
  using assms
  by (auto simp: get_ints_def py_bind_def load_name_def lift_def as_ints_def
           split: option.splits pyval.splits)

lemma get_arrayE:
  assumes "get_array x s = (r, s')"
  obtains (raised) e where "r = Inl e" and "s' = s"
  | (returned) a where "r = Inr a" and "s' = s" and "namespace s x = Some (VArray a)"
  using assms
  by (auto simp: get_array_def py_bind_def load_name_def lift_def as_array_def
           split: option.splits pyval.splits)

lemmas outcome_elims =
  py_bindE py_thenE liftE store_nameE print_lineE lib_callE get_intE get_floatE get_objE
  get_intsE get_arrayE

lemma statements:
  "concat (notebook L) =
     [py_bind (lib_call (Call_load_mnist True) dataset_val (load_mnist L True))
        (\<lambda>d. case d of ((xtr, ytr), (xte, yte), lo, hi) \<Rightarrow>
           py_then (store_name ''x_train'' (VArray xtr))
          (py_then (store_name ''y_train'' (VInts ytr))
          (py_then (store_name ''x_test'' (VArray xte))
          (py_then (store_name ''y_test'' (VInts yte))
          (py_then (store_name ''_min'' (VFloat lo))
                   (store_name ''_max'' (VFloat hi))))))),
      to_channels_first ''x_train'',
      to_channels_first ''x_test''] @
     cell_load_model L @ cell_wrap L @
     [instantiate_attack L ''mia_label_only''] @
     cell_prepare L @ cell_calibrate L @ cell_eval_data L @
     [infer_membership L ''mia_label_only'' ''pred_label'',
      print_accuracy L ''pred_label'',
      instantiate_attack L ''mia_label_only_unsupervised''] @
     cell_calibrate_nodata L @
     [infer_membership L ''mia_label_only_unsupervised'' ''pred_label_unsupervised'',
      print_accuracy L ''pred_label_unsupervised'']"
  by (simp add: notebook_def cell_imports_def cell_load_data_def cell_instantiate_def
      cell_infer_def cell_accuracy_def cell_instantiate_nodata_def cell_infer_nodata_def
      cell_accuracy_nodata_def)

lemma run_stmts_invariant:
  assumes "\<And>m s r s'. m \<in> set ms \<Longrightarrow> I s \<Longrightarrow> m s = (r, s') \<Longrightarrow> I s'"
    and "I s"
  shows "I (snd (run_stmts ms s))"
  using assms
proof (induction ms arbitrary: s)
  case Nil
  then show ?case by simp
next
  case (Cons m ms)
  obtain r s' where step: "m s = (r, s')"
    by (cases "m s")
  with Cons.prems have I': "I s'"
    by (metis list.set_intros(1))
  show ?case
  proof (cases r)
    case (Inl e)
    with step I' show ?thesis by simp
  next
    case (Inr u)
    have "I (snd (run_stmts ms s'))"
      by (rule Cons.IH) (use Cons.prems I' in auto)
    with step Inr show ?thesis by simp
  qed
qed


subsection \<open>The membership vectors\<close>

lemma preserves_bind:
  assumes "preserves I m" and "\<And>a. preserves I (f a)"
  shows "preserves I (py_bind m f)"
  unfolding preserves_def
proof (intro allI impI)
  fix s r s'
  assume "I s" and "py_bind m f s = (r, s')"
  from this(2) show "I s'"
  proof (cases rule: py_bindE)
    case (raised e)
    with assms(1) \<open>I s\<close> show ?thesis
      by (auto simp: preserves_def)
  next
    case (returned a s1)
    with assms(1) \<open>I s\<close> have "I s1"
      by (auto simp: preserves_def)
    with assms(2) returned show ?thesis
      by (auto simp: preserves_def)
  qed
qed

lemma preserves_then:
  "preserves I m \<Longrightarrow> preserves I k \<Longrightarrow> preserves I (py_then m k)"
  unfolding py_then_def by (rule preserves_bind)

lemma preserves_case_prod:
  "(\<And>a b. preserves I (f a b)) \<Longrightarrow> preserves I (case p of (a, b) \<Rightarrow> f a b)"
  by (cases p) simp

lemma preserves_lift:
  "preserves I (lift x)"
  by (auto simp: preserves_def elim: liftE)

lemma preserves_get:
  "preserves I (get_int x)" "preserves I (get_float x)" "preserves I (get_obj x)"
  "preserves I (get_ints x)" "preserves I (get_array x)"
  by (auto simp: preserves_def elim: get_intE get_floatE get_objE get_intsE get_arrayE)

lemmas preserves_rules =
  preserves_bind preserves_then preserves_case_prod preserves_lift preserves_get

lemma binary_var_frame:
  "namespace s' x = namespace s x \<Longrightarrow> binary_var s' x = binary_var s x"
  by (simp add: binary_var_def)

lemma binary_lib_call:
  "preserves membership_binary (lib_call c enc f)"
  by (auto simp: preserves_def membership_binary_def binary_var_def elim!: lib_callE)

lemma binary_print_line:
  "preserves membership_binary (print_line out)"
  by (auto simp: preserves_def membership_binary_def binary_var_def elim!: print_lineE)

lemma binary_store_other:
  "x \<noteq> ''training_sample'' \<Longrightarrow> x \<noteq> ''eval_label'' \<Longrightarrow>
   preserves membership_binary (store_name x v)"
  by (auto simp: preserves_def membership_binary_def binary_var_def elim!: store_nameE)

lemma binary_store_training_sample:
  "preserves membership_binary
     (store_name ''training_sample'' (VInts (replicate n 1 @ replicate m 0)))"
  using binary_membership [of n m]
  by (auto simp: preserves_def membership_binary_def binary_var_def elim!: store_nameE)

lemma binary_store_eval_label:
  "preserves membership_binary
     (py_bind (get_ints ''training_sample'') (\<lambda>ts.
      py_bind (get_ints ''eval_data_idx'') (\<lambda>idx.
      py_bind (lift (take_ints ts idx)) (\<lambda>el.
      store_name ''eval_label'' (VInts el)))))"
  unfolding preserves_def
proof (intro allI impI)
  fix s :: "'a kernel" and r s'
  assume inv: "membership_binary s"
    and run: "py_bind (get_ints ''training_sample'') (\<lambda>ts.
      py_bind (get_ints ''eval_data_idx'') (\<lambda>idx.
      py_bind (lift (take_ints ts idx)) (\<lambda>el.
      store_name ''eval_label'' (VInts el)))) s = (r, s')"
  from run show "membership_binary s'"
  proof (cases rule: py_bindE)
    case (raised e)
    with inv show ?thesis
      by (auto elim: get_intsE)
  next
    case (returned ts s1)
    then have s1: "s1 = s" and ts: "namespace s ''training_sample'' = Some (VInts ts)"
      by (auto elim: get_intsE)
    from inv ts have bin: "binary ts"
      by (simp add: membership_binary_def binary_var_def)
    from returned(2) show ?thesis
    proof (cases rule: py_bindE)
      case (raised e)
      with inv s1 show ?thesis
        by (auto elim: get_intsE)
    next
      case (returned idx s2)
      then have s2: "s2 = s"
        using s1 by (auto elim: get_intsE)
      from returned(2) show ?thesis
      proof (cases rule: py_bindE)
        case (raised e)
        with inv s2 show ?thesis
          by (auto elim: liftE)
      next
        case (returned el s3)
        then have s3: "s3 = s" and el: "take_ints ts idx = Inr el"
          using s2 by (auto elim: liftE)
        from el bin have "binary el"
          by (rule take_ints_binary)
        with returned(2) inv s3 show ?thesis
          by (auto simp: membership_binary_def binary_var_def elim!: store_nameE)
      qed
    qed
  qed
qed

lemmas binary_rules =
  binary_store_eval_label preserves_rules binary_lib_call binary_print_line
  binary_store_training_sample binary_store_other

lemma statement_keeps_binary:
  assumes "m \<in> set (concat (notebook L))"
  shows "preserves membership_binary m"
  using assms
  unfolding statements cell_load_model_def cell_wrap_def cell_prepare_def cell_calibrate_def
    cell_eval_data_def cell_calibrate_nodata_def to_channels_first_def instantiate_attack_def
    infer_membership_def print_accuracy_def
  apply (simp only: set_append set_simps Un_iff insert_iff empty_iff simp_thms)
  apply (elim disjE)
  apply (simp_all only:)
  apply (intro binary_rules; simp)+
  done

text \<open>
  C4. In every run of the notebook, after any number of statements, the variable
  \<open>training_sample\<close>, once bound, holds an integer vector whose entries are all 0 or 1,
  and so does \<open>eval_label\<close>.
\<close>

theorem membership_stays_binary:
  "membership_binary (snd (run_stmts (take k (concat (notebook L))) (initial w)))"
proof (rule run_stmts_invariant)
  show "membership_binary (initial w)"
    by (simp add: membership_binary_def binary_var_def initial_def)
next
  fix m s r s'
  assume "m \<in> set (take k (concat (notebook L)))"
  then have "m \<in> set (concat (notebook L))"
    by (rule in_set_takeD)
  then have "preserves membership_binary m"
    by (rule statement_keeps_binary)
  moreover assume "membership_binary s" and "m s = (r, s')"
  ultimately show "membership_binary s'"
    by (auto simp: preserves_def)
qed

theorem membership_stays_binary_witness:
  "run_stmts (take 28 (concat (notebook demo_library))) (initial 100) = (None, demo_final) \<and>
   namespace demo_final ''training_sample'' = Some (VInts [1, 1, 0]) \<and>
   namespace demo_final ''eval_label'' = Some (VInts (replicate 250 1 @ replicate 250 0)) \<and>
   binary [1, 1, 0] \<and> binary (replicate 250 1 @ replicate 250 0)"
proof -
  have "length (concat (notebook demo_library)) = 28"
    by (simp add: statements cell_load_model_def cell_wrap_def cell_prepare_def
        cell_calibrate_def cell_eval_data_def cell_calibrate_nodata_def)
  then have run: "run_stmts (take 28 (concat (notebook demo_library))) (initial 100)
      = (None, demo_final)"
    using demo_run by (simp add: run_all_def)
  have ns: "namespace demo_final ''training_sample'' = Some (VInts [1, 1, 0])"
    "namespace demo_final ''eval_label'' = Some (VInts (replicate 250 1 @ replicate 250 0))"
    by (simp_all add: demo_final_def demo_eval_label_def numeral_2_eq_2)
  from membership_stays_binary [of 28 demo_library 100] run
  have "membership_binary demo_final"
    by simp
  with ns have "binary [1, 1, 0]" "binary (replicate 250 1 @ replicate 250 0)"
    by (simp_all add: membership_binary_def binary_var_def)
  with run ns show ?thesis
    by simp
qed


subsection \<open>The order of the calls\<close>

lemma trace_append [simp]:
  "trace (s\<lparr>world := w, calls := calls s @ [(c, r)]\<rparr>) = trace s @ [entry_point_of c]"
  by (simp add: trace_def calls_made_def)

lemma trace_frame [simp]:
  "trace (s\<lparr>namespace := ns\<rparr>) = trace s" "trace (s\<lparr>stdout := out\<rparr>) = trace s"
  by (simp_all add: trace_def calls_made_def)

lemma emits_raisedD:
  "emits es m \<Longrightarrow> m s = (Inl e, s') \<Longrightarrow> \<exists>p. prefix p es \<and> trace s' = trace s @ p"
  unfolding emits_def
  by (erule allE [of _ s], erule allE [of _ "Inl e"], erule allE [of _ s']) simp

lemma emits_returnedD:
  "emits es m \<Longrightarrow> m s = (Inr a, s') \<Longrightarrow> trace s' = trace s @ es"
  unfolding emits_def
  by (erule allE [of _ s], erule allE [of _ "Inr a"], erule allE [of _ s']) simp

lemma emits_bind:
  assumes "emits es1 m" and "\<And>a. emits es2 (f a)"
  shows "emits (es1 @ es2) (py_bind m f)"
  unfolding emits_def
proof (intro allI impI)
  fix s r s'
  assume "py_bind m f s = (r, s')"
  then show "case r of Inl e \<Rightarrow> \<exists>p. prefix p (es1 @ es2) \<and> trace s' = trace s @ p
      | Inr a \<Rightarrow> trace s' = trace s @ es1 @ es2"
  proof (cases rule: py_bindE)
    case (raised e)
    from emits_raisedD [OF assms(1) raised(1)]
    obtain p where "prefix p es1" and "trace s' = trace s @ p"
      by blast
    then show ?thesis
      using raised by (auto intro: prefix_prefix)
  next
    case (returned a s1)
    from emits_returnedD [OF assms(1) returned(1)] have t1: "trace s1 = trace s @ es1" .
    show ?thesis
    proof (cases r)
      case (Inl e)
      from emits_raisedD [OF assms(2) returned(2) [unfolded Inl]]
      obtain p where "prefix p es2" and "trace s' = trace s1 @ p"
        by blast
      then have "prefix (es1 @ p) (es1 @ es2)" and "trace s' = trace s @ es1 @ p"
        by (simp_all add: t1)
      with Inl show ?thesis
        by auto
    next
      case (Inr b)
      from emits_returnedD [OF assms(2) returned(2) [unfolded Inr]]
      have "trace s' = trace s1 @ es2" .
      with Inr t1 show ?thesis
        by simp
    qed
  qed
qed

lemma emits_then:
  "emits es1 m \<Longrightarrow> emits es2 k \<Longrightarrow> emits (es1 @ es2) (py_then m k)"
  unfolding py_then_def by (rule emits_bind)

lemma emits_case_prod:
  "(\<And>a b. emits es (f a b)) \<Longrightarrow> emits es (case p of (a, b) \<Rightarrow> f a b)"
  by (cases p) simp

lemma emits_nothing:
  "emits [] (lift x)" "emits [] (store_name y v)" "emits [] (print_line out)"
  "emits [] (get_int y)" "emits [] (get_float y)" "emits [] (get_obj y)"
  "emits [] (get_ints y)" "emits [] (get_array y)"
  by (auto simp: emits_def split: sum.splits
      elim!: liftE store_nameE print_lineE get_intE get_floatE get_objE get_intsE get_arrayE)

lemma emits_lib_call:
  "entry_point_of c = e \<Longrightarrow> emits [e] (lib_call c enc f)"
  by (auto simp: emits_def split: sum.splits elim!: lib_callE)

lemma emits_eq:
  "emits es' m \<Longrightarrow> es = es' \<Longrightarrow> emits es m"
  by simp

lemmas emits_rules =
  emits_bind emits_then emits_case_prod emits_nothing emits_lib_call entry_point_of.simps

lemma statements_emit:
  "list_all2 emits statement_calls (concat (notebook L))"
  unfolding statements statement_calls_def cell_load_model_def cell_wrap_def cell_prepare_def
    cell_calibrate_def cell_eval_data_def cell_calibrate_nodata_def to_channels_first_def
    instantiate_attack_def infer_membership_def print_accuracy_def
  apply (simp only: append.simps list_all2_Cons list_all2_Nil simp_thms)
  apply (intro conjI)
  apply (rule emits_eq, (rule emits_rules)+, simp)+
  done

lemma run_emits:
  assumes "list_all2 emits ess ms" and "run_stmts ms s = (r, s')"
  shows "case r of None \<Rightarrow> trace s' = trace s @ concat ess
    | Some e \<Rightarrow> \<exists>p. prefix p (concat ess) \<and> trace s' = trace s @ p"
  using assms
proof (induction ess ms arbitrary: s rule: list_all2_induct)
  case Nil
  then show ?case by simp
next
  case (Cons es ess m ms)
  obtain r1 s1 where step: "m s = (r1, s1)"
    by (cases "m s")
  show ?case
  proof (cases r1)
    case (Inl e)
    from emits_raisedD [OF Cons.hyps(1) step [unfolded Inl]]
    obtain p where "prefix p es" and "trace s1 = trace s @ p"
      by blast
    moreover from step Inl Cons.prems have "r = Some e" and "s' = s1"
      by simp_all
    ultimately show ?thesis
      by (auto intro: prefix_prefix)
  next
    case (Inr u)
    from emits_returnedD [OF Cons.hyps(1) step [unfolded Inr]]
    have t1: "trace s1 = trace s @ es" .
    from step Inr Cons.prems have rest: "run_stmts ms s1 = (r, s')"
      by simp
    from Cons.IH [OF rest] show ?thesis
    proof (cases r)
      case None
      with Cons.IH [OF rest] t1 show ?thesis by simp
    next
      case (Some e)
      with Cons.IH [OF rest] obtain p where "prefix p (concat ess)" and "trace s' = trace s1 @ p"
        by auto
      then have "prefix (es @ p) (concat (es # ess))" and "trace s' = trace s @ es @ p"
        by (simp_all add: t1)
      with Some show ?thesis
        by auto
    qed
  qed
qed

lemma run_in_order:
  assumes "run_all L w = (r, s)"
  shows "prefix (trace s) call_order" and "r = None \<Longrightarrow> trace s = call_order"
proof -
  have order: "concat statement_calls = call_order"
    by (simp add: statement_calls_def call_order_def)
  have start: "trace (initial w) = []"
    by (simp add: trace_def calls_made_def initial_def)
  from run_emits [OF statements_emit assms [unfolded run_all_def]]
  show "prefix (trace s) call_order" and "r = None \<Longrightarrow> trace s = call_order"
    by (auto simp: order start split: option.splits)
qed


lemma guarded_index:
  assumes "guarded later earlier seen t" and "i < length t" and "later (t ! i)"
  shows "seen \<or> (\<exists>j<i. earlier (t ! j))"
  using assms
proof (induction t arbitrary: seen i)
  case Nil
  then show ?case by simp
next
  case (Cons e es)
  show ?case
  proof (cases i)
    case 0
    with Cons.prems show ?thesis by simp
  next
    case (Suc k)
    with Cons.prems have "guarded later earlier (seen \<or> earlier e) es"
      and "k < length es" and "later (es ! k)"
      by simp_all
    from Cons.IH [OF this] have "seen \<or> earlier e \<or> (\<exists>j<k. earlier (es ! j))"
      by blast
    then show ?thesis
    proof (elim disjE)
      assume seen
      then show ?thesis by simp
    next
      assume "earlier e"
      then have "earlier ((e # es) ! 0)" and "0 < i"
        using Suc by simp_all
      then show ?thesis by blast
    next
      assume "\<exists>j<k. earlier (es ! j)"
      then obtain j where "j < k" and "earlier (es ! j)"
        by blast
      then have "Suc j < i" and "earlier ((e # es) ! Suc j)"
        using Suc by simp_all
      then show ?thesis by blast
    qed
  qed
qed

lemma always_after_prefix:
  assumes "guarded later earlier False u" and "prefix t u"
  shows "always_after t later earlier"
  unfolding always_after_def
proof (intro allI impI)
  fix i
  assume i: "i < length t" and l: "later (t ! i)"
  from assms(2) obtain v where u: "u = t @ v"
    by (auto simp: prefix_def)
  from i l have "i < length u" and "later (u ! i)"
    by (simp_all add: u nth_append)
  from guarded_index [OF assms(1) this] obtain j where "j < i" and "earlier (u ! j)"
    by blast
  with i have "earlier (t ! j)"
    by (simp add: u nth_append)
  with \<open>j < i\<close> show "\<exists>j<i. earlier (t ! j)"
    by blast
qed

lemma count_list_prefix:
  "prefix t u \<Longrightarrow> count_list t x \<le> count_list u x"
  by (auto simp: prefix_def)

text \<open>
  C2. In every run, complete or stopped by an exception, the calls are an initial part
  of one fixed sequence (all of it when the run completes): the dataset and the model
  are loaded, the model is wrapped, and then twice, once for each way to calibrate, an
  attack is instantiated, calibrated, asked for membership and scored. So the classifier
  is wrapped only after the data and the checkpoint were loaded, an attack is
  instantiated and calibrated only after the wrapping, membership is inferred only after
  a calibration, and an accuracy is computed only after an inference. In a run that
  completes, each inference is asked of an attack that was calibrated before.
\<close>

theorem pipeline_order:
  assumes "run_all L w = (r, s)"
  shows "prefix (trace s) call_order \<and>
         (r = None \<longrightarrow> trace s = call_order \<and> infer_after_calibration [] (calls_made s)) \<and>
         always_after (trace s) (is_entry E_PyTorchClassifier) (is_entry E_load_mnist) \<and>
         always_after (trace s) (is_entry E_PyTorchClassifier) (is_entry E_torch_load) \<and>
         always_after (trace s) (is_entry E_LabelOnlyDecisionBoundary) (is_entry E_PyTorchClassifier) \<and>
         always_after (trace s) is_calibration (is_entry E_PyTorchClassifier) \<and>
         always_after (trace s) is_calibration (is_entry E_LabelOnlyDecisionBoundary) \<and>
         always_after (trace s) (is_entry E_infer) is_calibration \<and>
         always_after (trace s) (is_entry E_accuracy_score) (is_entry E_infer)"
proof -
  note pre = run_in_order(1) [OF assms]
  have safe: "infer_after_calibration [] (calls_made s)" if "r = None"
  proof -
    from assms that have "run_all L w = (None, s)"
      by simp
    then show ?thesis
      by (elim complete_runE) (simp add: calls_made_def)
  qed
  have checks:
    "guarded (is_entry E_PyTorchClassifier) (is_entry E_load_mnist) False call_order"
    "guarded (is_entry E_PyTorchClassifier) (is_entry E_torch_load) False call_order"
    "guarded (is_entry E_LabelOnlyDecisionBoundary) (is_entry E_PyTorchClassifier) False call_order"
    "guarded is_calibration (is_entry E_PyTorchClassifier) False call_order"
    "guarded is_calibration (is_entry E_LabelOnlyDecisionBoundary) False call_order"
    "guarded (is_entry E_infer) is_calibration False call_order"
    "guarded (is_entry E_accuracy_score) (is_entry E_infer) False call_order"
    by (simp_all add: call_order_def is_entry_def is_calibration_def)
  show ?thesis
    using pre run_in_order(2) [OF assms] safe checks [THEN always_after_prefix, OF pre]
    by simp
qed

theorem pipeline_order_witness:
  "run_all demo_library 100 = (None, demo_final) \<and>
   trace demo_final = call_order \<and>
   infer_after_calibration [] (calls_made demo_final) \<and>
   always_after (trace demo_final) (is_entry E_infer) is_calibration"
proof -
  note order = pipeline_order [OF demo_run]
  from order have 1: "trace demo_final = call_order"
    by (elim conjE) simp
  from order have 2: "infer_after_calibration [] (calls_made demo_final)"
    by (elim conjE) simp
  from order have 3: "always_after (trace demo_final) (is_entry E_infer) is_calibration"
    by (elim conjE) assumption
  from demo_run 1 2 3 show ?thesis
    by (intro conjI)
qed


text \<open>
  C1. A run that completes constructs two attack objects, not one, and calls \<open>infer\<close>
  twice, once on each: the counts on the small library.
\<close>

theorem one_attack_counterexample:
  "fst (run_all demo_library 100) = None \<and>
   count_list (trace (snd (run_all demo_library 100))) E_LabelOnlyDecisionBoundary = 2 \<and>
   count_list (trace (snd (run_all demo_library 100))) E_infer = 2 \<and>
   \<not> (count_list (trace (snd (run_all demo_library 100))) E_LabelOnlyDecisionBoundary = 1 \<and>
      count_list (trace (snd (run_all demo_library 100))) E_infer = 1)"
  by (simp add: demo_run trace_def calls_made_def demo_final_def)


text \<open>
  C1, amended. No run calls the wrapper or either calibration entry point more than
  once, or constructs more than two attack objects, or calls \<open>infer\<close> or the metric
  function more than twice. A run that completes wraps the classifier once and
  constructs exactly two attack objects on that classifier, one for each way to
  calibrate: the first is calibrated with data and the second without, each once. It
  calls \<open>infer\<close> exactly twice, once on each attack object, and the metric function
  exactly twice, once on the answer of each.
\<close>

theorem two_attacks:
  assumes "run_all L w = (r, s)"
  shows "count_list (trace s) E_PyTorchClassifier \<le> 1 \<and>
         count_list (trace s) E_LabelOnlyDecisionBoundary \<le> 2 \<and>
         count_list (trace s) E_calibrate_distance_threshold \<le> 1 \<and>
         count_list (trace s) E_calibrate_distance_threshold_unsupervised \<le> 1 \<and>
         count_list (trace s) E_infer \<le> 2 \<and>
         count_list (trace s) E_accuracy_score \<le> 2 \<and>
         (r = None \<longrightarrow>
            length (calls s) = 18 \<and>
            count_list (trace s) E_PyTorchClassifier = 1 \<and>
            count_list (trace s) E_LabelOnlyDecisionBoundary = 2 \<and>
            count_list (trace s) E_calibrate_distance_threshold = 1 \<and>
            count_list (trace s) E_calibrate_distance_threshold_unsupervised = 1 \<and>
            count_list (trace s) E_infer = 2 \<and>
            count_list (trace s) E_accuracy_score = 2 \<and>
            (\<exists>mo c opt lo hi clf atk atk' xm ym xn yn xe ye el p p' acc acc'.
               calls s ! 7 =
                 (Call_PyTorchClassifier mo c opt True input_shape 10 (lo, hi), Inr (VObj clf)) \<and>
               calls s ! 9 = (Call_LabelOnlyDecisionBoundary clf, Inr (VObj atk)) \<and>
               calls s ! 10 = (Call_calibrate_distance_threshold atk xm ym xn yn, Inr VNone) \<and>
               calls s ! 12 = (Call_infer atk xe ye, Inr (VInts p)) \<and>
               calls s ! 13 = (Call_accuracy_score el p, Inr (VFloat acc)) \<and>
               calls s ! 14 = (Call_LabelOnlyDecisionBoundary clf, Inr (VObj atk')) \<and>
               calls s ! 15 =
                 (Call_calibrate_distance_threshold_unsupervised atk' 50 500 2 True 256,
                  Inr VNone) \<and>
               calls s ! 16 = (Call_infer atk' xe ye, Inr (VInts p')) \<and>
               calls s ! 17 = (Call_accuracy_score el p', Inr (VFloat acc')) \<and>
               namespace s ''art_model'' = Some (VObj clf) \<and>
               namespace s ''mia_label_only'' = Some (VObj atk) \<and>
               namespace s ''mia_label_only_unsupervised'' = Some (VObj atk')))"
proof -
  have counts: "count_list call_order E_PyTorchClassifier = 1"
    "count_list call_order E_LabelOnlyDecisionBoundary = 2"
    "count_list call_order E_calibrate_distance_threshold = 1"
    "count_list call_order E_calibrate_distance_threshold_unsupervised = 1"
    "count_list call_order E_infer = 2"
    "count_list call_order E_accuracy_score = 2"
    by (simp_all add: call_order_def)
  from run_in_order(1) [OF assms]
  have le: "count_list (trace s) x \<le> count_list call_order x" for x
    by (rule count_list_prefix)
  have bounds: "count_list (trace s) E_PyTorchClassifier \<le> 1"
    "count_list (trace s) E_LabelOnlyDecisionBoundary \<le> 2"
    "count_list (trace s) E_calibrate_distance_threshold \<le> 1"
    "count_list (trace s) E_calibrate_distance_threshold_unsupervised \<le> 1"
    "count_list (trace s) E_infer \<le> 2"
    "count_list (trace s) E_accuracy_score \<le> 2"
    using le [of E_PyTorchClassifier] le [of E_LabelOnlyDecisionBoundary]
      le [of E_calibrate_distance_threshold] le [of E_calibrate_distance_threshold_unsupervised]
      le [of E_infer] le [of E_accuracy_score]
    by (simp_all add: counts)
  have complete: "length (calls s) = 18 \<and>
      count_list (trace s) E_PyTorchClassifier = 1 \<and>
      count_list (trace s) E_LabelOnlyDecisionBoundary = 2 \<and>
      count_list (trace s) E_calibrate_distance_threshold = 1 \<and>
      count_list (trace s) E_calibrate_distance_threshold_unsupervised = 1 \<and>
      count_list (trace s) E_infer = 2 \<and>
      count_list (trace s) E_accuracy_score = 2 \<and>
      (\<exists>mo c opt lo hi clf atk atk' xm ym xn yn xe ye el p p' acc acc'.
         calls s ! 7 =
           (Call_PyTorchClassifier mo c opt True input_shape 10 (lo, hi), Inr (VObj clf)) \<and>
         calls s ! 9 = (Call_LabelOnlyDecisionBoundary clf, Inr (VObj atk)) \<and>
         calls s ! 10 = (Call_calibrate_distance_threshold atk xm ym xn yn, Inr VNone) \<and>
         calls s ! 12 = (Call_infer atk xe ye, Inr (VInts p)) \<and>
         calls s ! 13 = (Call_accuracy_score el p, Inr (VFloat acc)) \<and>
         calls s ! 14 = (Call_LabelOnlyDecisionBoundary clf, Inr (VObj atk')) \<and>
         calls s ! 15 =
           (Call_calibrate_distance_threshold_unsupervised atk' 50 500 2 True 256,
            Inr VNone) \<and>
         calls s ! 16 = (Call_infer atk' xe ye, Inr (VInts p')) \<and>
         calls s ! 17 = (Call_accuracy_score el p', Inr (VFloat acc')) \<and>
         namespace s ''art_model'' = Some (VObj clf) \<and>
         namespace s ''mia_label_only'' = Some (VObj atk) \<and>
         namespace s ''mia_label_only_unsupervised'' = Some (VObj atk'))"
    if "r = None"
  proof -
    from assms that have run: "run_all L w = (None, s)"
      by simp
    from run_in_order(2) [OF assms] that have tr: "trace s = call_order"
      by simp
    have n: "length (calls s) = 18"
      using arg_cong [OF tr, of length] by (simp add: trace_def calls_made_def call_order_def)
    from run have objects:
      "\<exists>mo c opt lo hi clf atk atk' xm ym xn yn xe ye el p p' acc acc'.
         calls s ! 7 =
           (Call_PyTorchClassifier mo c opt True input_shape 10 (lo, hi), Inr (VObj clf)) \<and>
         calls s ! 9 = (Call_LabelOnlyDecisionBoundary clf, Inr (VObj atk)) \<and>
         calls s ! 10 = (Call_calibrate_distance_threshold atk xm ym xn yn, Inr VNone) \<and>
         calls s ! 12 = (Call_infer atk xe ye, Inr (VInts p)) \<and>
         calls s ! 13 = (Call_accuracy_score el p, Inr (VFloat acc)) \<and>
         calls s ! 14 = (Call_LabelOnlyDecisionBoundary clf, Inr (VObj atk')) \<and>
         calls s ! 15 =
           (Call_calibrate_distance_threshold_unsupervised atk' 50 500 2 True 256,
            Inr VNone) \<and>
         calls s ! 16 = (Call_infer atk' xe ye, Inr (VInts p')) \<and>
         calls s ! 17 = (Call_accuracy_score el p', Inr (VFloat acc')) \<and>
         namespace s ''art_model'' = Some (VObj clf) \<and>
         namespace s ''mia_label_only'' = Some (VObj atk) \<and>
         namespace s ''mia_label_only_unsupervised'' = Some (VObj atk')"
    proof (rule complete_runE)
      fix xtr0 ytr xte0 yte lo hi xtr1 xte1 sd mo c ps opt clf a1 xa n1 n2 xm xn a2
        and scores :: "scalar ndarray" and rs p len idx xe ye el p1 r1 p2 r2
      assume cs: "calls s =
         [(Call_load_mnist True, Inr (dataset_val ((xtr0, ytr), (xte0, yte), lo, hi))),
          (Call_torch_load ''models/mnist_cnn.pt'', Inr (VObj sd)),
          (Call_Net, Inr (VObj mo)),
          (Call_load_state_dict mo sd, Inr VNone),
          (Call_CrossEntropyLoss, Inr (VObj c)),
          (Call_parameters mo, Inr (VObj ps)),
          (Call_Adam ps, Inr (VObj opt)),
          (Call_PyTorchClassifier mo c opt True input_shape 10 (lo, hi), Inr (VObj clf)),
          (Call_predict clf (astype_float32 xte1), Inr (VArray scores)),
          (Call_LabelOnlyDecisionBoundary clf, Inr (VObj a1)),
          (Call_calibrate_distance_threshold a1 xm (slice_ints ytr 1500) xn (slice_ints yte 1500),
           Inr VNone),
          (Call_choice (int len) 500, Inr (VInts idx)),
          (Call_infer a1 xe ye, Inr (VInts p1)),
          (Call_accuracy_score el p1, Inr (VFloat r1)),
          (Call_LabelOnlyDecisionBoundary clf, Inr (VObj a2)),
          (Call_calibrate_distance_threshold_unsupervised a2 50 500 2 True 256, Inr VNone),
          (Call_infer a2 xe ye, Inr (VInts p2)),
          (Call_accuracy_score el p2, Inr (VFloat r2))]"
        and ns: "namespace s =
         [''x_train'' \<mapsto> VArray (astype_float32 xtr1), ''y_train'' \<mapsto> VInts ytr,
          ''x_test'' \<mapsto> VArray (astype_float32 xte1), ''y_test'' \<mapsto> VInts yte,
          ''_min'' \<mapsto> VFloat lo, ''_max'' \<mapsto> VFloat hi,
          ''state_dict'' \<mapsto> VObj sd, ''model'' \<mapsto> VObj mo,
          ''criterion'' \<mapsto> VObj c, ''optimizer'' \<mapsto> VObj opt, ''art_model'' \<mapsto> VObj clf,
          ''pred'' \<mapsto> VInts p,
          ''mia_label_only'' \<mapsto> VObj a1,
          ''attack_train_size'' \<mapsto> VInt 1500, ''attack_test_size'' \<mapsto> VInt 1500,
          ''x'' \<mapsto> VArray xa, ''y'' \<mapsto> VInts (ytr @ yte),
          ''training_sample'' \<mapsto> VInts (replicate n1 1 @ replicate n2 0),
          ''n'' \<mapsto> VInt 500, ''eval_data_idx'' \<mapsto> VInts idx,
          ''x_eval'' \<mapsto> VArray xe, ''y_eval'' \<mapsto> VInts ye, ''eval_label'' \<mapsto> VInts el,
          ''pred_label'' \<mapsto> VInts p1,
          ''mia_label_only_unsupervised'' \<mapsto> VObj a2,
          ''pred_label_unsupervised'' \<mapsto> VInts p2]"
      have log: "calls s ! 7 =
          (Call_PyTorchClassifier mo c opt True input_shape 10 (lo, hi), Inr (VObj clf))"
        "calls s ! 9 = (Call_LabelOnlyDecisionBoundary clf, Inr (VObj a1))"
        "calls s ! 10 =
          (Call_calibrate_distance_threshold a1 xm (slice_ints ytr 1500) xn (slice_ints yte 1500),
           Inr VNone)"
        "calls s ! 12 = (Call_infer a1 xe ye, Inr (VInts p1))"
        "calls s ! 13 = (Call_accuracy_score el p1, Inr (VFloat r1))"
        "calls s ! 14 = (Call_LabelOnlyDecisionBoundary clf, Inr (VObj a2))"
        "calls s ! 15 =
          (Call_calibrate_distance_threshold_unsupervised a2 50 500 2 True 256, Inr VNone)"
        "calls s ! 16 = (Call_infer a2 xe ye, Inr (VInts p2))"
        "calls s ! 17 = (Call_accuracy_score el p2, Inr (VFloat r2))"
        by (simp_all add: cs)
      have vars: "namespace s ''art_model'' = Some (VObj clf)"
        "namespace s ''mia_label_only'' = Some (VObj a1)"
        "namespace s ''mia_label_only_unsupervised'' = Some (VObj a2)"
        by (simp_all add: ns)
      from log vars show ?thesis
        by blast
    qed
    from n tr objects show ?thesis
      by (simp add: counts)
  qed
  from bounds complete show ?thesis
    by blast
qed

theorem two_attacks_witness:
  "run_all demo_library 100 = (None, demo_final) \<and>
   count_list (trace demo_final) E_LabelOnlyDecisionBoundary = 2 \<and>
   count_list (trace demo_final) E_infer = 2 \<and>
   calls demo_final ! 9 = (Call_LabelOnlyDecisionBoundary 105, Inr (VObj 106)) \<and>
   calls demo_final ! 14 = (Call_LabelOnlyDecisionBoundary 105, Inr (VObj 107)) \<and>
   (\<exists>xm ym xn yn xe ye p p'.
      calls demo_final ! 10 = (Call_calibrate_distance_threshold 106 xm ym xn yn, Inr VNone) \<and>
      calls demo_final ! 12 = (Call_infer 106 xe ye, Inr (VInts p)) \<and>
      calls demo_final ! 15 =
        (Call_calibrate_distance_threshold_unsupervised 107 50 500 2 True 256, Inr VNone) \<and>
      calls demo_final ! 16 = (Call_infer 107 xe ye, Inr (VInts p')))"
proof -
  note counts = two_attacks [OF demo_run]
  from counts have 1: "count_list (trace demo_final) E_LabelOnlyDecisionBoundary = 2"
    by (elim conjE) simp
  from counts have 2: "count_list (trace demo_final) E_infer = 2"
    by (elim conjE) simp
  have made: "calls demo_final ! 9 = (Call_LabelOnlyDecisionBoundary 105, Inr (VObj 106))"
    "calls demo_final ! 14 = (Call_LabelOnlyDecisionBoundary 105, Inr (VObj 107))"
    by (simp_all add: demo_final_def)
  from counts obtain clf atk atk' xm ym xn yn xe ye p p' where
    "calls demo_final ! 9 = (Call_LabelOnlyDecisionBoundary clf, Inr (VObj atk))"
    "calls demo_final ! 14 = (Call_LabelOnlyDecisionBoundary clf, Inr (VObj atk'))"
    and used: "calls demo_final ! 10 = (Call_calibrate_distance_threshold atk xm ym xn yn, Inr VNone)"
    "calls demo_final ! 12 = (Call_infer atk xe ye, Inr (VInts p))"
    "calls demo_final ! 15 =
      (Call_calibrate_distance_threshold_unsupervised atk' 50 500 2 True 256, Inr VNone)"
    "calls demo_final ! 16 = (Call_infer atk' xe ye, Inr (VInts p'))"
    by (elim conjE) blast
  with made have "atk = 106" "atk' = 107"
    by simp_all
  with used have 3: "\<exists>xm ym xn yn xe ye p p'.
      calls demo_final ! 10 = (Call_calibrate_distance_threshold 106 xm ym xn yn, Inr VNone) \<and>
      calls demo_final ! 12 = (Call_infer 106 xe ye, Inr (VInts p)) \<and>
      calls demo_final ! 15 =
        (Call_calibrate_distance_threshold_unsupervised 107 50 500 2 True 256, Inr VNone) \<and>
      calls demo_final ! 16 = (Call_infer 107 xe ye, Inr (VInts p'))"
    by blast
  from demo_run 1 2 made 3 show ?thesis
    by (intro conjI)
qed


subsection \<open>Exceptions\<close>

lemma all_returned_append [simp]:
  "all_returned (xs @ ys) \<longleftrightarrow> all_returned xs \<and> all_returned ys"
  by (simp add: all_returned_def)

lemma all_returned_simps [simp]:
  "all_returned []" "all_returned [(c, Inr v)]" "\<not> all_returned [(c, Inl e)]"
  by (simp_all add: all_returned_def)

lemma raised_last_append:
  "all_returned xs \<Longrightarrow> raised_last e ys \<Longrightarrow> raised_last e (xs @ ys)"
  unfolding raised_last_def
proof (elim disjE exE conjE)
  assume "all_returned xs" and "all_returned ys"
  then show "all_returned (xs @ ys) \<or> (\<exists>pre c. xs @ ys = pre @ [(c, Inl e)] \<and> all_returned pre)"
    by simp
next
  fix pre c
  assume "all_returned xs" and "ys = pre @ [(c, Inl e)]" and "all_returned pre"
  then have "xs @ ys = (xs @ pre) @ [(c, Inl e)]" and "all_returned (xs @ pre)"
    by simp_all
  then show "all_returned (xs @ ys) \<or> (\<exists>pre c. xs @ ys = pre @ [(c, Inl e)] \<and> all_returned pre)"
    by blast
qed

lemma disciplinedD:
  assumes "disciplined m" and "m s = (r, s')"
  obtains new where "calls s' = calls s @ new"
    and "case r of Inr a \<Rightarrow> all_returned new | Inl e \<Rightarrow> raised_last e new"
  using assms unfolding disciplined_def by blast

lemma disciplined_bind:
  assumes "disciplined m" and "\<And>a. disciplined (f a)"
  shows "disciplined (py_bind m f)"
  unfolding disciplined_def
proof (intro allI impI)
  fix s r s'
  assume "py_bind m f s = (r, s')"
  then show "\<exists>new. calls s' = calls s @ new \<and>
      (case r of Inl e \<Rightarrow> raised_last e new | Inr a \<Rightarrow> all_returned new)"
  proof (cases rule: py_bindE)
    case (raised e)
    from assms(1) raised(1) obtain new where "calls s' = calls s @ new" and "raised_last e new"
      by (rule disciplinedD) simp
    with raised(2) show ?thesis
      by auto
  next
    case (returned a s1)
    from assms(1) returned(1) obtain new1 where
      n1: "calls s1 = calls s @ new1" "all_returned new1"
      by (rule disciplinedD) simp
    from assms(2) returned(2) obtain new2 where
      n2: "calls s' = calls s1 @ new2"
      "case r of Inr a \<Rightarrow> all_returned new2 | Inl e \<Rightarrow> raised_last e new2"
      by (rule disciplinedD)
    have "calls s' = calls s @ (new1 @ new2)"
      by (simp add: n1 n2)
    moreover have "case r of Inl e \<Rightarrow> raised_last e (new1 @ new2)
        | Inr a \<Rightarrow> all_returned (new1 @ new2)"
      using n1(2) n2(2) by (cases r) (simp_all add: raised_last_append)
    ultimately show ?thesis
      by blast
  qed
qed

lemma disciplined_then:
  "disciplined m \<Longrightarrow> disciplined k \<Longrightarrow> disciplined (py_then m k)"
  unfolding py_then_def by (rule disciplined_bind)

lemma disciplined_case_prod:
  "(\<And>a b. disciplined (f a b)) \<Longrightarrow> disciplined (case p of (a, b) \<Rightarrow> f a b)"
  by (cases p) simp

lemma disciplined_no_call:
  "disciplined (lift x)" "disciplined (store_name y v)" "disciplined (print_line out)"
  "disciplined (get_int y)" "disciplined (get_float y)" "disciplined (get_obj y)"
  "disciplined (get_ints y)" "disciplined (get_array y)"
  by (auto simp: disciplined_def raised_last_def split: sum.splits
      elim!: liftE store_nameE print_lineE get_intE get_floatE get_objE get_intsE get_arrayE)

lemma disciplined_lib_call:
  "disciplined (lib_call c enc f)"
  unfolding disciplined_def
proof (intro allI impI)
  fix s r s'
  assume "lib_call c enc f s = (r, s')"
  then have "calls s' = calls s @ [(c, map_sum id enc r)]"
    by (auto elim: lib_callE)
  moreover have "case r of Inl e \<Rightarrow> raised_last e [(c, map_sum id enc r)]
      | Inr a \<Rightarrow> all_returned [(c, map_sum id enc r)]"
    by (cases r) (auto simp: raised_last_def)
  ultimately show "\<exists>new. calls s' = calls s @ new \<and>
      (case r of Inl e \<Rightarrow> raised_last e new | Inr a \<Rightarrow> all_returned new)"
    by blast
qed

lemmas disciplined_rules =
  disciplined_bind disciplined_then disciplined_case_prod disciplined_no_call
  disciplined_lib_call

lemma reads_only_bind:
  assumes "reads_only m" and "\<And>a. reads_only (f a)"
  shows "reads_only (py_bind m f)"
  unfolding reads_only_def
proof (intro allI impI)
  fix s r s'
  assume "py_bind m f s = (r, s')"
  then show "namespace s' = namespace s \<and> stdout s' = stdout s"
  proof (cases rule: py_bindE)
    case (raised e)
    with assms(1) show ?thesis
      by (auto simp: reads_only_def)
  next
    case (returned a s1)
    with assms(1) have "namespace s1 = namespace s \<and> stdout s1 = stdout s"
      by (auto simp: reads_only_def)
    moreover from assms(2) returned(2) have "namespace s' = namespace s1 \<and> stdout s' = stdout s1"
      by (auto simp: reads_only_def)
    ultimately show ?thesis
      by simp
  qed
qed

lemma reads_only_prims:
  "reads_only (lift x)" "reads_only (lib_call c enc f)"
  "reads_only (get_int y)" "reads_only (get_float y)" "reads_only (get_obj y)"
  "reads_only (get_ints y)" "reads_only (get_array y)"
  by (auto simp: reads_only_def
      elim!: liftE lib_callE get_intE get_floatE get_objE get_intsE get_arrayE)

lemma never_raises_prims:
  "never_raises (store_name y v)" "never_raises (print_line out)"
  by (simp_all add: never_raises_def store_name_def print_line_def)

lemma never_raises_then:
  assumes "never_raises m" and "never_raises k"
  shows "never_raises (py_then m k)"
  unfolding never_raises_def
proof
  fix s
  from assms(1) obtain a s1 where "m s = (Inr a, s1)"
    unfolding never_raises_def by blast
  moreover from assms(2) obtain b s2 where "k s1 = (Inr b, s2)"
    unfolding never_raises_def by blast
  ultimately have "py_then m k s = (Inr b, s2)"
    by (simp add: py_then_def py_bind_def)
  then show "\<exists>a s'. py_then m k s = (Inr a, s')"
    by blast
qed

lemma unhandled_never:
  "never_raises m \<Longrightarrow> unhandled m"
  unfolding never_raises_def unhandled_def
proof (intro allI impI)
  fix s e s'
  assume "\<forall>s. \<exists>a s'. m s = (Inr a, s')" and "m s = (Inl e, s')"
  then show "namespace s' = namespace s \<and> stdout s' = stdout s"
    by (metis Inl_Inr_False prod.inject)
qed

lemma unhandled_reads:
  "reads_only m \<Longrightarrow> unhandled m"
  by (simp add: reads_only_def unhandled_def)

lemma unhandled_bind:
  assumes "reads_only m" and "\<And>a. unhandled (f a)"
  shows "unhandled (py_bind m f)"
  unfolding unhandled_def
proof (intro allI impI)
  fix s e s'
  assume "py_bind m f s = (Inl e, s')"
  then show "namespace s' = namespace s \<and> stdout s' = stdout s"
  proof (cases rule: py_bindE)
    case (raised e')
    with assms(1) show ?thesis
      by (auto simp: reads_only_def)
  next
    case (returned a s1)
    with assms(1) have "namespace s1 = namespace s \<and> stdout s1 = stdout s"
      by (auto simp: reads_only_def)
    moreover from assms(2) returned(2) have "namespace s' = namespace s1 \<and> stdout s' = stdout s1"
      by (auto simp: unhandled_def)
    ultimately show ?thesis
      by simp
  qed
qed

lemma unhandled_case_prod:
  "(\<And>a b. unhandled (f a b)) \<Longrightarrow> unhandled (case p of (a, b) \<Rightarrow> f a b)"
  by (cases p) simp

lemma unhandled_leaves:
  "unhandled (store_name y v)" "unhandled (print_line out)" "unhandled (lib_call c enc f)"
  "never_raises m \<Longrightarrow> never_raises k \<Longrightarrow> unhandled (py_then m k)"
  by (simp_all add: unhandled_never unhandled_reads never_raises_prims never_raises_then
      reads_only_prims)

lemmas unhandled_rules =
  unhandled_bind unhandled_case_prod unhandled_leaves reads_only_prims never_raises_prims
  never_raises_then

lemma statement_unhandled:
  assumes "m \<in> set (concat (notebook L))"
  shows "disciplined m" and "unhandled m"
proof -
  note defs = statements cell_load_model_def cell_wrap_def cell_prepare_def cell_calibrate_def
    cell_eval_data_def cell_calibrate_nodata_def to_channels_first_def instantiate_attack_def
    infer_membership_def print_accuracy_def
  show "disciplined m"
    using assms unfolding defs
    apply (simp only: set_append set_simps Un_iff insert_iff empty_iff simp_thms)
    apply (elim disjE)
    apply (simp_all only:)
    apply (intro disciplined_rules)+
    done
  show "unhandled m"
    using assms unfolding defs
    apply (simp only: set_append set_simps Un_iff insert_iff empty_iff simp_thms)
    apply (elim disjE)
    apply (simp_all only:)
    apply (intro unhandled_rules)+
    done
qed

lemma run_stmts_stop:
  assumes "run_stmts ms s = (Some e, s')"
  shows "\<exists>k sk. k < length ms \<and> run_stmts (take k ms) s = (None, sk) \<and> (ms ! k) sk = (Inl e, s')"
  using assms
proof (induction ms arbitrary: s)
  case Nil
  then show ?case by simp
next
  case (Cons m ms)
  obtain r1 s1 where step: "m s = (r1, s1)"
    by (cases "m s")
  show ?case
  proof (cases r1)
    case (Inl e1)
    with step Cons.prems have "e1 = e" and "s1 = s'"
      by simp_all
    with step Inl have "0 < length (m # ms) \<and> run_stmts (take 0 (m # ms)) s = (None, s) \<and>
        ((m # ms) ! 0) s = (Inl e, s')"
      by simp
    then show ?thesis
      by blast
  next
    case (Inr u)
    with step Cons.prems have "run_stmts ms s1 = (Some e, s')"
      by simp
    from Cons.IH [OF this] obtain k sk where
      "k < length ms" "run_stmts (take k ms) s1 = (None, sk)" "(ms ! k) sk = (Inl e, s')"
      by blast
    with step Inr have "Suc k < length (m # ms) \<and>
        run_stmts (take (Suc k) (m # ms)) s = (None, sk) \<and> ((m # ms) ! Suc k) sk = (Inl e, s')"
      by simp
    then show ?thesis
      by blast
  qed
qed

lemma run_stmts_disciplined:
  assumes "\<And>m. m \<in> set ms \<Longrightarrow> disciplined m"
    and "run_stmts ms s = (r, s')" and "all_returned (calls s)"
  shows "case r of None \<Rightarrow> all_returned (calls s') | Some e \<Rightarrow> raised_last e (calls s')"
  using assms
proof (induction ms arbitrary: s)
  case Nil
  then show ?case by simp
next
  case (Cons m ms)
  obtain r1 s1 where step: "m s = (r1, s1)"
    by (cases "m s")
  have "disciplined m"
    by (rule Cons.prems(1)) simp
  from this step obtain new where new: "calls s1 = calls s @ new"
    "case r1 of Inr a \<Rightarrow> all_returned new | Inl e \<Rightarrow> raised_last e new"
    by (rule disciplinedD)
  show ?case
  proof (cases r1)
    case (Inl e1)
    with step Cons.prems(2) have "r = Some e1" and "s' = s1"
      by simp_all
    moreover from Inl new Cons.prems(3) have "raised_last e1 (calls s1)"
      by (simp add: raised_last_append)
    ultimately show ?thesis
      by simp
  next
    case (Inr u)
    with step Cons.prems(2) have rest: "run_stmts ms s1 = (r, s')"
      by simp
    from Inr new Cons.prems(3) have "all_returned (calls s1)"
      by simp
    with Cons.IH [OF _ rest] Cons.prems(1) show ?thesis
      by simp
  qed
qed

lemma all_returned_index:
  "all_returned xs \<Longrightarrow> j < length xs \<Longrightarrow> \<not> isl (snd (xs ! j))"
  by (simp add: all_returned_def list_all_length)

lemma raised_last_index:
  assumes "raised_last e cs" and "i < length cs" and "snd (cs ! i) = Inl e'"
  shows "e' = e \<and> Suc i = length cs"
proof -
  note no = all_returned_index
  from assms(1) show ?thesis
    unfolding raised_last_def
  proof (elim disjE exE conjE)
    assume "all_returned cs"
    from no [OF this assms(2)] assms(3) show ?thesis
      by simp
  next
    fix pre c
    assume cs: "cs = pre @ [(c, Inl e)]" and pre: "all_returned pre"
    show ?thesis
    proof (cases "i < length pre")
      case True
      with no [OF pre True] assms(3) show ?thesis
        by (simp add: cs nth_append)
    next
      case False
      with assms(2) have "i = length pre"
        by (simp add: cs)
      with assms(3) show ?thesis
        by (simp add: cs)
    qed
  qed
qed

text \<open>
  C6. No statement of the notebook handles an exception. In every run, a call that
  raised is the last call of the run, and its exception is the result of the run; and a
  run that ends with an exception ran the statements before the one that raised, and
  ends with the variables and the output they left: the statement that raised bound
  nothing, printed nothing, and nothing ran after it.
\<close>

theorem exceptions_propagate:
  assumes "run_all L w = (r, s)"
  shows "(\<forall>i e. i < length (calls s) \<longrightarrow> snd (calls s ! i) = Inl e \<longrightarrow>
            r = Some e \<and> Suc i = length (calls s)) \<and>
         (\<forall>e. r = Some e \<longrightarrow>
            (\<exists>k sk. k < length (concat (notebook L)) \<and>
               run_stmts (take k (concat (notebook L))) (initial w) = (None, sk) \<and>
               (concat (notebook L) ! k) sk = (Inl e, s) \<and>
               namespace s = namespace sk \<and> stdout s = stdout sk))"
proof (intro conjI allI impI)
  fix i e
  assume i: "i < length (calls s)" and raised: "snd (calls s ! i) = Inl e"
  have start: "all_returned (calls (initial w))"
    by (simp add: initial_def)
  from run_stmts_disciplined [OF statement_unhandled(1) assms [unfolded run_all_def] start]
  have last: "case r of None \<Rightarrow> all_returned (calls s) | Some e \<Rightarrow> raised_last e (calls s)" .
  have "r \<noteq> None"
  proof
    assume "r = None"
    with last have "all_returned (calls s)"
      by simp
    from all_returned_index [OF this i] raised show False
      by simp
  qed
  then obtain e' where r: "r = Some e'"
    by blast
  with last have "raised_last e' (calls s)"
    by simp
  from raised_last_index [OF this i raised] r
  show "r = Some e" and "Suc i = length (calls s)"
    by simp_all
next
  fix e
  assume "r = Some e"
  with assms have "run_stmts (concat (notebook L)) (initial w) = (Some e, s)"
    by (simp add: run_all_def)
  from run_stmts_stop [OF this] obtain k sk where
    k: "k < length (concat (notebook L))"
    and before: "run_stmts (take k (concat (notebook L))) (initial w) = (None, sk)"
    and stop: "(concat (notebook L) ! k) sk = (Inl e, s)"
    by blast
  from k have "concat (notebook L) ! k \<in> set (concat (notebook L))"
    by (rule nth_mem)
  then have "unhandled (concat (notebook L) ! k)"
    by (rule statement_unhandled(2))
  with stop have "namespace s = namespace sk \<and> stdout s = stdout sk"
    by (simp add: unhandled_def)
  with k before stop
  show "\<exists>k sk. k < length (concat (notebook L)) \<and>
      run_stmts (take k (concat (notebook L))) (initial w) = (None, sk) \<and>
      (concat (notebook L) ! k) sk = (Inl e, s) \<and>
      namespace s = namespace sk \<and> stdout s = stdout sk"
    by blast
qed


text \<open>
  A library whose checkpoint file is missing: \<open>torch.load\<close> raises, everything else is
  the small library.
\<close>

theorem exceptions_propagate_witness:
  "run_all (demo_library\<lparr>torch_load := \<lambda>path w. (Inl (OtherError ''FileNotFoundError''), w)\<rparr>) 100 =
     (Some (OtherError ''FileNotFoundError''),
      demo_loaded\<lparr>world := 100,
        namespace := (namespace demo_loaded)
          (''x_train'' \<mapsto> VArray demo_x_train, ''x_test'' \<mapsto> VArray demo_x_test),
        calls :=
          [(Call_load_mnist True,
            Inr (VTuple
                  [VTuple [VArray demo_raw, VInts [5, 0]],
                   VTuple [VArray (NDArray [1, 28, 28] (replicate 784 (UInt8 9))), VInts [4]],
                   VFloat 0, VFloat 255])),
           (Call_torch_load ''models/mnist_cnn.pt'', Inl (OtherError ''FileNotFoundError''))]\<rparr>)"
proof -
  define L where
    "L = demo_library\<lparr>torch_load := \<lambda>path w. (Inl (OtherError ''FileNotFoundError''), w)\<rparr>"
  define s1 where
    "s1 = demo_loaded\<lparr>world := 100,
        namespace := (namespace demo_loaded)
          (''x_train'' \<mapsto> VArray demo_x_train, ''x_test'' \<mapsto> VArray demo_x_test),
        calls :=
          [(Call_load_mnist True,
            Inr (VTuple
                  [VTuple [VArray demo_raw, VInts [5, 0]],
                   VTuple [VArray (NDArray [1, 28, 28] (replicate 784 (UInt8 9))), VInts [4]],
                   VFloat 0, VFloat 255]))]\<rparr>"
  define s2 where
    "s2 = s1\<lparr>calls := calls s1 @
        [(Call_torch_load ''models/mnist_cnn.pt'', Inl (OtherError ''FileNotFoundError''))]\<rparr>"
  have fields: "load_mnist L = load_mnist demo_library"
    "torch_load L = (\<lambda>path w. (Inl (OtherError ''FileNotFoundError''), w))"
    by (simp_all add: L_def)
  have first: "run_stmts (cell_load_data L) (initial 100) = (None, s1)"
    by (simp add: fields s1_def initial_def cell_load_data_def to_channels_first_def py_defs
        expand_dims_def astype_float32_def demo_library_def demo_x_train_def demo_x_test_def
        demo_loaded_def demo_raw_def fun_upd_twist)
  have second: "run_stmts (cell_load_model L) s1 = (Some (OtherError ''FileNotFoundError''), s2)"
    by (simp add: fields s2_def cell_load_model_def py_defs)
  have run: "run_all L 100 = (Some (OtherError ''FileNotFoundError''), s2)"
    by (simp add: run_all_def notebook_def cell_imports_def run_stmts_append first second)
  have raised: "1 < length (calls s2)"
    "snd (calls s2 ! 1) = Inl (OtherError ''FileNotFoundError'')"
    by (simp_all add: s2_def s1_def)
  from exceptions_propagate [OF run] raised
  have "Some (OtherError ''FileNotFoundError'') = Some (OtherError ''FileNotFoundError'') \<and>
      Suc 1 = length (calls s2)"
    by blast
  with run show ?thesis
    unfolding L_def by (simp add: s2_def s1_def)
qed


section \<open>The run that completes: calibration, scoring, sampling\<close>


lemma expand_dims_len:
  "expand_dims a 1 = Inr b \<Longrightarrow> np_len (astype_float32 b) = np_len a"
  by (cases "shape a") (auto simp: expand_dims_def np_len_def astype_float32_def split: if_splits)

lemma concatenate_len:
  assumes "concatenate [a, b] = Inr c" and "np_len a = Inr n" and "np_len b = Inr m"
  shows "np_len c = Inr (n + m)"
  using assms
  by (auto simp: concatenate_def np_len_def split: if_splits list.splits)


lemma slice_to_prefix:
  assumes "slice_to a k = Inr b" and "np_len a = Inr n" and "0 \<le> k"
  shows "np_len b = Inr (min n (nat k))" and "prefix (data b) (data a)"
    and "tl (shape b) = tl (shape a)"
  using assms
  by (auto simp: slice_to_def np_len_def slice_stop_def take_is_prefix split: list.splits)

lemma slice_to_exact:
  assumes "slice_to a k = Inr b" and "np_len a = Inr n" and "0 \<le> k"
  shows "shape b = min n (nat k) # tl (shape a)"
    and "data b = take (min n (nat k) * stride a) (data a)"
  using assms
  by (auto simp: slice_to_def np_len_def slice_stop_def stride_def split: list.splits)

lemma slice_to_row:
  assumes "slice_to a k = Inr b" and "np_len a = Inr n" and "0 \<le> k" and "i < min n (nat k)"
  shows "row b i = row a i"
proof -
  let ?c = "min n (nat k)"
  from slice_to_exact [OF assms(1-3)] have b: "stride b = stride a"
    "data b = take (?c * stride a) (data a)"
    by (simp_all add: stride_def)
  from assms(4) have "Suc i \<le> ?c"
    by simp
  then have "Suc i * stride a \<le> ?c * stride a"
    by (rule mult_le_mono1)
  then have "stride a \<le> ?c * stride a - i * stride a"
    by simp
  then show ?thesis
    by (simp add: row_def b drop_take min_def)
qed

lemma slice_ints_prefix:
  "0 \<le> k \<Longrightarrow> slice_ints v k = take (nat k) v" "prefix (slice_ints v k) v"
  by (simp_all add: slice_ints_def slice_stop_def take_is_prefix min_def)

text \<open>
  C3. The attack class has two calibration entry points, and a run that completes calls
  each once, the supervised one on the first attack object constructed and the
  unsupervised one on the second. The supervised one is called with the first 1500
  samples of the training split (as reshaped from what the loader returned) and the first
  1500 of its labels, and the first 1500 samples of the test split and the first 1500 of
  its labels: of a split of \<open>n\<close> samples, the array passed has \<open>min n 1500\<close> samples of
  the shape of those of the split, its buffer is that many samples from the start of the
  buffer of the split and nothing more, and its \<open>i\<close>-th sample is the \<open>i\<close>-th sample of
  the split; with a loader that returns as many labels as images, as many labels are
  passed as samples. The unsupervised one is called with no array at all: its arguments
  are the attack and \<open>top_t = 50\<close>, \<open>num_samples = 500\<close>, \<open>max_queries = 2\<close>,
  \<open>verbose = True\<close>, \<open>batch_size = 256\<close>.
\<close>

theorem calibration_calls:
  assumes "run_all L w = (None, s)"
  shows "\<exists>clf atk atk' xtr0 ytr xte0 yte lo hi xtr1 xte1 xm xn n m.
           calls s ! 0 =
             (Call_load_mnist True, Inr (dataset_val ((xtr0, ytr), (xte0, yte), lo, hi))) \<and>
           expand_dims xtr0 1 = Inr xtr1 \<and> expand_dims xte0 1 = Inr xte1 \<and>
           namespace s ''x_train'' = Some (VArray (astype_float32 xtr1)) \<and>
           namespace s ''y_train'' = Some (VInts ytr) \<and>
           namespace s ''x_test'' = Some (VArray (astype_float32 xte1)) \<and>
           namespace s ''y_test'' = Some (VInts yte) \<and>
           calls s ! 9 = (Call_LabelOnlyDecisionBoundary clf, Inr (VObj atk)) \<and>
           calls_made s ! 10 =
             Call_calibrate_distance_threshold atk xm (take 1500 ytr) xn (take 1500 yte) \<and>
           slice_to (astype_float32 xtr1) 1500 = Inr xm \<and>
           slice_to (astype_float32 xte1) 1500 = Inr xn \<and>
           np_len (astype_float32 xtr1) = Inr n \<and> np_len xm = Inr (min n 1500) \<and>
           prefix (data xm) (data (astype_float32 xtr1)) \<and>
           shape xm = min n 1500 # tl (shape (astype_float32 xtr1)) \<and>
           data xm =
             take (min n 1500 * stride (astype_float32 xtr1)) (data (astype_float32 xtr1)) \<and>
           (\<forall>i<min n 1500. row xm i = row (astype_float32 xtr1) i) \<and>
           np_len (astype_float32 xte1) = Inr m \<and> np_len xn = Inr (min m 1500) \<and>
           prefix (data xn) (data (astype_float32 xte1)) \<and>
           shape xn = min m 1500 # tl (shape (astype_float32 xte1)) \<and>
           data xn =
             take (min m 1500 * stride (astype_float32 xte1)) (data (astype_float32 xte1)) \<and>
           (\<forall>i<min m 1500. row xn i = row (astype_float32 xte1) i) \<and>
           (loader_documented L \<longrightarrow>
              length ytr = n \<and> length yte = m \<and>
              length (take 1500 ytr) = min n 1500 \<and> length (take 1500 yte) = min m 1500) \<and>
           calls s ! 14 = (Call_LabelOnlyDecisionBoundary clf, Inr (VObj atk')) \<and>
           calls_made s ! 15 =
             Call_calibrate_distance_threshold_unsupervised atk' 50 500 2 True 256 \<and>
           filter is_calibration (trace s) = filter is_calibration attack_entry_points \<and>
           filter is_calibration attack_entry_points =
             [E_calibrate_distance_threshold, E_calibrate_distance_threshold_unsupervised]"
  using assms
proof (rule complete_runE)
  fix xtr0 ytr xte0 yte lo hi xtr1 xte1 sd mo c ps opt clf a1 xa n1 n2 xm xn a2
    and scores :: "scalar ndarray" and rs p len idx xe ye el p1 r1 p2 r2 w1
  assume ld: "load_mnist L True w = (Inr ((xtr0, ytr), (xte0, yte), lo, hi), w1)"
    and ed: "expand_dims xtr0 1 = Inr xtr1" "expand_dims xte0 1 = Inr xte1"
    and lens: "np_len (astype_float32 xtr1) = Inr n1" "np_len (astype_float32 xte1) = Inr n2"
    and sl: "slice_to (astype_float32 xtr1) 1500 = Inr xm"
      "slice_to (astype_float32 xte1) 1500 = Inr xn"
    and cs: "calls s =
       [(Call_load_mnist True, Inr (dataset_val ((xtr0, ytr), (xte0, yte), lo, hi))),
        (Call_torch_load ''models/mnist_cnn.pt'', Inr (VObj sd)),
        (Call_Net, Inr (VObj mo)),
        (Call_load_state_dict mo sd, Inr VNone),
        (Call_CrossEntropyLoss, Inr (VObj c)),
        (Call_parameters mo, Inr (VObj ps)),
        (Call_Adam ps, Inr (VObj opt)),
        (Call_PyTorchClassifier mo c opt True input_shape 10 (lo, hi), Inr (VObj clf)),
        (Call_predict clf (astype_float32 xte1), Inr (VArray scores)),
        (Call_LabelOnlyDecisionBoundary clf, Inr (VObj a1)),
        (Call_calibrate_distance_threshold a1 xm (slice_ints ytr 1500) xn (slice_ints yte 1500),
         Inr VNone),
        (Call_choice (int len) 500, Inr (VInts idx)),
        (Call_infer a1 xe ye, Inr (VInts p1)),
        (Call_accuracy_score el p1, Inr (VFloat r1)),
        (Call_LabelOnlyDecisionBoundary clf, Inr (VObj a2)),
        (Call_calibrate_distance_threshold_unsupervised a2 50 500 2 True 256, Inr VNone),
        (Call_infer a2 xe ye, Inr (VInts p2)),
        (Call_accuracy_score el p2, Inr (VFloat r2))]"
    and ns: "namespace s =
       [''x_train'' \<mapsto> VArray (astype_float32 xtr1), ''y_train'' \<mapsto> VInts ytr,
        ''x_test'' \<mapsto> VArray (astype_float32 xte1), ''y_test'' \<mapsto> VInts yte,
        ''_min'' \<mapsto> VFloat lo, ''_max'' \<mapsto> VFloat hi,
        ''state_dict'' \<mapsto> VObj sd, ''model'' \<mapsto> VObj mo,
        ''criterion'' \<mapsto> VObj c, ''optimizer'' \<mapsto> VObj opt, ''art_model'' \<mapsto> VObj clf,
        ''pred'' \<mapsto> VInts p,
        ''mia_label_only'' \<mapsto> VObj a1,
        ''attack_train_size'' \<mapsto> VInt 1500, ''attack_test_size'' \<mapsto> VInt 1500,
        ''x'' \<mapsto> VArray xa, ''y'' \<mapsto> VInts (ytr @ yte),
        ''training_sample'' \<mapsto> VInts (replicate n1 1 @ replicate n2 0),
        ''n'' \<mapsto> VInt 500, ''eval_data_idx'' \<mapsto> VInts idx,
        ''x_eval'' \<mapsto> VArray xe, ''y_eval'' \<mapsto> VInts ye, ''eval_label'' \<mapsto> VInts el,
        ''pred_label'' \<mapsto> VInts p1,
        ''mia_label_only_unsupervised'' \<mapsto> VObj a2,
        ''pred_label_unsupervised'' \<mapsto> VInts p2]"
  have tr: "trace s = call_order"
    using run_in_order(2) [OF assms] by simp
  have pm: "np_len xm = Inr (min n1 1500)" "prefix (data xm) (data (astype_float32 xtr1))"
    using slice_to_prefix [OF sl(1) lens(1)] by simp_all
  have pn: "np_len xn = Inr (min n2 1500)" "prefix (data xn) (data (astype_float32 xte1))"
    using slice_to_prefix [OF sl(2) lens(2)] by simp_all
  have em: "shape xm = min n1 1500 # tl (shape (astype_float32 xtr1))"
    "data xm = take (min n1 1500 * stride (astype_float32 xtr1)) (data (astype_float32 xtr1))"
    using slice_to_exact [OF sl(1) lens(1)] by simp_all
  have en: "shape xn = min n2 1500 # tl (shape (astype_float32 xte1))"
    "data xn = take (min n2 1500 * stride (astype_float32 xte1)) (data (astype_float32 xte1))"
    using slice_to_exact [OF sl(2) lens(2)] by simp_all
  have rm: "\<forall>i<min n1 1500. row xm i = row (astype_float32 xtr1) i"
    using slice_to_row [OF sl(1) lens(1)] by simp
  have rn: "\<forall>i<min n2 1500. row xn i = row (astype_float32 xte1) i"
    using slice_to_row [OF sl(2) lens(2)] by simp
  have labels: "loader_documented L \<longrightarrow>
      length ytr = n1 \<and> length yte = n2 \<and>
      length (take 1500 ytr) = min n1 1500 \<and> length (take 1500 yte) = min n2 1500"
  proof
    assume "loader_documented L"
    with ld have "np_len xtr0 = Inr (length ytr)" "np_len xte0 = Inr (length yte)"
      unfolding loader_documented_def by blast+
    with expand_dims_len [OF ed(1)] expand_dims_len [OF ed(2)] lens
    have "length ytr = n1" "length yte = n2"
      by simp_all
    then show "length ytr = n1 \<and> length yte = n2 \<and>
      length (take 1500 ytr) = min n1 1500 \<and> length (take 1500 yte) = min n2 1500"
      by simp
  qed
  have both: "filter is_calibration (trace s) = filter is_calibration attack_entry_points"
    "filter is_calibration attack_entry_points =
       [E_calibrate_distance_threshold, E_calibrate_distance_threshold_unsupervised]"
    by (simp_all add: tr call_order_def attack_entry_points_def is_calibration_def)
  have c0: "calls s ! 0 =
      (Call_load_mnist True, Inr (dataset_val ((xtr0, ytr), (xte0, yte), lo, hi)))"
    and c9: "calls s ! 9 = (Call_LabelOnlyDecisionBoundary clf, Inr (VObj a1))"
    and c10: "calls_made s ! 10 =
      Call_calibrate_distance_threshold a1 xm (take 1500 ytr) xn (take 1500 yte)"
    and c14: "calls s ! 14 = (Call_LabelOnlyDecisionBoundary clf, Inr (VObj a2))"
    and c15: "calls_made s ! 15 =
      Call_calibrate_distance_threshold_unsupervised a2 50 500 2 True 256"
    by (simp_all add: cs calls_made_def slice_ints_prefix(1))
  have vars: "namespace s ''x_train'' = Some (VArray (astype_float32 xtr1))"
    "namespace s ''y_train'' = Some (VInts ytr)"
    "namespace s ''x_test'' = Some (VArray (astype_float32 xte1))"
    "namespace s ''y_test'' = Some (VInts yte)"
    by (simp_all add: ns)
  from c0 ed vars c9 c10 sl lens pm pn em en rm rn labels c14 c15 both
  have "calls s ! 0 =
             (Call_load_mnist True, Inr (dataset_val ((xtr0, ytr), (xte0, yte), lo, hi))) \<and>
           expand_dims xtr0 1 = Inr xtr1 \<and> expand_dims xte0 1 = Inr xte1 \<and>
           namespace s ''x_train'' = Some (VArray (astype_float32 xtr1)) \<and>
           namespace s ''y_train'' = Some (VInts ytr) \<and>
           namespace s ''x_test'' = Some (VArray (astype_float32 xte1)) \<and>
           namespace s ''y_test'' = Some (VInts yte) \<and>
           calls s ! 9 = (Call_LabelOnlyDecisionBoundary clf, Inr (VObj a1)) \<and>
           calls_made s ! 10 =
             Call_calibrate_distance_threshold a1 xm (take 1500 ytr) xn (take 1500 yte) \<and>
           slice_to (astype_float32 xtr1) 1500 = Inr xm \<and>
           slice_to (astype_float32 xte1) 1500 = Inr xn \<and>
           np_len (astype_float32 xtr1) = Inr n1 \<and> np_len xm = Inr (min n1 1500) \<and>
           prefix (data xm) (data (astype_float32 xtr1)) \<and>
           shape xm = min n1 1500 # tl (shape (astype_float32 xtr1)) \<and>
           data xm =
             take (min n1 1500 * stride (astype_float32 xtr1)) (data (astype_float32 xtr1)) \<and>
           (\<forall>i<min n1 1500. row xm i = row (astype_float32 xtr1) i) \<and>
           np_len (astype_float32 xte1) = Inr n2 \<and> np_len xn = Inr (min n2 1500) \<and>
           prefix (data xn) (data (astype_float32 xte1)) \<and>
           shape xn = min n2 1500 # tl (shape (astype_float32 xte1)) \<and>
           data xn =
             take (min n2 1500 * stride (astype_float32 xte1)) (data (astype_float32 xte1)) \<and>
           (\<forall>i<min n2 1500. row xn i = row (astype_float32 xte1) i) \<and>
           (loader_documented L \<longrightarrow>
              length ytr = n1 \<and> length yte = n2 \<and>
              length (take 1500 ytr) = min n1 1500 \<and> length (take 1500 yte) = min n2 1500) \<and>
           calls s ! 14 = (Call_LabelOnlyDecisionBoundary clf, Inr (VObj a2)) \<and>
           calls_made s ! 15 =
             Call_calibrate_distance_threshold_unsupervised a2 50 500 2 True 256 \<and>
           filter is_calibration (trace s) = filter is_calibration attack_entry_points \<and>
           filter is_calibration attack_entry_points =
             [E_calibrate_distance_threshold, E_calibrate_distance_threshold_unsupervised]"
    by (intro conjI)
  then show ?thesis
    by (intro exI)
qed


theorem calibration_calls_witness:
  "run_all large_library 100 = (None, large_final) \<and>
   namespace large_final ''x_train'' = Some (VArray large_x_train) \<and>
   np_len large_x_train = Inr 1501 \<and>
   namespace large_final ''x_test'' = Some (VArray large_x_test) \<and>
   np_len large_x_test = Inr 1502 \<and>
   calls large_final ! 9 = (Call_LabelOnlyDecisionBoundary 105, Inr (VObj 106)) \<and>
   calls_made large_final ! 10 =
     Call_calibrate_distance_threshold 106 large_members (replicate 1500 5)
       large_nonmembers (replicate 1500 4) \<and>
   shape large_members = 1500 # tl (shape large_x_train) \<and>
   data large_members = take (1500 * stride large_x_train) (data large_x_train) \<and>
   length (data large_members) < length (data large_x_train) \<and>
   row large_members 1499 = row large_x_train 1499 \<and>
   shape large_nonmembers = 1500 # tl (shape large_x_test) \<and>
   data large_nonmembers = take (1500 * stride large_x_test) (data large_x_test) \<and>
   row large_nonmembers 1499 = row large_x_test 1499 \<and>
   loader_documented large_library \<and>
   length (replicate 1500 (5::int)) = 1500 \<and> length (replicate 1500 (4::int)) = 1500 \<and>
   calls large_final ! 14 = (Call_LabelOnlyDecisionBoundary 105, Inr (VObj 107)) \<and>
   calls_made large_final ! 15 =
     Call_calibrate_distance_threshold_unsupervised 107 50 500 2 True 256 \<and>
   filter is_calibration (trace large_final) =
     [E_calibrate_distance_threshold, E_calibrate_distance_threshold_unsupervised]"
proof -
  have loader: "loader_documented large_library"
    by (auto simp: loader_documented_def large_library_def demo_library_def np_len_def)
  have vars: "namespace large_final ''x_train'' = Some (VArray large_x_train)"
    "namespace large_final ''x_test'' = Some (VArray large_x_test)"
    "namespace large_final ''y_train'' = Some (VInts (replicate 1501 5))"
    "namespace large_final ''y_test'' = Some (VInts (replicate 1502 4))"
    by (simp_all add: large_final_def)
  have lens: "np_len large_x_train = Inr 1501" "np_len large_x_test = Inr 1502"
    by (simp_all add: np_len_def large_x_train_def large_x_test_def)
  have log: "calls large_final ! 9 = (Call_LabelOnlyDecisionBoundary 105, Inr (VObj 106))"
    "calls_made large_final ! 10 =
      Call_calibrate_distance_threshold 106 large_members (replicate 1500 5)
        large_nonmembers (replicate 1500 4)"
    "calls large_final ! 14 = (Call_LabelOnlyDecisionBoundary 105, Inr (VObj 107))"
    "calls_made large_final ! 15 =
      Call_calibrate_distance_threshold_unsupervised 107 50 500 2 True 256"
    by (simp_all add: large_final_def calls_made_def)
  have shorter: "length (data large_members) < length (data large_x_train)"
    by (simp add: large_members_def large_x_train_def)
  from calibration_calls [OF large_run] obtain atk ytr yte xtr1 xte1 xm xn n m where
    got: "namespace large_final ''x_train'' = Some (VArray (astype_float32 xtr1))"
      "namespace large_final ''x_test'' = Some (VArray (astype_float32 xte1))"
      "namespace large_final ''y_train'' = Some (VInts ytr)"
      "namespace large_final ''y_test'' = Some (VInts yte)"
    and c10: "calls_made large_final ! 10 =
      Call_calibrate_distance_threshold atk xm (take 1500 ytr) xn (take 1500 yte)"
    and n: "np_len (astype_float32 xtr1) = Inr n" "np_len (astype_float32 xte1) = Inr m"
    and exact: "shape xm = min n 1500 # tl (shape (astype_float32 xtr1))"
      "data xm = take (min n 1500 * stride (astype_float32 xtr1)) (data (astype_float32 xtr1))"
      "shape xn = min m 1500 # tl (shape (astype_float32 xte1))"
      "data xn = take (min m 1500 * stride (astype_float32 xte1)) (data (astype_float32 xte1))"
    and each: "\<forall>i<min n 1500. row xm i = row (astype_float32 xtr1) i"
      "\<forall>i<min m 1500. row xn i = row (astype_float32 xte1) i"
    and labels: "loader_documented large_library \<longrightarrow>
      length (take 1500 ytr) = min n 1500 \<and> length (take 1500 yte) = min m 1500"
    and both: "filter is_calibration (trace large_final) = filter is_calibration attack_entry_points"
      "filter is_calibration attack_entry_points =
        [E_calibrate_distance_threshold, E_calibrate_distance_threshold_unsupervised]"
    by (elim exE conjE) blast
  from got vars have eq: "astype_float32 xtr1 = large_x_train" "astype_float32 xte1 = large_x_test"
    "ytr = replicate 1501 5" "yte = replicate 1502 4"
    by simp_all
  from c10 log(2) have passed: "xm = large_members" "xn = large_nonmembers"
    by simp_all
  from n eq lens have size: "n = 1501" "m = 1502"
    by simp_all
  from exact eq passed size have cut:
    "shape large_members = 1500 # tl (shape large_x_train)"
    "data large_members = take (1500 * stride large_x_train) (data large_x_train)"
    "shape large_nonmembers = 1500 # tl (shape large_x_test)"
    "data large_nonmembers = take (1500 * stride large_x_test) (data large_x_test)"
    by simp_all
  from each(1) [rule_format, of 1499] each(2) [rule_format, of 1499] eq passed size
  have last: "row large_members 1499 = row large_x_train 1499"
    "row large_nonmembers 1499 = row large_x_test 1499"
    by simp_all
  from labels loader eq size
  have paired: "length (replicate 1500 (5::int)) = 1500" "length (replicate 1500 (4::int)) = 1500"
    by simp_all
  from both have cal: "filter is_calibration (trace large_final) =
      [E_calibrate_distance_threshold, E_calibrate_distance_threshold_unsupervised]"
    by simp
  from large_run vars(1) lens(1) vars(2) lens(2) log(1,2) cut(1,2) shorter last(1) cut(3,4)
    last(2) loader paired log(3,4) cal
  show ?thesis
    by (intro conjI)
qed


lemma count_agreeing:
  assumes "length yt = length yp"
  shows "length (filter (\<lambda>(u, v). u = v) (zip yt yp)) = card {i. i < length yt \<and> yt ! i = yp ! i}"
proof -
  have "length (filter (\<lambda>(u, v). u = v) (zip yt yp)) =
      card {i. i < length (zip yt yp) \<and> (\<lambda>(u, v). u = v) (zip yt yp ! i)}"
    by (rule length_filter_conv_card)
  also have "{i. i < length (zip yt yp) \<and> (\<lambda>(u, v). u = v) (zip yt yp ! i)} =
      {i. i < length yt \<and> yt ! i = yp ! i}"
    using assms by auto
  finally show ?thesis .
qed

lemma membership_of_sampled:
  assumes "take_ints (replicate n 1 @ replicate m 0) idx = Inr el" and "j < length idx"
  shows "index_ok (n + m) (idx ! j)"
    and "el ! j = (if wrap_index (n + m) (idx ! j) < n then 1 else 0)"
proof -
  from assms have ok: "index_ok (n + m) (idx ! j)"
    by (auto simp: take_ints_def list_all_length split: if_splits)
  then show "index_ok (n + m) (idx ! j)" .
  from wrap_index_less [OF ok] have "wrap_index (n + m) (idx ! j) < n + m" .
  with assms show "el ! j = (if wrap_index (n + m) (idx ! j) < n then 1 else 0)"
    by (auto simp: take_ints_def nth_append split: if_splits)
qed

lemma wrap_index_in_range:
  "0 \<le> i \<Longrightarrow> wrap_index n i < k \<longleftrightarrow> i < int k"
  by (auto simp: wrap_index_def)

text \<open>
  C5. In a run that completes, the first attack object constructed is calibrated with
  data and the second without; each is asked once, on the same \<open>x_eval\<close> and
  \<open>y_eval\<close>, and the metric function is called on the same \<open>eval_label\<close> and the answer
  of each. The two accuracy lines print what these two calls returned. The evaluation
  sample is \<open>x\<close>, \<open>y\<close> and \<open>training_sample\<close> at the indices the sampler returned, so
  that \<open>eval_label\<close> is 1 at a position exactly when the sample drawn there is one of
  the training split. When the metric function and the sampler do what they document,
  the value printed is the number of the 500 evaluation samples whose predicted
  membership is their \<open>eval_label\<close>, over 500, as the float division gives it.
\<close>

theorem accuracy_reported:
  assumes "run_all L w = (None, s)"
  shows "\<exists>clf atk atk' xm ym xn yn xtr xte xa ya n m idx xe ye el p p' acc acc' base.
           namespace s ''x'' = Some (VArray xa) \<and>
           namespace s ''y'' = Some (VInts ya) \<and>
           namespace s ''training_sample'' = Some (VInts (replicate n 1 @ replicate m 0)) \<and>
           namespace s ''x_train'' = Some (VArray xtr) \<and> np_len xtr = Inr n \<and>
           namespace s ''x_test'' = Some (VArray xte) \<and> np_len xte = Inr m \<and>
           concatenate [xtr, xte] = Inr xa \<and> np_len xa = Inr (n + m) \<and>
           calls s ! 11 = (Call_choice (int (n + m)) 500, Inr (VInts idx)) \<and>
           namespace s ''eval_data_idx'' = Some (VInts idx) \<and>
           take_rows xa idx = Inr xe \<and> take_ints ya idx = Inr ye \<and>
           take_ints (replicate n 1 @ replicate m 0) idx = Inr el \<and>
           length el = length idx \<and>
           (\<forall>j<length idx.
              index_ok (n + m) (idx ! j) \<and>
              el ! j = (if wrap_index (n + m) (idx ! j) < n then 1 else 0)) \<and>
           namespace s ''x_eval'' = Some (VArray xe) \<and>
           namespace s ''y_eval'' = Some (VInts ye) \<and>
           namespace s ''eval_label'' = Some (VInts el) \<and>
           calls s ! 9 = (Call_LabelOnlyDecisionBoundary clf, Inr (VObj atk)) \<and>
           calls s ! 10 = (Call_calibrate_distance_threshold atk xm ym xn yn, Inr VNone) \<and>
           calls s ! 12 = (Call_infer atk xe ye, Inr (VInts p)) \<and>
           calls s ! 13 = (Call_accuracy_score el p, Inr (VFloat acc)) \<and>
           calls s ! 14 = (Call_LabelOnlyDecisionBoundary clf, Inr (VObj atk')) \<and>
           calls s ! 15 =
             (Call_calibrate_distance_threshold_unsupervised atk' 50 500 2 True 256,
              Inr VNone) \<and>
           calls s ! 16 = (Call_infer atk' xe ye, Inr (VInts p')) \<and>
           calls s ! 17 = (Call_accuracy_score el p', Inr (VFloat acc')) \<and>
           namespace s ''mia_label_only'' = Some (VObj atk) \<and>
           namespace s ''mia_label_only_unsupervised'' = Some (VObj atk') \<and>
           namespace s ''pred_label'' = Some (VInts p) \<and>
           namespace s ''pred_label_unsupervised'' = Some (VInts p') \<and>
           stdout s = [base, Print_accuracy acc, Print_accuracy acc'] \<and>
           (metric_documented rd L \<longrightarrow>
              acc = rd (fraction_equal el p) \<and> acc' = rd (fraction_equal el p') \<and>
              length p = length el \<and> length p' = length el) \<and>
           (metric_documented rd L \<and> sampler_documented L \<longrightarrow>
              length el = 500 \<and>
              acc = rd (of_nat (card {i. i < 500 \<and> el ! i = p ! i}) / 500) \<and>
              acc' = rd (of_nat (card {i. i < 500 \<and> el ! i = p' ! i}) / 500) \<and>
              (\<forall>j<500.
                 0 \<le> idx ! j \<and> idx ! j < int (n + m) \<and>
                 el ! j = (if idx ! j < int n then 1 else 0)))"
  using assms
proof (rule complete_runE)
  fix xtr0 ytr xte0 yte lo hi xtr1 xte1 sd mo c ps opt clf a1 xa n1 n2 xm xn a2
    and scores :: "scalar ndarray" and rs p len idx xe ye el p1 r1 p2 r2
    and w11 w12 w13 w14 w17 w18
  assume cat: "concatenate [astype_float32 xtr1, astype_float32 xte1] = Inr xa"
    and l12: "np_len (astype_float32 xtr1) = Inr n1" "np_len (astype_float32 xte1) = Inr n2"
    and len: "np_len xa = Inr len"
    and ch: "choice L (int len) 500 w11 = (Inr idx, w12)"
    and tk: "take_rows xa idx = Inr xe" "take_ints (ytr @ yte) idx = Inr ye"
      "take_ints (replicate n1 1 @ replicate n2 0) idx = Inr el"
    and ac: "accuracy_score L el p1 w13 = (Inr r1, w14)" "accuracy_score L el p2 w17 = (Inr r2, w18)"
    and cs: "calls s =
       [(Call_load_mnist True, Inr (dataset_val ((xtr0, ytr), (xte0, yte), lo, hi))),
        (Call_torch_load ''models/mnist_cnn.pt'', Inr (VObj sd)),
        (Call_Net, Inr (VObj mo)),
        (Call_load_state_dict mo sd, Inr VNone),
        (Call_CrossEntropyLoss, Inr (VObj c)),
        (Call_parameters mo, Inr (VObj ps)),
        (Call_Adam ps, Inr (VObj opt)),
        (Call_PyTorchClassifier mo c opt True input_shape 10 (lo, hi), Inr (VObj clf)),
        (Call_predict clf (astype_float32 xte1), Inr (VArray scores)),
        (Call_LabelOnlyDecisionBoundary clf, Inr (VObj a1)),
        (Call_calibrate_distance_threshold a1 xm (slice_ints ytr 1500) xn (slice_ints yte 1500),
         Inr VNone),
        (Call_choice (int len) 500, Inr (VInts idx)),
        (Call_infer a1 xe ye, Inr (VInts p1)),
        (Call_accuracy_score el p1, Inr (VFloat r1)),
        (Call_LabelOnlyDecisionBoundary clf, Inr (VObj a2)),
        (Call_calibrate_distance_threshold_unsupervised a2 50 500 2 True 256, Inr VNone),
        (Call_infer a2 xe ye, Inr (VInts p2)),
        (Call_accuracy_score el p2, Inr (VFloat r2))]"
    and out: "stdout s =
       [Print_base_model_accuracy (np_sum_eq p yte) (length yte), Print_accuracy r1,
        Print_accuracy r2]"
    and ns: "namespace s =
       [''x_train'' \<mapsto> VArray (astype_float32 xtr1), ''y_train'' \<mapsto> VInts ytr,
        ''x_test'' \<mapsto> VArray (astype_float32 xte1), ''y_test'' \<mapsto> VInts yte,
        ''_min'' \<mapsto> VFloat lo, ''_max'' \<mapsto> VFloat hi,
        ''state_dict'' \<mapsto> VObj sd, ''model'' \<mapsto> VObj mo,
        ''criterion'' \<mapsto> VObj c, ''optimizer'' \<mapsto> VObj opt, ''art_model'' \<mapsto> VObj clf,
        ''pred'' \<mapsto> VInts p,
        ''mia_label_only'' \<mapsto> VObj a1,
        ''attack_train_size'' \<mapsto> VInt 1500, ''attack_test_size'' \<mapsto> VInt 1500,
        ''x'' \<mapsto> VArray xa, ''y'' \<mapsto> VInts (ytr @ yte),
        ''training_sample'' \<mapsto> VInts (replicate n1 1 @ replicate n2 0),
        ''n'' \<mapsto> VInt 500, ''eval_data_idx'' \<mapsto> VInts idx,
        ''x_eval'' \<mapsto> VArray xe, ''y_eval'' \<mapsto> VInts ye, ''eval_label'' \<mapsto> VInts el,
        ''pred_label'' \<mapsto> VInts p1,
        ''mia_label_only_unsupervised'' \<mapsto> VObj a2,
        ''pred_label_unsupervised'' \<mapsto> VInts p2]"
  from concatenate_len [OF cat l12] len have total: "len = n1 + n2"
    by simp
  with len have whole: "np_len xa = Inr (n1 + n2)"
    by simp
  have vars: "namespace s ''x'' = Some (VArray xa)"
    "namespace s ''y'' = Some (VInts (ytr @ yte))"
    "namespace s ''training_sample'' = Some (VInts (replicate n1 1 @ replicate n2 0))"
    "namespace s ''x_train'' = Some (VArray (astype_float32 xtr1))"
    "namespace s ''x_test'' = Some (VArray (astype_float32 xte1))"
    "namespace s ''eval_data_idx'' = Some (VInts idx)"
    "namespace s ''x_eval'' = Some (VArray xe)"
    "namespace s ''y_eval'' = Some (VInts ye)"
    "namespace s ''eval_label'' = Some (VInts el)"
    "namespace s ''mia_label_only'' = Some (VObj a1)"
    "namespace s ''mia_label_only_unsupervised'' = Some (VObj a2)"
    "namespace s ''pred_label'' = Some (VInts p1)"
    "namespace s ''pred_label_unsupervised'' = Some (VInts p2)"
    by (simp_all add: ns)
  have log: "calls s ! 9 = (Call_LabelOnlyDecisionBoundary clf, Inr (VObj a1))"
    "calls s ! 10 =
      (Call_calibrate_distance_threshold a1 xm (slice_ints ytr 1500) xn (slice_ints yte 1500),
       Inr VNone)"
    "calls s ! 11 = (Call_choice (int (n1 + n2)) 500, Inr (VInts idx))"
    "calls s ! 12 = (Call_infer a1 xe ye, Inr (VInts p1))"
    "calls s ! 13 = (Call_accuracy_score el p1, Inr (VFloat r1))"
    "calls s ! 14 = (Call_LabelOnlyDecisionBoundary clf, Inr (VObj a2))"
    "calls s ! 15 =
      (Call_calibrate_distance_threshold_unsupervised a2 50 500 2 True 256, Inr VNone)"
    "calls s ! 16 = (Call_infer a2 xe ye, Inr (VInts p2))"
    "calls s ! 17 = (Call_accuracy_score el p2, Inr (VFloat r2))"
    by (simp_all add: cs total)
  have drawn: "length el = length idx"
    using tk(3) by (rule take_ints_length)
  have label: "\<forall>j<length idx.
      index_ok (n1 + n2) (idx ! j) \<and>
      el ! j = (if wrap_index (n1 + n2) (idx ! j) < n1 then 1 else 0)"
    using membership_of_sampled [OF tk(3)] by blast
  have metric: "metric_documented rd L \<longrightarrow>
      r1 = rd (fraction_equal el p1) \<and> r2 = rd (fraction_equal el p2) \<and>
      length p1 = length el \<and> length p2 = length el"
    using ac unfolding metric_documented_def by metis
  have counted: "metric_documented rd L \<and> sampler_documented L \<longrightarrow>
      length el = 500 \<and>
      r1 = rd (of_nat (card {i. i < 500 \<and> el ! i = p1 ! i}) / 500) \<and>
      r2 = rd (of_nat (card {i. i < 500 \<and> el ! i = p2 ! i}) / 500) \<and>
      (\<forall>j<500.
         0 \<le> idx ! j \<and> idx ! j < int (n1 + n2) \<and>
         el ! j = (if idx ! j < int n1 then 1 else 0))"
  proof
    assume doc: "metric_documented rd L \<and> sampler_documented L"
    with metric have m: "r1 = rd (fraction_equal el p1)" "r2 = rd (fraction_equal el p2)"
      "length el = length p1" "length el = length p2"
      by simp_all
    from doc ch have "length idx = nat 500"
      and rng: "list_all (\<lambda>i. 0 \<le> i \<and> i < int len) idx"
      unfolding sampler_documented_def by blast+
    then have k: "length idx = 500"
      by simp
    with drawn have n: "length el = 500"
      by simp
    have each: "0 \<le> idx ! j \<and> idx ! j < int (n1 + n2) \<and>
        el ! j = (if idx ! j < int n1 then 1 else 0)" if "j < 500" for j
    proof -
      from that k have j: "j < length idx"
        by simp
      with rng total have r: "0 \<le> idx ! j" "idx ! j < int (n1 + n2)"
        by (simp_all add: list_all_length)
      from label j have "el ! j = (if wrap_index (n1 + n2) (idx ! j) < n1 then 1 else 0)"
        by simp
      with r wrap_index_in_range [OF r(1), of "n1 + n2" n1] show ?thesis
        by simp
    qed
    from count_agreeing [OF m(3)] count_agreeing [OF m(4)] m(1,2) n each
    show "length el = 500 \<and>
      r1 = rd (of_nat (card {i. i < 500 \<and> el ! i = p1 ! i}) / 500) \<and>
      r2 = rd (of_nat (card {i. i < 500 \<and> el ! i = p2 ! i}) / 500) \<and>
      (\<forall>j<500.
         0 \<le> idx ! j \<and> idx ! j < int (n1 + n2) \<and>
         el ! j = (if idx ! j < int n1 then 1 else 0))"
      by (simp add: fraction_equal_def)
  qed
  from vars l12 cat whole log tk drawn label out metric counted
  have "namespace s ''x'' = Some (VArray xa) \<and>
           namespace s ''y'' = Some (VInts (ytr @ yte)) \<and>
           namespace s ''training_sample'' = Some (VInts (replicate n1 1 @ replicate n2 0)) \<and>
           namespace s ''x_train'' = Some (VArray (astype_float32 xtr1)) \<and> np_len (astype_float32 xtr1) = Inr n1 \<and>
           namespace s ''x_test'' = Some (VArray (astype_float32 xte1)) \<and> np_len (astype_float32 xte1) = Inr n2 \<and>
           concatenate [(astype_float32 xtr1), (astype_float32 xte1)] = Inr xa \<and> np_len xa = Inr (n1 + n2) \<and>
           calls s ! 11 = (Call_choice (int (n1 + n2)) 500, Inr (VInts idx)) \<and>
           namespace s ''eval_data_idx'' = Some (VInts idx) \<and>
           take_rows xa idx = Inr xe \<and> take_ints (ytr @ yte) idx = Inr ye \<and>
           take_ints (replicate n1 1 @ replicate n2 0) idx = Inr el \<and>
           length el = length idx \<and>
           (\<forall>j<length idx.
              index_ok (n1 + n2) (idx ! j) \<and>
              el ! j = (if wrap_index (n1 + n2) (idx ! j) < n1 then 1 else 0)) \<and>
           namespace s ''x_eval'' = Some (VArray xe) \<and>
           namespace s ''y_eval'' = Some (VInts ye) \<and>
           namespace s ''eval_label'' = Some (VInts el) \<and>
           calls s ! 9 = (Call_LabelOnlyDecisionBoundary clf, Inr (VObj a1)) \<and>
           calls s ! 10 = (Call_calibrate_distance_threshold a1 xm (slice_ints ytr 1500) xn (slice_ints yte 1500), Inr VNone) \<and>
           calls s ! 12 = (Call_infer a1 xe ye, Inr (VInts p1)) \<and>
           calls s ! 13 = (Call_accuracy_score el p1, Inr (VFloat r1)) \<and>
           calls s ! 14 = (Call_LabelOnlyDecisionBoundary clf, Inr (VObj a2)) \<and>
           calls s ! 15 =
             (Call_calibrate_distance_threshold_unsupervised a2 50 500 2 True 256,
              Inr VNone) \<and>
           calls s ! 16 = (Call_infer a2 xe ye, Inr (VInts p2)) \<and>
           calls s ! 17 = (Call_accuracy_score el p2, Inr (VFloat r2)) \<and>
           namespace s ''mia_label_only'' = Some (VObj a1) \<and>
           namespace s ''mia_label_only_unsupervised'' = Some (VObj a2) \<and>
           namespace s ''pred_label'' = Some (VInts p1) \<and>
           namespace s ''pred_label_unsupervised'' = Some (VInts p2) \<and>
           stdout s = [(Print_base_model_accuracy (np_sum_eq p yte) (length yte)), Print_accuracy r1, Print_accuracy r2] \<and>
           (metric_documented rd L \<longrightarrow>
              r1 = rd (fraction_equal el p1) \<and> r2 = rd (fraction_equal el p2) \<and>
              length p1 = length el \<and> length p2 = length el) \<and>
           (metric_documented rd L \<and> sampler_documented L \<longrightarrow>
              length el = 500 \<and>
              r1 = rd (of_nat (card {i. i < 500 \<and> el ! i = p1 ! i}) / 500) \<and>
              r2 = rd (of_nat (card {i. i < 500 \<and> el ! i = p2 ! i}) / 500) \<and>
              (\<forall>j<500.
                 0 \<le> idx ! j \<and> idx ! j < int (n1 + n2) \<and>
                 el ! j = (if idx ! j < int n1 then 1 else 0)))"
    by (intro conjI)
  then show ?thesis
    by (intro exI)
qed


theorem accuracy_reported_witness:
  "run_all demo_library 100 = (None, demo_final) \<and>
   calls demo_final ! 9 = (Call_LabelOnlyDecisionBoundary 105, Inr (VObj 106)) \<and>
   calls demo_final ! 12 = (Call_infer 106 demo_x_eval demo_y_eval, Inr (VInts (replicate 500 1))) \<and>
   calls demo_final ! 13 =
     (Call_accuracy_score demo_eval_label (replicate 500 1), Inr (VFloat (1 / 2))) \<and>
   calls demo_final ! 14 = (Call_LabelOnlyDecisionBoundary 105, Inr (VObj 107)) \<and>
   calls demo_final ! 16 = (Call_infer 107 demo_x_eval demo_y_eval, Inr (VInts (replicate 500 1))) \<and>
   calls demo_final ! 17 =
     (Call_accuracy_score demo_eval_label (replicate 500 1), Inr (VFloat (1 / 2))) \<and>
   stdout demo_final = [Print_base_model_accuracy 0 1, Print_accuracy (1 / 2), Print_accuracy (1 / 2)] \<and>
   take_ints (replicate 2 1 @ replicate 1 0) demo_idx = Inr demo_eval_label \<and>
   take_rows demo_x demo_idx = Inr demo_x_eval \<and>
   metric_documented (\<lambda>q. q) demo_library \<and> sampler_documented demo_library \<and>
   length demo_eval_label = 500 \<and>
   (1 / 2 :: rat) = of_nat (card {i. i < 500 \<and> demo_eval_label ! i = replicate 500 (1::int) ! i}) / 500 \<and>
   demo_idx ! 0 = 0 \<and> demo_eval_label ! 0 = 1 \<and>
   demo_idx ! 499 = 2 \<and> demo_eval_label ! 499 = 0"
proof -
  have metric: "metric_documented (\<lambda>q. q) demo_library"
    by (auto simp: metric_documented_def demo_library_def split: if_splits)
  have sampler: "sampler_documented demo_library"
    by (auto simp: sampler_documented_def demo_library_def list_all_iff split: if_splits)
  have facts: "calls demo_final ! 9 = (Call_LabelOnlyDecisionBoundary 105, Inr (VObj 106))"
    "calls demo_final ! 12 = (Call_infer 106 demo_x_eval demo_y_eval, Inr (VInts (replicate 500 1)))"
    "calls demo_final ! 13 =
      (Call_accuracy_score demo_eval_label (replicate 500 1), Inr (VFloat (1 / 2)))"
    "calls demo_final ! 14 = (Call_LabelOnlyDecisionBoundary 105, Inr (VObj 107))"
    "calls demo_final ! 16 = (Call_infer 107 demo_x_eval demo_y_eval, Inr (VInts (replicate 500 1)))"
    "calls demo_final ! 17 =
      (Call_accuracy_score demo_eval_label (replicate 500 1), Inr (VFloat (1 / 2)))"
    "stdout demo_final =
      [Print_base_model_accuracy 0 1, Print_accuracy (1 / 2), Print_accuracy (1 / 2)]"
    by (simp_all add: demo_final_def)
  have vars: "namespace demo_final ''x'' = Some (VArray demo_x)"
    "namespace demo_final ''x_train'' = Some (VArray demo_x_train)"
    "namespace demo_final ''training_sample'' = Some (VInts (replicate 2 1 @ replicate 1 0))"
    "namespace demo_final ''eval_data_idx'' = Some (VInts demo_idx)"
    "namespace demo_final ''x_eval'' = Some (VArray demo_x_eval)"
    "namespace demo_final ''eval_label'' = Some (VInts demo_eval_label)"
    "namespace demo_final ''pred_label'' = Some (VInts (replicate 500 1))"
    by (simp_all add: demo_final_def)
  have first: "demo_idx ! 0 = 0" and last: "demo_idx ! 499 = 2"
    by (simp_all add: demo_idx_def nth_append)
  from accuracy_reported [OF demo_run, of "\<lambda>q. q"] obtain xtr xa n m idx xe el p acc where
    got: "namespace demo_final ''x'' = Some (VArray xa)"
      "namespace demo_final ''x_train'' = Some (VArray xtr)"
      "namespace demo_final ''training_sample'' = Some (VInts (replicate n 1 @ replicate m 0))"
      "namespace demo_final ''eval_data_idx'' = Some (VInts idx)"
      "namespace demo_final ''x_eval'' = Some (VArray xe)"
      "namespace demo_final ''eval_label'' = Some (VInts el)"
      "namespace demo_final ''pred_label'' = Some (VInts p)"
    and n: "np_len xtr = Inr n"
    and tk: "take_rows xa idx = Inr xe" "take_ints (replicate n 1 @ replicate m 0) idx = Inr el"
    and c13: "calls demo_final ! 13 = (Call_accuracy_score el p, Inr (VFloat acc))"
    and doc: "metric_documented (\<lambda>q. q) demo_library \<and> sampler_documented demo_library \<longrightarrow>
      length el = 500 \<and> acc = of_nat (card {i. i < 500 \<and> el ! i = p ! i}) / 500 \<and>
      (\<forall>j<500. el ! j = (if idx ! j < int n then 1 else 0))"
    by (elim exE conjE) blast
  from got vars c13 facts have eq: "xa = demo_x" "xtr = demo_x_train" "idx = demo_idx"
    "xe = demo_x_eval" "el = demo_eval_label" "p = replicate 500 1" "acc = 1 / 2"
    by simp_all
  from n eq have "n = 2"
    by (simp add: np_len_def demo_x_train_def)
  with got(3) vars(3) tk eq have taken:
    "take_ints (replicate 2 1 @ replicate 1 0) demo_idx = Inr demo_eval_label"
    "take_rows demo_x demo_idx = Inr demo_x_eval"
    by simp_all
  from doc metric sampler eq \<open>n = 2\<close> have counted: "length demo_eval_label = 500"
    "(1 / 2 :: rat) = of_nat (card {i. i < 500 \<and> demo_eval_label ! i = replicate 500 (1::int) ! i}) / 500"
    and each: "\<forall>j<500. demo_eval_label ! j = (if demo_idx ! j < 2 then 1 else 0)"
    by simp_all
  from each [rule_format, of 0] each [rule_format, of 499] first last
  have ends: "demo_eval_label ! 0 = 1" "demo_eval_label ! 499 = 0"
    by simp_all
  from demo_run facts taken metric sampler counted first ends(1) last ends(2) show ?thesis
    by (intro conjI)
qed


lemma sampled_in_bounds:
  assumes "list_all (\<lambda>i. 0 \<le> i \<and> i < int n) idx"
  shows "list_all (index_ok n) idx"
  using assms by (auto simp: list_all_iff index_ok_def)

lemma take_rows_in_bounds:
  assumes "np_len a = Inr n" and "list_all (index_ok n) idx"
  shows "\<exists>b. take_rows a idx = Inr b \<and> np_len b = Inr (length idx)"
  using assms by (auto simp: take_rows_def np_len_def split: list.splits)

lemma take_ints_in_bounds:
  assumes "list_all (index_ok (length v)) idx"
  shows "\<exists>el. take_ints v idx = Inr el \<and> length el = length idx"
  using assms by (simp add: take_ints_def)

lemma cell_eval_data_safe:
  assumes doc: "sampler_documented L"
    and bound: "namespace s ''x'' = Some (VArray xa)" "namespace s ''y'' = Some (VInts ya)"
      "namespace s ''training_sample'' = Some (VInts ts)"
    and lens: "np_len xa = Inr len" "length ya = len" "length ts = len"
  shows "case run_stmts (cell_eval_data L) s of
           (None, s') \<Rightarrow>
             (\<exists>idx xe ye el.
                0 < len \<and> length idx = 500 \<and> list_all (\<lambda>i. 0 \<le> i \<and> i < int len) idx \<and>
                take_rows xa idx = Inr xe \<and> take_ints ya idx = Inr ye \<and>
                take_ints ts idx = Inr el \<and>
                np_len xe = Inr 500 \<and> length ye = 500 \<and> length el = 500 \<and>
                namespace s' ''eval_data_idx'' = Some (VInts idx) \<and>
                namespace s' ''x_eval'' = Some (VArray xe) \<and>
                namespace s' ''y_eval'' = Some (VInts ye) \<and>
                namespace s' ''eval_label'' = Some (VInts el))
         | (Some e, s') \<Rightarrow> fst (choice L (int len) 500 (world s)) = Inl e"
proof -
  obtain r0 w' where ch: "choice L (int len) 500 (world s) = (r0, w')"
    by (cases "choice L (int len) 500 (world s)")
  note eval = cell_eval_data_def get_array_def get_int_def get_ints_def py_bind_def py_then_def
    load_name_def lift_def as_array_def as_int_def as_ints_def store_name_def lib_call_def
  show ?thesis
  proof (cases r0)
    case (Inl e)
    with ch bound lens have "fst (run_stmts (cell_eval_data L) s) = Some e"
      by (simp add: eval)
    with ch Inl show ?thesis
      by (cases "run_stmts (cell_eval_data L) s") simp
  next
    case (Inr idx)
    with doc ch have n: "length idx = 500" and rng: "list_all (\<lambda>i. 0 \<le> i \<and> i < int len) idx"
      unfolding sampler_documented_def by (metis nat_numeral)+
    from n obtain i where "i \<in> set idx"
      by (cases idx) auto
    with rng have pos: "0 < len"
      by (auto simp: list_all_iff)
    note ok = sampled_in_bounds [OF rng]
    from take_rows_in_bounds [OF lens(1) ok] obtain xe where
      xe: "take_rows xa idx = Inr xe" "np_len xe = Inr (length idx)"
      by blast
    from take_ints_in_bounds [of ya idx] ok lens(2) obtain ye where
      ye: "take_ints ya idx = Inr ye" "length ye = length idx"
      by auto
    from take_ints_in_bounds [of ts idx] ok lens(3) obtain el where
      el: "take_ints ts idx = Inr el" "length el = length idx"
      by auto
    define s' where "s' = s\<lparr>world := w',
        calls := calls s @ [(Call_choice (int len) 500, Inr (VInts idx))],
        namespace := (namespace s)
          (''n'' \<mapsto> VInt 500, ''eval_data_idx'' \<mapsto> VInts idx,
           ''x_eval'' \<mapsto> VArray xe, ''y_eval'' \<mapsto> VInts ye, ''eval_label'' \<mapsto> VInts el)\<rparr>"
    have run: "run_stmts (cell_eval_data L) s = (None, s')"
      using ch Inr bound lens(1) xe(1) ye(1) el(1)
      by (simp add: eval s'_def)
    have vars: "namespace s' ''eval_data_idx'' = Some (VInts idx)"
      "namespace s' ''x_eval'' = Some (VArray xe)"
      "namespace s' ''y_eval'' = Some (VInts ye)"
      "namespace s' ''eval_label'' = Some (VInts el)"
      by (simp_all add: s'_def)
    from pos n rng xe ye el vars
    have "\<exists>idx xe ye el.
        0 < len \<and> length idx = 500 \<and> list_all (\<lambda>i. 0 \<le> i \<and> i < int len) idx \<and>
        take_rows xa idx = Inr xe \<and> take_ints ya idx = Inr ye \<and>
        take_ints ts idx = Inr el \<and>
        np_len xe = Inr 500 \<and> length ye = 500 \<and> length el = 500 \<and>
        namespace s' ''eval_data_idx'' = Some (VInts idx) \<and>
        namespace s' ''x_eval'' = Some (VArray xe) \<and>
        namespace s' ''y_eval'' = Some (VInts ye) \<and>
        namespace s' ''eval_label'' = Some (VInts el)"
      by (intro exI [of _ idx] exI [of _ xe] exI [of _ ye] exI [of _ el]) simp
    with run show ?thesis
      by simp
  qed
qed

lemma complete_run_lengths:
  assumes run: "run_all L w = (None, s)"
    and doc: "loader_documented L" "sampler_documented L" "attack_documented L"
  shows "\<exists>xa ya ts len.
           namespace s ''x'' = Some (VArray xa) \<and> namespace s ''y'' = Some (VInts ya) \<and>
           namespace s ''training_sample'' = Some (VInts ts) \<and>
           np_len xa = Inr len \<and> length ya = len \<and> length ts = len"
    and "\<forall>c\<in>set (calls_made s). \<forall>yt yp.
           c = Call_accuracy_score yt yp \<longrightarrow> length yt = 500 \<and> length yp = 500"
  using run
proof (atomize (full), rule complete_runE)
  fix xtr0 ytr xte0 yte lo hi xtr1 xte1 sd mo c ps opt clf a1 xa n1 n2 xm xn a2
    and scores :: "scalar ndarray" and rs p len idx xe ye el p1 r1 p2 r2
    and w w1 w11 w12 w13 w16 w17
  assume ld: "load_mnist L True w = (Inr ((xtr0, ytr), (xte0, yte), lo, hi), w1)"
    and ed: "expand_dims xtr0 1 = Inr xtr1" "expand_dims xte0 1 = Inr xte1"
    and cat: "concatenate [astype_float32 xtr1, astype_float32 xte1] = Inr xa"
    and l12: "np_len (astype_float32 xtr1) = Inr n1" "np_len (astype_float32 xte1) = Inr n2"
    and len: "np_len xa = Inr len"
    and ch: "choice L (int len) 500 w11 = (Inr idx, w12)"
    and tk: "take_rows xa idx = Inr xe"
      "take_ints (replicate n1 1 @ replicate n2 0) idx = Inr el"
    and inf: "infer L a1 xe ye w12 = (Inr p1, w13)" "infer L a2 xe ye w16 = (Inr p2, w17)"
    and cs: "calls s =
       [(Call_load_mnist True, Inr (dataset_val ((xtr0, ytr), (xte0, yte), lo, hi))),
        (Call_torch_load ''models/mnist_cnn.pt'', Inr (VObj sd)),
        (Call_Net, Inr (VObj mo)),
        (Call_load_state_dict mo sd, Inr VNone),
        (Call_CrossEntropyLoss, Inr (VObj c)),
        (Call_parameters mo, Inr (VObj ps)),
        (Call_Adam ps, Inr (VObj opt)),
        (Call_PyTorchClassifier mo c opt True input_shape 10 (lo, hi), Inr (VObj clf)),
        (Call_predict clf (astype_float32 xte1), Inr (VArray scores)),
        (Call_LabelOnlyDecisionBoundary clf, Inr (VObj a1)),
        (Call_calibrate_distance_threshold a1 xm (slice_ints ytr 1500) xn (slice_ints yte 1500),
         Inr VNone),
        (Call_choice (int len) 500, Inr (VInts idx)),
        (Call_infer a1 xe ye, Inr (VInts p1)),
        (Call_accuracy_score el p1, Inr (VFloat r1)),
        (Call_LabelOnlyDecisionBoundary clf, Inr (VObj a2)),
        (Call_calibrate_distance_threshold_unsupervised a2 50 500 2 True 256, Inr VNone),
        (Call_infer a2 xe ye, Inr (VInts p2)),
        (Call_accuracy_score el p2, Inr (VFloat r2))]"
    and ns: "namespace s =
       [''x_train'' \<mapsto> VArray (astype_float32 xtr1), ''y_train'' \<mapsto> VInts ytr,
        ''x_test'' \<mapsto> VArray (astype_float32 xte1), ''y_test'' \<mapsto> VInts yte,
        ''_min'' \<mapsto> VFloat lo, ''_max'' \<mapsto> VFloat hi,
        ''state_dict'' \<mapsto> VObj sd, ''model'' \<mapsto> VObj mo,
        ''criterion'' \<mapsto> VObj c, ''optimizer'' \<mapsto> VObj opt, ''art_model'' \<mapsto> VObj clf,
        ''pred'' \<mapsto> VInts p,
        ''mia_label_only'' \<mapsto> VObj a1,
        ''attack_train_size'' \<mapsto> VInt 1500, ''attack_test_size'' \<mapsto> VInt 1500,
        ''x'' \<mapsto> VArray xa, ''y'' \<mapsto> VInts (ytr @ yte),
        ''training_sample'' \<mapsto> VInts (replicate n1 1 @ replicate n2 0),
        ''n'' \<mapsto> VInt 500, ''eval_data_idx'' \<mapsto> VInts idx,
        ''x_eval'' \<mapsto> VArray xe, ''y_eval'' \<mapsto> VInts ye, ''eval_label'' \<mapsto> VInts el,
        ''pred_label'' \<mapsto> VInts p1,
        ''mia_label_only_unsupervised'' \<mapsto> VObj a2,
        ''pred_label_unsupervised'' \<mapsto> VInts p2]"
  from doc(1) ld have "np_len xtr0 = Inr (length ytr)" "np_len xte0 = Inr (length yte)"
    unfolding loader_documented_def by blast+
  with expand_dims_len [OF ed(1)] expand_dims_len [OF ed(2)] l12
  have labels: "length ytr = n1" "length yte = n2"
    by simp_all
  from concatenate_len [OF cat l12] len have total: "len = n1 + n2"
    by simp
  have vars: "namespace s ''x'' = Some (VArray xa)" "namespace s ''y'' = Some (VInts (ytr @ yte))"
    "namespace s ''training_sample'' = Some (VInts (replicate n1 1 @ replicate n2 0))"
    by (simp_all add: ns)
  have first: "\<exists>xa ya ts len.
      namespace s ''x'' = Some (VArray xa) \<and> namespace s ''y'' = Some (VInts ya) \<and>
      namespace s ''training_sample'' = Some (VInts ts) \<and>
      np_len xa = Inr len \<and> length ya = len \<and> length ts = len"
    using vars len labels total by auto
  from doc(2) ch have n: "length idx = 500"
    unfolding sampler_documented_def by (metis nat_numeral)
  from take_ints_length [OF tk(2)] n have el: "length el = 500"
    by simp
  from take_rows_len [OF tk(1)] n have "np_len xe = Inr 500"
    by simp
  with doc(3) inf have "length p1 = 500" "length p2 = 500"
    unfolding attack_documented_def by (metis Inr_inject)+
  with el have second: "\<forall>c\<in>set (calls_made s). \<forall>yt yp.
      c = Call_accuracy_score yt yp \<longrightarrow> length yt = 500 \<and> length yp = 500"
    by (auto simp: calls_made_def cs)
  from first second
  show "(\<exists>xa ya ts len.
      namespace s ''x'' = Some (VArray xa) \<and> namespace s ''y'' = Some (VInts ya) \<and>
      namespace s ''training_sample'' = Some (VInts ts) \<and>
      np_len xa = Inr len \<and> length ya = len \<and> length ts = len) \<and>
    (\<forall>c\<in>set (calls_made s). \<forall>yt yp.
      c = Call_accuracy_score yt yp \<longrightarrow> length yt = 500 \<and> length yp = 500)"
    by (rule conjI)
qed

text \<open>
  C9. When the sampler does what it documents, the cell that draws the evaluation
  sample, run in a state where \<open>x\<close>, \<open>y\<close> and \<open>training_sample\<close> have one length, can
  only fail by the sampler itself raising (as it does on an empty \<open>x\<close>): when the
  sampler returns, \<open>x\<close> is not empty, each of the 500 indices is in the range of \<open>x\<close>,
  the three indexings return, and \<open>x_eval\<close>, \<open>y_eval\<close> and \<open>eval_label\<close> have length
  500. In a run that completes, with a loader and an attack that do what they document,
  \<open>x\<close>, \<open>y\<close> and \<open>training_sample\<close> do have one length, and both arguments of every
  call of the metric function have length 500.
\<close>

theorem evaluation_sample_in_bounds:
  assumes "sampler_documented L"
  shows "(\<forall>s xa ya ts len.
            namespace s ''x'' = Some (VArray xa) \<and> namespace s ''y'' = Some (VInts ya) \<and>
            namespace s ''training_sample'' = Some (VInts ts) \<and>
            np_len xa = Inr len \<and> length ya = len \<and> length ts = len \<longrightarrow>
            (case run_stmts (cell_eval_data L) s of
               (None, s') \<Rightarrow>
                 (\<exists>idx xe ye el.
                    0 < len \<and> length idx = 500 \<and>
                    list_all (\<lambda>i. 0 \<le> i \<and> i < int len) idx \<and>
                    take_rows xa idx = Inr xe \<and> take_ints ya idx = Inr ye \<and>
                    take_ints ts idx = Inr el \<and>
                    np_len xe = Inr 500 \<and> length ye = 500 \<and> length el = 500 \<and>
                    namespace s' ''eval_data_idx'' = Some (VInts idx) \<and>
                    namespace s' ''x_eval'' = Some (VArray xe) \<and>
                    namespace s' ''y_eval'' = Some (VInts ye) \<and>
                    namespace s' ''eval_label'' = Some (VInts el))
             | (Some e, s') \<Rightarrow> fst (choice L (int len) 500 (world s)) = Inl e)) \<and>
         (\<forall>w s. loader_documented L \<and> attack_documented L \<and> run_all L w = (None, s) \<longrightarrow>
            (\<exists>xa ya ts len.
               namespace s ''x'' = Some (VArray xa) \<and> namespace s ''y'' = Some (VInts ya) \<and>
               namespace s ''training_sample'' = Some (VInts ts) \<and>
               np_len xa = Inr len \<and> length ya = len \<and> length ts = len) \<and>
            (\<forall>c\<in>set (calls_made s). \<forall>yt yp.
               c = Call_accuracy_score yt yp \<longrightarrow> length yt = 500 \<and> length yp = 500))"
proof (intro conjI allI impI)
  fix s :: "'a kernel" and xa ya ts len
  assume "namespace s ''x'' = Some (VArray xa) \<and> namespace s ''y'' = Some (VInts ya) \<and>
      namespace s ''training_sample'' = Some (VInts ts) \<and>
      np_len xa = Inr len \<and> length ya = len \<and> length ts = len"
  then have "namespace s ''x'' = Some (VArray xa)" "namespace s ''y'' = Some (VInts ya)"
    "namespace s ''training_sample'' = Some (VInts ts)"
    "np_len xa = Inr len" "length ya = len" "length ts = len"
    by simp_all
  from cell_eval_data_safe [OF assms this]
  show "case run_stmts (cell_eval_data L) s of
      (None, s') \<Rightarrow>
        (\<exists>idx xe ye el.
           0 < len \<and> length idx = 500 \<and>
           list_all (\<lambda>i. 0 \<le> i \<and> i < int len) idx \<and>
           take_rows xa idx = Inr xe \<and> take_ints ya idx = Inr ye \<and>
           take_ints ts idx = Inr el \<and>
           np_len xe = Inr 500 \<and> length ye = 500 \<and> length el = 500 \<and>
           namespace s' ''eval_data_idx'' = Some (VInts idx) \<and>
           namespace s' ''x_eval'' = Some (VArray xe) \<and>
           namespace s' ''y_eval'' = Some (VInts ye) \<and>
           namespace s' ''eval_label'' = Some (VInts el))
    | (Some e, s') \<Rightarrow> fst (choice L (int len) 500 (world s)) = Inl e" .
next
  fix w and s :: "'a kernel"
  assume h: "loader_documented L \<and> attack_documented L \<and> run_all L w = (None, s)"
  then have run: "run_all L w = (None, s)" and doc: "loader_documented L" "attack_documented L"
    by simp_all
  from complete_run_lengths(1) [OF run doc(1) assms doc(2)]
  show "\<exists>xa ya ts len.
      namespace s ''x'' = Some (VArray xa) \<and> namespace s ''y'' = Some (VInts ya) \<and>
      namespace s ''training_sample'' = Some (VInts ts) \<and>
      np_len xa = Inr len \<and> length ya = len \<and> length ts = len" .
  from complete_run_lengths(2) [OF run doc(1) assms doc(2)]
  show "\<forall>c\<in>set (calls_made s). \<forall>yt yp.
      c = Call_accuracy_score yt yp \<longrightarrow> length yt = 500 \<and> length yp = 500" .
qed


theorem evaluation_sample_in_bounds_witness:
  "sampler_documented demo_library \<and> loader_documented demo_library \<and>
   attack_documented demo_library \<and>
   run_all demo_library 100 = (None, demo_final) \<and>
   namespace demo_final ''x'' = Some (VArray demo_x) \<and>
   namespace demo_final ''y'' = Some (VInts [5, 0, 4]) \<and>
   namespace demo_final ''training_sample'' = Some (VInts (replicate 2 1 @ replicate 1 0)) \<and>
   np_len demo_x = Inr 3 \<and>
   fst (run_stmts (cell_eval_data demo_library) demo_final) = None \<and>
   Call_accuracy_score demo_eval_label (replicate 500 1) \<in> set (calls_made demo_final) \<and>
   length demo_eval_label = 500 \<and> length (replicate 500 (1::int)) = 500"
proof -
  have sampler: "sampler_documented demo_library"
    by (auto simp: sampler_documented_def demo_library_def list_all_iff split: if_splits)
  have loader: "loader_documented demo_library"
    by (auto simp: loader_documented_def demo_library_def np_len_def split: if_splits)
  have attack: "attack_documented demo_library"
    by (auto simp: attack_documented_def demo_library_def split: if_splits sum.splits)
  have vars: "namespace demo_final ''x'' = Some (VArray demo_x)"
    "namespace demo_final ''y'' = Some (VInts [5, 0, 4])"
    "namespace demo_final ''training_sample'' = Some (VInts (replicate 2 1 @ replicate 1 0))"
    by (simp_all add: demo_final_def)
  have len: "np_len demo_x = Inr 3"
    by (simp add: np_len_def demo_x_def)
  have drawn: "fst (choice demo_library (int 3) 500 (world demo_final)) \<noteq> Inl e" for e
    by (simp add: demo_library_def)
  have scored: "Call_accuracy_score demo_eval_label (replicate 500 1) \<in> set (calls_made demo_final)"
    by (simp add: calls_made_def demo_final_def)
  note at_demo = evaluation_sample_in_bounds [OF sampler]
  from at_demo have "namespace demo_final ''x'' = Some (VArray demo_x) \<and>
      namespace demo_final ''y'' = Some (VInts [5, 0, 4]) \<and>
      namespace demo_final ''training_sample'' = Some (VInts (replicate 2 1 @ replicate 1 0)) \<and>
      np_len demo_x = Inr 3 \<and> length [5, 0, 4 :: int] = 3 \<and> length (replicate 2 (1::int) @ replicate 1 0) = 3 \<longrightarrow>
      (case run_stmts (cell_eval_data demo_library) demo_final of
         (None, s') \<Rightarrow> True
       | (Some e, s') \<Rightarrow> fst (choice demo_library (int 3) 500 (world demo_final)) = Inl e)"
    by (elim conjE allE [of _ demo_final] allE [of _ demo_x] allE [of _ "[5, 0, 4]"]
        allE [of _ "replicate 2 1 @ replicate 1 0"] allE [of _ 3])
      (auto split: prod.splits option.splits)
  with vars len drawn have returns: "fst (run_stmts (cell_eval_data demo_library) demo_final) = None"
    by (cases "run_stmts (cell_eval_data demo_library) demo_final")
      (auto split: option.splits)
  from at_demo have "loader_documented demo_library \<and> attack_documented demo_library \<and>
      run_all demo_library 100 = (None, demo_final) \<longrightarrow>
      (\<forall>c\<in>set (calls_made demo_final). \<forall>yt yp.
         c = Call_accuracy_score yt yp \<longrightarrow> length yt = 500 \<and> length yp = 500)"
    by (elim conjE allE [of _ 100] allE [of _ demo_final]) simp
  with loader attack demo_run scored
  have lens: "length demo_eval_label = 500 \<and> length (replicate 500 (1::int)) = 500"
    by blast
  from sampler loader attack demo_run vars len returns scored lens show ?thesis
    by (intro conjI) simp_all
qed


end
